theory Spec2Isabelle
  imports Main "HOL-Library.Char_ord" "HOL-Library.List_Lexorder" "HOL-Library.Sublist"
    "HOL-Library.Multiset"
begin

section \<open>Rows of the external store (types/kanban.ts)\<close>

text \<open>
  Every interface of \<^verbatim>\<open>types/kanban.ts\<close> is a record. A field \<^verbatim>\<open>f\<close> of the interface
  \<^verbatim>\<open>R\<close> is the selector \<open>R_f\<close>, since record fields share one name space.
  Identifiers and timestamps are strings, as in the source; \<^verbatim>\<open>number\<close> positions are integers;
  \<^verbatim>\<open>T | null\<close> is \<open>T option\<close>.
\<close>

type_synonym ident = string

datatype priority = Low | Medium | High | Critical

datatype board_type = Personal | Assigned

datatype dateFilter = All | Today | Week | Overdue | NoDate

record subtask =
  subtask_id :: ident
  subtask_card_id :: ident
  subtask_title :: string
  subtask_is_completed :: bool
  subtask_position :: int
  subtask_created_at :: string

record card =
  card_id :: ident
  card_column_id :: ident
  card_title :: string
  card_description :: "string option"
  card_position :: int
  card_due_date :: "string option"
  card_priority :: priority
  card_assigned_to :: "ident option"
  card_created_at :: string
  card_updated_at :: string

record column =
  column_id :: ident
  column_board_id :: ident
  column_title :: string
  column_position :: int
  column_wip_limit :: "int option"
  column_created_at :: string

record board =
  board_id :: ident
  board_title :: string
  board_owner_id :: ident
  board_org_id :: "ident option"
  board_assigned_to :: "ident option"
  board_board_type :: board_type
  board_created_at :: string
  board_updated_at :: string

record label =
  label_id :: ident
  label_board_id :: ident
  label_text :: string
  label_color :: string

record cardLabel =
  cardLabel_card_id :: ident
  cardLabel_label_id :: ident

record attachment =
  attachment_id :: ident
  attachment_card_id :: ident
  attachment_file_name :: string
  attachment_file_type :: string
  attachment_file_size :: int
  attachment_storage_path :: string
  attachment_created_at :: string

record comment =
  comment_id :: ident
  comment_card_id :: ident
  comment_content :: string
  comment_created_at :: string
  comment_user_id :: "ident option"

text \<open>The \<^verbatim>\<open>details\<close> of an activity are a JSON object: a list of keys with their values.\<close>

datatype jval = JStr string | JNull

record activity =
  activity_id :: ident
  activity_card_id :: "ident option"
  activity_board_id :: "ident option"
  activity_action_type :: string
  activity_details :: "(string \<times> jval) list"
  activity_created_at :: string
  activity_user_id :: "ident option"

text \<open>
  \<^verbatim>\<open>CardWithLabels extends Card\<close> and \<^verbatim>\<open>ColumnWithCards extends Column\<close>: record extensions.
  The optional lists of \<^verbatim>\<open>CardWithLabels\<close> are lists here, \<^verbatim>\<open>undefined\<close> being the empty list
  (the code reads them through \<^verbatim>\<open>?.\<close> and \<^verbatim>\<open>|| []\<close> only).
\<close>

record cardWithLabels = card +
  labels :: "label list"
  subtasks :: "subtask list"
  attachments :: "attachment list"
  comments :: "comment list"
  activities :: "activity list"

record columnWithCards = column +
  cards :: "cardWithLabels list"

record filterState =
  searchQuery :: string
  filter_labels :: "ident list"
  priorities :: "priority list"
  dateFilter :: dateFilter

definition DEFAULT_FILTER_STATE :: filterState where
  "DEFAULT_FILTER_STATE =
     \<lparr>searchQuery = [], filter_labels = [], priorities = [], dateFilter = All\<rparr>"

section \<open>Strings\<close>

text \<open>
  A JavaScript string is modelled by the list of the bytes of its UTF-8 encoding.
  \<open>str_includes\<close> is \<^verbatim>\<open>String.prototype.includes\<close>: the pattern occurs as a contiguous
  piece. A string is truthy when it is not empty. \<^verbatim>\<open>String.prototype.toLowerCase\<close> follows
  the case mappings of Unicode, which are tables of the JavaScript runtime and not of the
  repository: it is the field \<open>toLowerCase\<close> of the environment \<open>env\<close> below, a function
  from strings to strings about which nothing is assumed.
\<close>

fun startsWith :: "string \<Rightarrow> string \<Rightarrow> bool" where
  "startsWith s [] = True"
| "startsWith [] (p # ps) = False"
| "startsWith (c # cs) (p # ps) = (c = p \<and> startsWith cs ps)"

fun str_includes :: "string \<Rightarrow> string \<Rightarrow> bool" where
  "str_includes [] p = (p = [])"
| "str_includes (c # cs) p = (startsWith (c # cs) p \<or> str_includes cs p)"

definition truthy :: "string option \<Rightarrow> bool" where
  "truthy v = (case v of None \<Rightarrow> False | Some s \<Rightarrow> s \<noteq> [])"

section \<open>The external store\<close>

text \<open>
  The Backend-as-a-Service is not part of the repository; the client reaches it through
  \<^verbatim>\<open>db.<table>()\<close> and \<^verbatim>\<open>supabase.storage\<close> (lib/supabase.ts). The model keeps one list of
  rows for each table and the list of object paths of the bucket \<^verbatim>\<open>kanban-files\<close>.

  Every call is answered with \<^verbatim>\<open>{ data, error }\<close>. Whether a call fails is the store's
  choice: \<open>faults\<close> lists the answers of the coming requests (\<open>None\<close>: the request is
  performed; \<open>Some m\<close>: it is refused with an error of message \<open>m\<close> and changes nothing),
  and a store whose list is empty performs every request. The store also chooses the
  identifier of each inserted row (\<open>fresh\<close>, indexed by the number \<open>serial\<close> of rows inserted
  so far), its \<^verbatim>\<open>created_at\<close> (\<open>clock\<close>) and the schema's default values.
\<close>

text \<open>
  A value that is thrown and caught is an instance of \<^verbatim>\<open>Error\<close> with its message (\<open>Error\<close>)
  or any other value (\<open>Thrown\<close>, with its message).
\<close>

datatype js_error = Error string | Thrown string

record store =
  tbl_boards :: "board list"
  tbl_columns :: "column list"
  tbl_cards :: "card list"
  tbl_labels :: "label list"
  tbl_card_labels :: "cardLabel list"
  tbl_subtasks :: "subtask list"
  tbl_attachments :: "attachment list"
  tbl_comments :: "comment list"
  tbl_activities :: "activity list"
  bucket :: "string list"
  faults :: "string option list"
  fresh :: "nat \<Rightarrow> ident"
  serial :: nat
  clock :: string
  auth_uid :: ident
  default_priority :: priority
  default_is_completed :: bool

text \<open>
  A request to a table. Its error is the plain object \<^verbatim>\<open>{ message, details, hint, code }\<close>
  of the client of the tables, which is not an instance of \<^verbatim>\<open>Error\<close>.
\<close>

definition request :: "store \<Rightarrow> js_error option \<times> store" where
  "request st =
     (case faults st of
        [] \<Rightarrow> (None, st)
      | f # fs \<Rightarrow> (map_option Thrown f, st\<lparr>faults := fs\<rparr>))"

text \<open>
  A request to the file storage. Its error is a \<^verbatim>\<open>StorageError\<close>, a subclass of \<^verbatim>\<open>Error\<close>.
\<close>

definition storage_request :: "store \<Rightarrow> js_error option \<times> store" where
  "storage_request st =
     (case faults st of
        [] \<Rightarrow> (None, st)
      | f # fs \<Rightarrow> (map_option Error f, st\<lparr>faults := fs\<rparr>))"

text \<open>
  \<^verbatim>\<open>.single()\<close>: exactly one row, or the error PGRST116, a plain object like every error
  of a table request.
\<close>

definition PGRST116 :: js_error where
  "PGRST116 = Thrown ''JSON object requested, multiple (or no) rows returned''"

definition single :: "'a list \<Rightarrow> js_error + 'a" where
  "single rows = (case rows of [r] \<Rightarrow> Inr r | _ \<Rightarrow> Inl PGRST116)"

text \<open>
  A select whose error is not read: \<^verbatim>\<open>const { data } = await ...; xs = data || []\<close>.
\<close>

definition data_or_empty :: "store \<Rightarrow> 'a list \<Rightarrow> 'a list \<times> store" where
  "data_or_empty st rows =
     (case request st of
        (Some e, st') \<Rightarrow> ([], st')
      | (None, st') \<Rightarrow> (rows, st'))"

section \<open>The hook's state (hooks/useBoard.ts)\<close>

text \<open>
  The state of \<^verbatim>\<open>useBoard\<close>: its four \<^verbatim>\<open>useState\<close> cells, and the lines written with
  \<^verbatim>\<open>console.error\<close> (the label and the error logged). \<open>env\<close> is what the code reads from
  the hook's argument, from \<^verbatim>\<open>useAuth()\<close> and from the browser: its clock and the
  \<^verbatim>\<open>toLowerCase\<close> of its strings.
\<close>

record hook =
  board :: "board option"
  columns :: "columnWithCards list"
  loading :: bool
  error :: "string option"
  console :: "(string \<times> js_error) list"

record env =
  boardId :: "ident option"
  profile_full_name :: "string option"
  user_email :: "string option"
  user_id :: "ident option"
  now :: string
  toLowerCase :: "string \<Rightarrow> string"

text \<open>\<^verbatim>\<open>err instanceof Error ? err.message : fallback\<close>\<close>

definition err_message :: "js_error \<Rightarrow> string \<Rightarrow> string" where
  "err_message e fallback = (case e of Error m \<Rightarrow> m | Thrown v \<Rightarrow> fallback)"

text \<open>The body of a catch block: \<^verbatim>\<open>setError(...); console.error(label, err)\<close>.\<close>

definition catch :: "string \<Rightarrow> string \<Rightarrow> js_error \<Rightarrow> hook \<Rightarrow> hook" where
  "catch fallback lbl e h =
     h\<lparr>error := Some (err_message e fallback), console := console h @ [(lbl, e)]\<rparr>"

subsection \<open>fetchBoard\<close>

text \<open>Lines 111 to 128: the columns with their cards, and each card with its lists.\<close>

definition columnsWithCards ::
  "column list \<Rightarrow> card list \<Rightarrow> subtask list \<Rightarrow> label list \<Rightarrow> cardLabel list \<Rightarrow>
   attachment list \<Rightarrow> comment list \<Rightarrow> activity list \<Rightarrow> columnWithCards list" where
  "columnsWithCards columnsData cardsData subtasksData labelsData cardLabelsData
     attachmentsData commentsData activitiesData =
     map (\<lambda>col. column.extend col (columnWithCards.fields
       (map (\<lambda>c.
          let cardLabelIds =
            map cardLabel_label_id (filter (\<lambda>cl. cardLabel_card_id cl = card_id c) cardLabelsData)
          in card.extend c (cardWithLabels.fields
               (filter (\<lambda>l. label_id l \<in> set cardLabelIds) labelsData)
               (filter (\<lambda>s. subtask_card_id s = card_id c) subtasksData)
               (filter (\<lambda>a. attachment_card_id a = card_id c) attachmentsData)
               (filter (\<lambda>m. comment_card_id m = card_id c) commentsData)
               (filter (\<lambda>a. activity_card_id a = Some (card_id c)) activitiesData)))
        (filter (\<lambda>c. card_column_id c = column_id col) cardsData))))
     columnsData"

text \<open>
  The queries of fetchBoard. \<^verbatim>\<open>.order('position')\<close> sorts ascending,
  \<^verbatim>\<open>.order('created_at', { ascending: false })\<close> descending.
\<close>

definition q_board :: "store \<Rightarrow> ident \<Rightarrow> js_error + board" where
  "q_board st b = single (filter (\<lambda>r. board_id r = b) (tbl_boards st))"

definition q_columns :: "store \<Rightarrow> ident \<Rightarrow> column list" where
  "q_columns st b = sort_key column_position (filter (\<lambda>r. column_board_id r = b) (tbl_columns st))"

definition q_cards :: "store \<Rightarrow> ident list \<Rightarrow> card list" where
  "q_cards st columnIds =
     sort_key card_position (filter (\<lambda>r. card_column_id r \<in> set columnIds) (tbl_cards st))"

definition q_subtasks :: "store \<Rightarrow> ident list \<Rightarrow> subtask list" where
  "q_subtasks st cardIds =
     sort_key subtask_position (filter (\<lambda>r. subtask_card_id r \<in> set cardIds) (tbl_subtasks st))"

definition q_attachments :: "store \<Rightarrow> ident list \<Rightarrow> attachment list" where
  "q_attachments st cardIds =
     rev (sort_key attachment_created_at
       (filter (\<lambda>r. attachment_card_id r \<in> set cardIds) (tbl_attachments st)))"

definition q_comments :: "store \<Rightarrow> ident list \<Rightarrow> comment list" where
  "q_comments st cardIds =
     rev (sort_key comment_created_at
       (filter (\<lambda>r. comment_card_id r \<in> set cardIds) (tbl_comments st)))"

definition q_activities :: "store \<Rightarrow> ident list \<Rightarrow> activity list" where
  "q_activities st cardIds =
     rev (sort_key activity_created_at
       (filter (\<lambda>r. case activity_card_id r of None \<Rightarrow> False | Some c \<Rightarrow> c \<in> set cardIds)
          (tbl_activities st)))"

definition q_labels :: "store \<Rightarrow> ident \<Rightarrow> label list" where
  "q_labels st b = filter (\<lambda>r. label_board_id r = b) (tbl_labels st)"

definition q_card_labels :: "store \<Rightarrow> ident list \<Rightarrow> cardLabel list" where
  "q_card_labels st cardIds = filter (\<lambda>r. cardLabel_card_id r \<in> set cardIds) (tbl_card_labels st)"

text \<open>
  Lines 58 to 108, once the columns are there: the cards, then the lists of the cards
  (errors of these five selects are not read), then the composition. The result is the
  error thrown, or the composed columns.
\<close>

definition fetch_nested ::
  "ident \<Rightarrow> column list \<Rightarrow> store \<Rightarrow> (js_error + columnWithCards list) \<times> store" where
  "fetch_nested b columnsData st =
     (let columnIds = map column_id columnsData in
      if columnIds = [] then (Inr (columnsWithCards columnsData [] [] [] [] [] [] []), st)
      else
        case request st of
          (Some e, st1) \<Rightarrow> (Inl e, st1)
        | (None, st1) \<Rightarrow>
            let cardsData = q_cards st1 columnIds;
                cardIds = map card_id cardsData;
                (subtasksData, st2) =
                   (if cardIds = [] then ([], st1) else data_or_empty st1 (q_subtasks st1 cardIds));
                (attachmentsData, st3) =
                   (if cardIds = [] then ([], st2) else data_or_empty st2 (q_attachments st2 cardIds));
                (commentsData, st4) =
                   (if cardIds = [] then ([], st3) else data_or_empty st3 (q_comments st3 cardIds));
                (activitiesData, st5) =
                   (if cardIds = [] then ([], st4) else data_or_empty st4 (q_activities st4 cardIds));
                (labelsData, st6) = data_or_empty st5 (q_labels st5 b);
                (cardLabelsData, st7) =
                   (if cardIds = [] then ([], st6) else data_or_empty st6 (q_card_labels st6 cardIds))
            in (Inr (columnsWithCards columnsData cardsData subtasksData labelsData
                      cardLabelsData attachmentsData commentsData activitiesData), st7))"

text \<open>
  The try block of fetchBoard: the error thrown (if any) with the state reached.
  \<^verbatim>\<open>setBoard\<close> has run when a later query throws.
\<close>

definition fetchBoard_try :: "ident \<Rightarrow> hook \<times> store \<Rightarrow> js_error option \<times> hook \<times> store" where
  "fetchBoard_try b w =
     (let (h, st) = w; h1 = h\<lparr>loading := True, error := None\<rparr> in
      case request st of
        (Some e, st1) \<Rightarrow> (Some e, h1, st1)
      | (None, st1) \<Rightarrow>
         (case q_board st1 b of
            Inl e \<Rightarrow> (Some e, h1, st1)
          | Inr boardData \<Rightarrow>
             (let h2 = h1\<lparr>board := Some boardData\<rparr> in
              case request st1 of
                (Some e, st2) \<Rightarrow> (Some e, h2, st2)
              | (None, st2) \<Rightarrow>
                 (case fetch_nested b (q_columns st2 b) st2 of
                    (Inl e, st3) \<Rightarrow> (Some e, h2, st3)
                  | (Inr cols, st3) \<Rightarrow> (None, h2\<lparr>columns := cols\<rparr>, st3)))))"

definition fetchBoard :: "env \<Rightarrow> hook \<times> store \<Rightarrow> hook \<times> store" where
  "fetchBoard ev w =
     (if \<not> truthy (boardId ev)
      then ((fst w)\<lparr>board := None, columns := [], loading := False\<rparr>, snd w)
      else
        case fetchBoard_try (the (boardId ev)) w of
          (Some e, h, st) \<Rightarrow>
            ((catch ''Failed to fetch board'' ''Error fetching board:'' e h)\<lparr>loading := False\<rparr>, st)
        | (None, h, st) \<Rightarrow> (h\<lparr>loading := False\<rparr>, st))"

subsection \<open>logActivity\<close>

text \<open>
  \<^verbatim>\<open>profile?.full_name || user?.email || <literal>\<close>; the literal (Turkish for
  "unknown user") is given by its UTF-8 bytes.
\<close>

definition unknown_user :: string where
  "unknown_user = ''Bilinmeyen Kullan'' @ [CHR 0xC4, CHR 0xB1] @ ''c'' @ [CHR 0xC4, CHR 0xB1]"

definition userName :: "env \<Rightarrow> string" where
  "userName ev =
     (if truthy (profile_full_name ev) then the (profile_full_name ev)
      else if truthy (user_email ev) then the (user_email ev)
      else unknown_user)"

text \<open>
  The insert of logActivity answers with \<^verbatim>\<open>{ error }\<close>, which logActivity does not read: a
  refused insert leaves no trace. (Its catch block is for exceptions; the store of the
  model answers, it does not throw.)
\<close>

definition logActivity ::
  "env \<Rightarrow> ident \<Rightarrow> string \<Rightarrow> (string \<times> jval) list \<Rightarrow> store \<Rightarrow> store" where
  "logActivity ev cardId actionType details st =
     (case request st of
        (Some e, st1) \<Rightarrow> st1
      | (None, st1) \<Rightarrow>
          st1\<lparr>tbl_activities := tbl_activities st1 @
                 [\<lparr>activity_id = fresh st1 (serial st1),
                   activity_card_id = Some cardId,
                   activity_board_id = boardId ev,
                   activity_action_type = actionType,
                   activity_details =
                     filter (\<lambda>kv. fst kv \<noteq> ''userName'') details @
                     [(''userName'', JStr (userName ev))],
                   activity_created_at = clock st1,
                   activity_user_id =
                     Some (if truthy (user_id ev) then the (user_id ev) else ''anonymous'')\<rparr>],
               serial := Suc (serial st1)\<rparr>)"

subsection \<open>Columns\<close>

definition addColumn :: "env \<Rightarrow> string \<Rightarrow> hook \<times> store \<Rightarrow> column option \<times> hook \<times> store" where
  "addColumn ev title w =
     (let (h, st) = w in
      if \<not> truthy (boardId ev) then (None, h, st)
      else
        let maxPosition =
              (if length (columns h) > 0 then Max (set (map column_position (columns h))) else - 1)
        in
        case request st of
          (Some e, st1) \<Rightarrow> (None, catch ''Failed to add column'' ''Error adding column:'' e h, st1)
        | (None, st1) \<Rightarrow>
            let data = \<lparr>column_id = fresh st1 (serial st1),
                        column_board_id = the (boardId ev),
                        column_title = title,
                        column_position = maxPosition + 1,
                        column_wip_limit = None,
                        column_created_at = clock st1\<rparr>;
                st2 = st1\<lparr>tbl_columns := tbl_columns st1 @ [data], serial := Suc (serial st1)\<rparr>;
                (h3, st3) = fetchBoard ev (h, st2)
            in (Some data, h3, st3))"

definition updateColumn :: "ident \<Rightarrow> string \<Rightarrow> hook \<times> store \<Rightarrow> bool \<times> hook \<times> store" where
  "updateColumn columnId title w =
     (let (h, st) = w in
      case request st of
        (Some e, st1) \<Rightarrow>
          (False, catch ''Failed to update column'' ''Error updating column:'' e h, st1)
      | (None, st1) \<Rightarrow>
          (True, h,
           st1\<lparr>tbl_columns :=
                 map (\<lambda>r. if column_id r = columnId then r\<lparr>column_title := title\<rparr> else r)
                   (tbl_columns st1)\<rparr>))"

definition deleteColumn :: "ident \<Rightarrow> hook \<times> store \<Rightarrow> bool \<times> hook \<times> store" where
  "deleteColumn columnId w =
     (let (h, st) = w in
      case request st of
        (Some e, st1) \<Rightarrow>
          (False, catch ''Failed to delete column'' ''Error deleting column:'' e h, st1)
      | (None, st1) \<Rightarrow>
          (True, h, st1\<lparr>tbl_columns := filter (\<lambda>r. column_id r \<noteq> columnId) (tbl_columns st1)\<rparr>))"

definition reorderColumns :: "ident \<Rightarrow> int \<Rightarrow> hook \<times> store \<Rightarrow> bool \<times> hook \<times> store" where
  "reorderColumns columnId newPosition w =
     (let (h, st) = w in
      case request st of
        (Some e, st1) \<Rightarrow>
          (False, catch ''Failed to reorder column'' ''Error reordering column:'' e h, st1)
      | (None, st1) \<Rightarrow>
          (True, h,
           st1\<lparr>tbl_columns :=
                 map (\<lambda>r. if column_id r = columnId then r\<lparr>column_position := newPosition\<rparr> else r)
                   (tbl_columns st1)\<rparr>))"

subsection \<open>Cards\<close>

definition addCard :: "env \<Rightarrow> ident \<Rightarrow> string \<Rightarrow> hook \<times> store \<Rightarrow> card option \<times> hook \<times> store" where
  "addCard ev columnId title w =
     (let (h, st) = w;
          col = find (\<lambda>c. column_id c = columnId) (columns h);
          maxPosition =
            (case col of
               None \<Rightarrow> - 1
             | Some c \<Rightarrow>
                 if length (cards c) > 0 then Max (set (map card_position (cards c))) else - 1)
      in
      case request st of
        (Some e, st1) \<Rightarrow> (None, catch ''Failed to add card'' ''Error adding card:'' e h, st1)
      | (None, st1) \<Rightarrow>
          let data = \<lparr>card_id = fresh st1 (serial st1),
                      card_column_id = columnId,
                      card_title = title,
                      card_description = None,
                      card_position = maxPosition + 1,
                      card_due_date = None,
                      card_priority = default_priority st1,
                      card_assigned_to = None,
                      card_created_at = clock st1,
                      card_updated_at = clock st1\<rparr>;
              st2 = st1\<lparr>tbl_cards := tbl_cards st1 @ [data], serial := Suc (serial st1)\<rparr>
          in (Some data, h, logActivity ev (card_id data) ''create_card'' [(''title'', JStr title)] st2))"

text \<open>\<^verbatim>\<open>Partial<Pick<Card, 'title' | 'description' | 'due_date' | 'priority'>>\<close>\<close>

record cardUpdates =
  upd_title :: "string option"
  upd_description :: "string option option"
  upd_due_date :: "string option option"
  upd_priority :: "priority option"

definition priority_str :: "priority \<Rightarrow> string" where
  "priority_str p =
     (case p of Low \<Rightarrow> ''low'' | Medium \<Rightarrow> ''medium'' | High \<Rightarrow> ''high'' | Critical \<Rightarrow> ''critical'')"

definition nullable :: "string option \<Rightarrow> jval" where
  "nullable v = (case v of None \<Rightarrow> JNull | Some s \<Rightarrow> JStr s)"

definition updates_json :: "cardUpdates \<Rightarrow> (string \<times> jval) list" where
  "updates_json u =
     (case upd_title u of None \<Rightarrow> [] | Some t \<Rightarrow> [(''title'', JStr t)]) @
     (case upd_description u of None \<Rightarrow> [] | Some d \<Rightarrow> [(''description'', nullable d)]) @
     (case upd_due_date u of None \<Rightarrow> [] | Some d \<Rightarrow> [(''due_date'', nullable d)]) @
     (case upd_priority u of None \<Rightarrow> [] | Some p \<Rightarrow> [(''priority'', JStr (priority_str p))])"

definition apply_updates :: "cardUpdates \<Rightarrow> string \<Rightarrow> card \<Rightarrow> card" where
  "apply_updates u stamp r =
     r\<lparr>card_title := (case upd_title u of None \<Rightarrow> card_title r | Some t \<Rightarrow> t),
       card_description := (case upd_description u of None \<Rightarrow> card_description r | Some d \<Rightarrow> d),
       card_due_date := (case upd_due_date u of None \<Rightarrow> card_due_date r | Some d \<Rightarrow> d),
       card_priority := (case upd_priority u of None \<Rightarrow> card_priority r | Some p \<Rightarrow> p),
       card_updated_at := stamp\<rparr>"

definition updateCard :: "env \<Rightarrow> ident \<Rightarrow> cardUpdates \<Rightarrow> hook \<times> store \<Rightarrow> bool \<times> hook \<times> store" where
  "updateCard ev cardId updates w =
     (let (h, st) = w in
      case request st of
        (Some e, st1) \<Rightarrow> (False, catch ''Failed to update card'' ''Error updating card:'' e h, st1)
      | (None, st1) \<Rightarrow>
          let st2 = st1\<lparr>tbl_cards :=
                      map (\<lambda>r. if card_id r = cardId then apply_updates updates (now ev) r else r)
                        (tbl_cards st1)\<rparr>
          in (True, h, logActivity ev cardId ''update_card'' (updates_json updates) st2))"

definition deleteCard :: "ident \<Rightarrow> hook \<times> store \<Rightarrow> bool \<times> hook \<times> store" where
  "deleteCard cardId w =
     (let (h, st) = w in
      case request st of
        (Some e, st1) \<Rightarrow> (False, catch ''Failed to delete card'' ''Error deleting card:'' e h, st1)
      | (None, st1) \<Rightarrow>
          (True, h, st1\<lparr>tbl_cards := filter (\<lambda>r. card_id r \<noteq> cardId) (tbl_cards st1)\<rparr>))"

text \<open>
  moveCard: the update of the card's row, the activity when the card changes column in the
  hook's view, then the refetch.
\<close>

definition moveCard ::
  "env \<Rightarrow> ident \<Rightarrow> ident \<Rightarrow> int \<Rightarrow> hook \<times> store \<Rightarrow> bool \<times> hook \<times> store" where
  "moveCard ev cardId targetColumnId newPosition w =
     (let (h, st) = w in
      case request st of
        (Some e, st1) \<Rightarrow> (False, catch ''Failed to move card'' ''Error moving card:'' e h, st1)
      | (None, st1) \<Rightarrow>
          let st2 = st1\<lparr>tbl_cards :=
                      map (\<lambda>r. if card_id r = cardId
                                then r\<lparr>card_column_id := targetColumnId,
                                       card_position := newPosition,
                                       card_updated_at := now ev\<rparr>
                                else r)
                        (tbl_cards st1)\<rparr>;
              fromCol = find (\<lambda>c. list_ex (\<lambda>k. card_id k = cardId) (cards c)) (columns h);
              toCol = find (\<lambda>c. column_id c = targetColumnId) (columns h);
              st3 = (case (fromCol, toCol) of
                       (Some f, Some t) \<Rightarrow>
                         if column_id f \<noteq> column_id t
                         then logActivity ev cardId ''move_card''
                                [(''fromColumn'', JStr (column_title f)),
                                 (''toColumn'', JStr (column_title t))] st2
                         else st2
                     | _ \<Rightarrow> st2);
              (h4, st4) = fetchBoard ev (h, st3)
          in (True, h4, st4))"

definition assignCard :: "env \<Rightarrow> ident \<Rightarrow> ident option \<Rightarrow> hook \<times> store \<Rightarrow> bool \<times> hook \<times> store" where
  "assignCard ev cardId userId w =
     (let (h, st) = w in
      case request st of
        (Some e, st1) \<Rightarrow> (False, catch ''Failed to assign card'' ''Error assigning card:'' e h, st1)
      | (None, st1) \<Rightarrow>
          let st2 = st1\<lparr>tbl_cards :=
                      map (\<lambda>r. if card_id r = cardId then r\<lparr>card_assigned_to := userId\<rparr> else r)
                        (tbl_cards st1)\<rparr>
          in (True, h, logActivity ev cardId ''card_assigned'' [(''assigned_to'', nullable userId)] st2))"

subsection \<open>Comments and attachments\<close>

text \<open>
  addComment and deleteComment return nothing; their promise is rejected when the catch
  block throws the error again. The result is the error thrown to the caller, if any.
  \<^verbatim>\<open>fetchBoard()\<close> is started without \<^verbatim>\<open>await\<close>; the model runs it at once.
\<close>

definition addComment :: "env \<Rightarrow> ident \<Rightarrow> string \<Rightarrow> hook \<times> store \<Rightarrow> js_error option \<times> hook \<times> store" where
  "addComment ev cardId content w =
     (let (h, st) = w in
      case request st of
        (Some e, st1) \<Rightarrow> (Some e, catch ''Failed to add comment'' ''Error adding comment:'' e h, st1)
      | (None, st1) \<Rightarrow>
          let st2 = st1\<lparr>tbl_comments := tbl_comments st1 @
                         [\<lparr>comment_id = fresh st1 (serial st1),
                           comment_card_id = cardId,
                           comment_content = content,
                           comment_created_at = clock st1,
                           comment_user_id = Some ''current-user''\<rparr>],
                       serial := Suc (serial st1)\<rparr>;
              st3 = logActivity ev cardId ''add_comment'' [(''content'', JStr content)] st2;
              (h4, st4) = fetchBoard ev (h, st3)
          in (None, h4, st4))"

definition deleteComment :: "env \<Rightarrow> ident \<Rightarrow> hook \<times> store \<Rightarrow> js_error option \<times> hook \<times> store" where
  "deleteComment ev commentId w =
     (let (h, st) = w in
      case request st of
        (Some e, st1) \<Rightarrow>
          (Some e, catch ''Failed to delete comment'' ''Error deleting comment:'' e h, st1)
      | (None, st1) \<Rightarrow>
          let st2 = st1\<lparr>tbl_comments := filter (\<lambda>r. comment_id r \<noteq> commentId) (tbl_comments st1)\<rparr>;
              (h3, st3) = fetchBoard ev (h, st2)
          in (None, h3, st3))"

text \<open>
  A \<^verbatim>\<open>File\<close>: its name, type and size. \<open>random\<close> is
  \<^verbatim>\<open>Math.random().toString(36).substring(2)\<close>, chosen by the caller of the model.
\<close>

record js_file =
  file_name :: string
  file_type :: string
  file_size :: int

definition fileExt :: "string \<Rightarrow> string" where
  "fileExt name = rev (takeWhile (\<lambda>c. c \<noteq> CHR ''.'') (rev name))"

definition uploadAttachment ::
  "env \<Rightarrow> string \<Rightarrow> ident \<Rightarrow> js_file \<Rightarrow> hook \<times> store \<Rightarrow> bool \<times> hook \<times> store" where
  "uploadAttachment ev random cardId f w =
     (let (h, st) = w;
          fileName = random @ ''.'' @ fileExt (file_name f);
          storagePath = cardId @ ''/'' @ fileName
      in
      case storage_request st of
        (Some e, st1) \<Rightarrow>
          (False, catch ''Failed to upload attachment'' ''Error uploading attachment:'' e h, st1)
      | (None, st1) \<Rightarrow>
         (let st2 = st1\<lparr>bucket := bucket st1 @ [storagePath]\<rparr> in
          case request st2 of
            (Some e, st3) \<Rightarrow>
              (False, catch ''Failed to upload attachment'' ''Error uploading attachment:'' e h, st3)
          | (None, st3) \<Rightarrow>
              let st4 = st3\<lparr>tbl_attachments := tbl_attachments st3 @
                             [\<lparr>attachment_id = fresh st3 (serial st3),
                               attachment_card_id = cardId,
                               attachment_file_name = file_name f,
                               attachment_file_type = file_type f,
                               attachment_file_size = file_size f,
                               attachment_storage_path = storagePath,
                               attachment_created_at = clock st3\<rparr>],
                           serial := Suc (serial st3)\<rparr>;
                  st5 = logActivity ev cardId ''upload_attachment''
                          [(''fileName'', JStr (file_name f))] st4;
                  (h6, st6) = fetchBoard ev (h, st5)
              in (True, h6, st6)))"

definition deleteAttachment ::
  "env \<Rightarrow> ident \<Rightarrow> string \<Rightarrow> hook \<times> store \<Rightarrow> bool \<times> hook \<times> store" where
  "deleteAttachment ev attachmentId storagePath w =
     (let (h, st) = w in
      case storage_request st of
        (Some e, st1) \<Rightarrow>
          (False, catch ''Failed to delete attachment'' ''Error deleting attachment:'' e h, st1)
      | (None, st1) \<Rightarrow>
         (let st2 = st1\<lparr>bucket := filter (\<lambda>p. p \<noteq> storagePath) (bucket st1)\<rparr> in
          case request st2 of
            (Some e, st3) \<Rightarrow>
              (False, catch ''Failed to delete attachment'' ''Error deleting attachment:'' e h, st3)
          | (None, st3) \<Rightarrow>
              let st4 = st3\<lparr>tbl_attachments :=
                             filter (\<lambda>r. attachment_id r \<noteq> attachmentId) (tbl_attachments st3)\<rparr>
              in (True, h, logActivity ev [] ''delete_attachment'' [] st4)))"

subsection \<open>toggleSubtask and its automation\<close>

text \<open>
  Lines 499 to 509: the two loops that look for the card of the subtask in the hook's
  columns. The inner loop stops at the first card that has the subtask; the outer loop
  stops once \<^verbatim>\<open>cardId\<close> is truthy.
\<close>

fun find_in_cards ::
  "cardWithLabels list \<Rightarrow> ident \<Rightarrow> ident option \<times> subtask list \<Rightarrow> ident option \<times> subtask list" where
  "find_in_cards [] subtaskId acc = acc"
| "find_in_cards (k # ks) subtaskId acc =
     (if find (\<lambda>s. subtask_id s = subtaskId) (subtasks k) \<noteq> None
      then (Some (card_id k), subtasks k)
      else find_in_cards ks subtaskId acc)"

fun find_in_columns ::
  "columnWithCards list \<Rightarrow> ident \<Rightarrow> ident option \<times> subtask list \<Rightarrow> ident option \<times> subtask list" where
  "find_in_columns [] subtaskId acc = acc"
| "find_in_columns (col # cols) subtaskId acc =
     (let acc' = find_in_cards (cards col) subtaskId acc in
      if truthy (fst acc') then acc' else find_in_columns cols subtaskId acc')"

definition isDoneTitle :: "env \<Rightarrow> string \<Rightarrow> bool" where
  "isDoneTitle ev t =
     (str_includes (toLowerCase ev t) ''done'' \<or>
      str_includes (toLowerCase ev t) ''tamam'' \<or>
      str_includes (toLowerCase ev t) ''biten'')"

text \<open>
  Lines 496 to 530 for \<^verbatim>\<open>isCompleted = true\<close>: the card to move and the column to move it
  to, when the automation applies.
\<close>

definition automation_target ::
  "env \<Rightarrow> columnWithCards list \<Rightarrow> ident \<Rightarrow> (ident \<times> columnWithCards) option" where
  "automation_target ev cols subtaskId =
     (let (cardId, currentSubtasks) = find_in_columns cols subtaskId (None, []) in
      if truthy cardId \<and> length currentSubtasks > 0 then
        let allOthersCompleted =
              list_all subtask_is_completed
                (filter (\<lambda>s. subtask_id s \<noteq> subtaskId) currentSubtasks)
        in
        if allOthersCompleted then
          let doneColumn = find (\<lambda>c. isDoneTitle ev (column_title c)) cols;
              currentColumn = find (\<lambda>c. list_ex (\<lambda>k. card_id k = the cardId) (cards c)) cols
          in
          case (doneColumn, currentColumn) of
            (Some d, Some c) \<Rightarrow> if column_id d \<noteq> column_id c then Some (the cardId, d) else None
          | _ \<Rightarrow> None
        else None
      else None)"

text \<open>The message of the automation, in UTF-8 bytes, around the title of the column.\<close>

definition automationMessage :: "string \<Rightarrow> string" where
  "automationMessage title =
     ''T'' @ [CHR 0xC3, CHR 0xBC] @ ''m g'' @ [CHR 0xC3, CHR 0xB6] @ ''revler bitti! Kart '' @
     [CHR 0x22] @ title @ [CHR 0x22] @
     '' s'' @ [CHR 0xC3, CHR 0xBC] @ ''tununa ta'' @ [CHR 0xC5, CHR 0x9F, CHR 0xC4, CHR 0xB1] @
     ''nd'' @ [CHR 0xC4, CHR 0xB1] @ ''. '' @ [CHR 0xF0, CHR 0x9F, CHR 0x9A, CHR 0x80]"

text \<open>
  toggleSubtask returns \<^verbatim>\<open>{ automationMessage?: string }\<close>: the message, if any. The result
  of moveCard is not read.
\<close>

definition toggleSubtask ::
  "env \<Rightarrow> ident \<Rightarrow> bool \<Rightarrow> hook \<times> store \<Rightarrow> string option \<times> hook \<times> store" where
  "toggleSubtask ev subtaskId isCompleted w =
     (let (h, st) = w in
      case request st of
        (Some e, st1) \<Rightarrow>
          (None, catch ''Failed to toggle subtask'' ''Error toggling subtask:'' e h, st1)
      | (None, st1) \<Rightarrow>
          let st2 = st1\<lparr>tbl_subtasks :=
                      map (\<lambda>s. if subtask_id s = subtaskId
                                then s\<lparr>subtask_is_completed := isCompleted\<rparr> else s)
                        (tbl_subtasks st1)\<rparr>
          in
          (case (if isCompleted then automation_target ev (columns h) subtaskId else None) of
             Some (cardId, doneColumn) \<Rightarrow>
               let (moved, h3, st3) = moveCard ev cardId (column_id doneColumn) 0 (h, st2)
               in (Some (automationMessage (column_title doneColumn)), h3, st3)
           | None \<Rightarrow>
               let (h3, st3) = fetchBoard ev (h, st2) in (None, h3, st3)))"

section \<open>The board component (components/Board/Board.tsx)\<close>

text \<open>What the board shows the user: the confetti and the toasts.\<close>

datatype notification = Confetti | ToastSuccess string | ToastError string | ToastInfo string

definition handleToggleSubtask ::
  "env \<Rightarrow> ident \<Rightarrow> bool \<Rightarrow> hook \<times> store \<Rightarrow> notification list \<times> hook \<times> store" where
  "handleToggleSubtask ev subtaskId isCompleted w =
     (let (automationMsg, h, st) = toggleSubtask ev subtaskId isCompleted w in
      if truthy automationMsg then ([Confetti, ToastSuccess (the automationMsg)], h, st)
      else ([], h, st))"

text \<open>
  handleAddSubtask (lines 261 to 268) inserts a row of the table of the subtasks and
  leaves the hook as it is: it calls no fetchBoard, and the hook subscribes to no change
  of that table. The text of the toast (line 264) is given by its UTF-8 bytes.
\<close>

definition handleAddSubtask ::
  "ident \<Rightarrow> string \<Rightarrow> hook \<times> store \<Rightarrow> (subtask option \<times> notification list) \<times> hook \<times> store" where
  "handleAddSubtask cardId title w =
     (let (h, st) = w in
      case request st of
        (Some e, st1) \<Rightarrow>
          ((None, [ToastError (''Alt g'' @ [CHR 0xC3, CHR 0xB6] @ ''rev eklenemedi'')]), h, st1)
      | (None, st1) \<Rightarrow>
          let data = \<lparr>subtask_id = fresh st1 (serial st1),
                      subtask_card_id = cardId,
                      subtask_title = title,
                      subtask_is_completed = default_is_completed st1,
                      subtask_position = 0,
                      subtask_created_at = clock st1\<rparr>
          in ((Some data, []), h,
              st1\<lparr>tbl_subtasks := tbl_subtasks st1 @ [data], serial := Suc (serial st1)\<rparr>))"

text \<open>
  filteredColumns. The date filter reads the clock and parses \<^verbatim>\<open>due_date\<close>: \<open>today\<close> is
  the number of the current day (local midnight) and \<open>dayOf s\<close> the number of the day of
  \<^verbatim>\<open>new Date(s)\<close>, \<open>None\<close> for an invalid date, whose comparisons are all false.
\<close>

definition cardMatches ::
  "env \<Rightarrow> (string \<Rightarrow> int option) \<Rightarrow> int \<Rightarrow> filterState \<Rightarrow> cardWithLabels \<Rightarrow> bool" where
  "cardMatches ev dayOf today fs c =
     (if searchQuery fs \<noteq> [] \<and>
         (let query = toLowerCase ev (searchQuery fs);
              matchTitle = str_includes (toLowerCase ev (card_title c)) query;
              matchDesc = (case card_description c of
                             None \<Rightarrow> False
                           | Some d \<Rightarrow> str_includes (toLowerCase ev d) query)
          in \<not> matchTitle \<and> \<not> matchDesc)
      then False
      else if length (filter_labels fs) > 0 \<and>
              \<not> list_ex (\<lambda>i. i \<in> set (map label_id (labels c))) (filter_labels fs)
      then False
      else if length (priorities fs) > 0 \<and> card_priority c \<notin> set (priorities fs)
      then False
      else if dateFilter fs \<noteq> All then
        (if dateFilter fs = NoDate then \<not> truthy (card_due_date c)
         else if \<not> truthy (card_due_date c) then False
         else
           let dueDateDay = dayOf (the (card_due_date c)) in
           if dateFilter fs = Overdue
           then \<not> (case dueDateDay of None \<Rightarrow> False | Some d \<Rightarrow> d \<ge> today)
           else if dateFilter fs = Today
           then dueDateDay = Some today
           else if dateFilter fs = Week
           then \<not> (case dueDateDay of None \<Rightarrow> False | Some d \<Rightarrow> d < today \<or> d > today + 7)
           else True)
      else True)"

definition filteredColumns ::
  "env \<Rightarrow> (string \<Rightarrow> int option) \<Rightarrow> int \<Rightarrow> filterState \<Rightarrow> columnWithCards list \<Rightarrow>
   columnWithCards list" where
  "filteredColumns ev dayOf today fs cols =
     (if searchQuery fs = [] \<and> length (filter_labels fs) = 0 \<and> length (priorities fs) = 0 \<and>
         dateFilter fs = All
      then cols
      else map (\<lambda>col. col\<lparr>cards := filter (cardMatches ev dayOf today fs) (cards col)\<rparr>) cols)"

section \<open>The column component (components/Column/Column.tsx)\<close>

definition cardCount :: "columnWithCards \<Rightarrow> int" where
  "cardCount col = int (length (cards col))"

definition isOverLimit :: "columnWithCards \<Rightarrow> bool" where
  "isOverLimit col =
     (case column_wip_limit col of None \<Rightarrow> False | Some wipLimit \<Rightarrow> cardCount col \<ge> wipLimit)"

definition isAtLimit :: "columnWithCards \<Rightarrow> bool" where
  "isAtLimit col =
     (case column_wip_limit col of None \<Rightarrow> False | Some wipLimit \<Rightarrow> cardCount col = wipLimit)"

definition isNearLimit :: "columnWithCards \<Rightarrow> bool" where
  "isNearLimit col =
     (case column_wip_limit col of None \<Rightarrow> False | Some wipLimit \<Rightarrow> cardCount col = wipLimit - 1)"

text \<open>
  The button \<^verbatim>\<open>add-card-btn\<close> has \<^verbatim>\<open>disabled={isOverLimit}\<close>; a click on it, when it is
  enabled, opens the form (\<^verbatim>\<open>setIsAddingCard(true)\<close>). The result is the new value of
  \<^verbatim>\<open>isAddingCard\<close>.
\<close>

definition click_add_card_btn :: "columnWithCards \<Rightarrow> bool \<Rightarrow> bool" where
  "click_add_card_btn col isAddingCard = (if isOverLimit col then isAddingCard else True)"

text \<open>
  What the component shows of the limit, for the column it is given: the counter of the
  header (\<^verbatim>\<open>{cardCount}\<close>), the warning \<^verbatim>\<open>wip-warning\<close> (\<^verbatim>\<open>{isOverLimit && ...}\<close>) and
  whether the button \<^verbatim>\<open>add-card-btn\<close> is disabled.
\<close>

record columnView =
  view_id :: ident
  view_count :: int
  wip_warning :: bool
  add_card_disabled :: bool

definition Column :: "columnWithCards \<Rightarrow> columnView" where
  "Column col =
     \<lparr>view_id = column_id col, view_count = cardCount col, wip_warning = isOverLimit col,
      add_card_disabled = isOverLimit col\<rparr>"

subsection \<open>The columns that the board renders\<close>

text \<open>
  The columns of the board component (Board.tsx, lines 292 to 377): nothing while the
  hook is loading, has an error or has no board; otherwise one \<^verbatim>\<open>Column\<close> for each of the
  \<^verbatim>\<open>filteredColumns\<close>, so that each component is given the cards that pass the filter.
\<close>

definition Board_columns ::
  "env \<Rightarrow> (string \<Rightarrow> int option) \<Rightarrow> int \<Rightarrow> filterState \<Rightarrow> hook \<Rightarrow> columnView list option" where
  "Board_columns ev dayOf today fs h =
     (if loading h then None
      else if truthy (error h) then None
      else if board h = None then None
      else Some (map Column (filteredColumns ev dayOf today fs (columns h))))"

section \<open>The list of boards (hooks/useBoards.ts)\<close>

record boardsHook =
  boards :: "board list"
  boards_loading :: bool
  boards_error :: "string option"
  boards_console :: "(string \<times> js_error) list"

text \<open>
  createBoard. The insert of the default columns answers with \<^verbatim>\<open>{ error }\<close>, which is not
  read. The store gives the new board its owner and its type.
\<close>

definition defaultColumns :: "ident \<Rightarrow> (ident \<times> string \<times> int) list" where
  "defaultColumns b = [(b, ''To Do'', 0), (b, ''In Progress'', 1), (b, ''Done'', 2)]"

definition insert_columns :: "(ident \<times> string \<times> int) list \<Rightarrow> store \<Rightarrow> store" where
  "insert_columns rows st =
     st\<lparr>tbl_columns := tbl_columns st @
           map (\<lambda>(i, (b, t, p)).
                  \<lparr>column_id = fresh st (serial st + i),
                   column_board_id = b,
                   column_title = t,
                   column_position = p,
                   column_wip_limit = None,
                   column_created_at = clock st\<rparr>)
             (enumerate 0 rows),
         serial := serial st + length rows\<rparr>"

definition createBoard ::
  "string \<Rightarrow> ident option \<Rightarrow> boardsHook \<times> store \<Rightarrow> board option \<times> boardsHook \<times> store" where
  "createBoard title orgId w =
     (let (h, st) = w in
      case request st of
        (Some e, st1) \<Rightarrow>
          (None,
           h\<lparr>boards_error := Some (err_message e ''Failed to create board''),
             boards_console := boards_console h @ [(''Error creating board:'', e)]\<rparr>,
           st1)
      | (None, st1) \<Rightarrow>
          let data = \<lparr>board_id = fresh st1 (serial st1),
                      board_title = title,
                      board_owner_id = auth_uid st1,
                      board_org_id = (if truthy orgId then orgId else None),
                      board_assigned_to = None,
                      board_board_type = Personal,
                      board_created_at = clock st1,
                      board_updated_at = clock st1\<rparr>;
              st2 = st1\<lparr>tbl_boards := tbl_boards st1 @ [data], serial := Suc (serial st1)\<rparr>
          in
          (case request st2 of
             (Some e, st3) \<Rightarrow> (Some data, h, st3)
           | (None, st3) \<Rightarrow> (Some data, h, insert_columns (defaultColumns (board_id data)) st3)))"

section \<open>Specification-level notions\<close>

text \<open>
  What a successful fetchBoard shows: the view of the board \<open>b\<close> composed from the rows
  of the store.
\<close>

definition boardView :: "store \<Rightarrow> ident \<Rightarrow> columnWithCards list" where
  "boardView st b =
     (let columnsData = q_columns st b;
          cardsData = q_cards st (map column_id columnsData);
          cardIds = map card_id cardsData
      in columnsWithCards columnsData cardsData (q_subtasks st cardIds) (q_labels st b)
           (q_card_labels st cardIds) (q_attachments st cardIds) (q_comments st cardIds)
           (q_activities st cardIds))"

definition all_cards :: "columnWithCards list \<Rightarrow> cardWithLabels list" where
  "all_cards cols = concat (map cards cols)"

text \<open>A card has a subtask with the identifier \<open>sid\<close>.\<close>

definition hosts :: "cardWithLabels \<Rightarrow> ident \<Rightarrow> bool" where
  "hosts k sid = list_ex (\<lambda>s. subtask_id s = sid) (subtasks k)"

text \<open>
  The four predicates of the board's filter, each one true of every card when its part of
  the filter state is not set.
\<close>

definition searchOk :: "env \<Rightarrow> filterState \<Rightarrow> cardWithLabels \<Rightarrow> bool" where
  "searchOk ev fs c =
     (searchQuery fs = [] \<or>
      str_includes (toLowerCase ev (card_title c)) (toLowerCase ev (searchQuery fs)) \<or>
      (case card_description c of
         None \<Rightarrow> False
       | Some d \<Rightarrow> str_includes (toLowerCase ev d) (toLowerCase ev (searchQuery fs))))"

definition labelOk :: "filterState \<Rightarrow> cardWithLabels \<Rightarrow> bool" where
  "labelOk fs c =
     (filter_labels fs = [] \<or> (\<exists>i \<in> set (filter_labels fs). i \<in> label_id ` set (labels c)))"

definition priorityOk :: "filterState \<Rightarrow> cardWithLabels \<Rightarrow> bool" where
  "priorityOk fs c = (priorities fs = [] \<or> card_priority c \<in> set (priorities fs))"

definition dateOk ::
  "(string \<Rightarrow> int option) \<Rightarrow> int \<Rightarrow> filterState \<Rightarrow> cardWithLabels \<Rightarrow> bool" where
  "dateOk dayOf today fs c =
     (case dateFilter fs of
        All \<Rightarrow> True
      | NoDate \<Rightarrow> \<not> truthy (card_due_date c)
      | Today \<Rightarrow> truthy (card_due_date c) \<and> dayOf (the (card_due_date c)) = Some today
      | Overdue \<Rightarrow>
          truthy (card_due_date c) \<and>
          (case dayOf (the (card_due_date c)) of None \<Rightarrow> True | Some d \<Rightarrow> d < today)
      | Week \<Rightarrow>
          truthy (card_due_date c) \<and>
          (case dayOf (the (card_due_date c)) of
             None \<Rightarrow> True
           | Some d \<Rightarrow> today \<le> d \<and> d \<le> today + 7))"

definition passes ::
  "env \<Rightarrow> (string \<Rightarrow> int option) \<Rightarrow> int \<Rightarrow> filterState \<Rightarrow> cardWithLabels \<Rightarrow> bool" where
  "passes ev dayOf today fs c =
     (searchOk ev fs c \<and> labelOk fs c \<and> priorityOk fs c \<and> dateOk dayOf today fs c)"


text \<open>Two states of the store with the same rows: they differ in the pending answers only.\<close>

definition same_rows :: "store \<Rightarrow> store \<Rightarrow> bool" where
  "same_rows st st' = (\<exists>fs. st' = st\<lparr>faults := fs\<rparr>)"

text \<open>The rows of the cards after the update of moveCard.\<close>

definition moved :: "ident \<Rightarrow> ident \<Rightarrow> int \<Rightarrow> string \<Rightarrow> card list \<Rightarrow> card list" where
  "moved cardId target pos stamp rows =
     map (\<lambda>r. if card_id r = cardId
               then r\<lparr>card_column_id := target, card_position := pos, card_updated_at := stamp\<rparr>
               else r) rows"

text \<open>The rows of the subtasks after the update of toggleSubtask.\<close>

definition toggled :: "ident \<Rightarrow> bool \<Rightarrow> subtask list \<Rightarrow> subtask list" where
  "toggled sid isCompleted rows =
     map (\<lambda>s. if subtask_id s = sid then s\<lparr>subtask_is_completed := isCompleted\<rparr> else s) rows"

text \<open>
  What a catch block leaves in the hook: the text \<open>msg\<close> in the error state, and one more
  line on the console, the label \<open>lbl\<close> with the value caught.
\<close>

definition reported :: "string \<Rightarrow> string \<Rightarrow> js_error \<Rightarrow> hook \<Rightarrow> hook \<Rightarrow> bool" where
  "reported msg lbl e h h' = (error h' = Some msg \<and> console h' = console h @ [(lbl, e)])"

text \<open>The hook shows the store: its columns are the view of the board composed from the rows.\<close>

definition shows_store :: "ident \<Rightarrow> hook \<times> store \<Rightarrow> bool" where
  "shows_store b w = (columns (fst w) = boardView (snd w) b)"

section \<open>Example boards\<close>

text \<open>
  A store with one board: the columns To Do (cards k1 and k3), In Progress (card k2, WIP
  limit 1) and Done (no card). The rows are stored out of order. The card k1 has the
  subtasks s1 (open) and s2 (completed); k3 has s3 and s4, both open.
\<close>

definition mk_subtask :: "ident \<Rightarrow> ident \<Rightarrow> bool \<Rightarrow> int \<Rightarrow> subtask" where
  "mk_subtask i k completed p =
     \<lparr>subtask_id = i, subtask_card_id = k, subtask_title = ''step'',
      subtask_is_completed = completed, subtask_position = p,
      subtask_created_at = ''2024-05-01''\<rparr>"

definition mk_card :: "ident \<Rightarrow> ident \<Rightarrow> int \<Rightarrow> card" where
  "mk_card i c p =
     \<lparr>card_id = i, card_column_id = c, card_title = ''Task'', card_description = None,
      card_position = p, card_due_date = None, card_priority = Medium,
      card_assigned_to = None, card_created_at = ''2024-05-01'',
      card_updated_at = ''2024-05-01''\<rparr>"

definition mk_column :: "ident \<Rightarrow> string \<Rightarrow> int \<Rightarrow> int option \<Rightarrow> column" where
  "mk_column i t p w =
     \<lparr>column_id = i, column_board_id = ''b1'', column_title = t, column_position = p,
      column_wip_limit = w, column_created_at = ''2024-05-01''\<rparr>"

definition ex_board :: board where
  "ex_board =
     \<lparr>board_id = ''b1'', board_title = ''Sprint'', board_owner_id = ''u1'',
      board_org_id = None, board_assigned_to = None, board_board_type = Personal,
      board_created_at = ''2024-05-01'', board_updated_at = ''2024-05-01''\<rparr>"

definition no_store :: store where
  "no_store =
     \<lparr>tbl_boards = [], tbl_columns = [], tbl_cards = [], tbl_labels = [],
      tbl_card_labels = [], tbl_subtasks = [], tbl_attachments = [], tbl_comments = [],
      tbl_activities = [], bucket = [], faults = [],
      fresh = (\<lambda>n. ''id'' @ replicate n (CHR ''+'')), serial = 0,
      clock = ''2024-06-01'', auth_uid = ''u1'', default_priority = Medium,
      default_is_completed = False\<rparr>"

definition ex_store :: store where
  "ex_store =
     no_store\<lparr>
       tbl_boards := [ex_board],
       tbl_columns := [mk_column ''c3'' ''Done'' 2 None,
                       mk_column ''c1'' ''To Do'' 0 None,
                       mk_column ''c2'' ''In Progress'' 1 (Some 1)],
       tbl_cards := [mk_card ''k3'' ''c1'' 1, mk_card ''k2'' ''c2'' 0, mk_card ''k1'' ''c1'' 0],
       tbl_subtasks := [mk_subtask ''s1'' ''k1'' False 0, mk_subtask ''s2'' ''k1'' True 1,
                        mk_subtask ''s3'' ''k3'' False 0, mk_subtask ''s4'' ''k3'' False 1],
       tbl_labels := [\<lparr>label_id = ''l1'', label_board_id = ''b1'', label_text = ''bug'',
                       label_color = ''#ef4444''\<rparr>],
       tbl_card_labels := [\<lparr>cardLabel_card_id = ''k1'', cardLabel_label_id = ''l1''\<rparr>]\<rparr>"

text \<open>
  The titles of the examples are ASCII text, which \<^verbatim>\<open>toLowerCase\<close> lowers letter by
  letter: A to Z become a to z.
\<close>

definition ascii_lower_char :: "char \<Rightarrow> char" where
  "ascii_lower_char c =
     (case map_of (zip ''ABCDEFGHIJKLMNOPQRSTUVWXYZ'' ''abcdefghijklmnopqrstuvwxyz'') c of
        Some l \<Rightarrow> l
      | None \<Rightarrow> c)"

definition ascii_lower :: "string \<Rightarrow> string" where
  "ascii_lower s = map ascii_lower_char s"

definition ex_env :: env where
  "ex_env =
     \<lparr>boardId = Some ''b1'', profile_full_name = Some ''Ada'', user_email = None,
      user_id = Some ''u1'', now = ''2024-06-02'', toLowerCase = ascii_lower\<rparr>"

definition no_hook :: hook where
  "no_hook = \<lparr>board = None, columns = [], loading = True, error = None, console = []\<rparr>"

text \<open>The hook once it has fetched the example board.\<close>

definition ex_hook :: hook where
  "ex_hook = no_hook\<lparr>board := Some ex_board, columns := boardView ex_store ''b1'', loading := False\<rparr>"

text \<open>
  A second store: the card k1 sits in the column Done, and a column Done 2 follows it.
\<close>

definition done_store :: store where
  "done_store =
     no_store\<lparr>
       tbl_boards := [ex_board],
       tbl_columns := [mk_column ''d1'' ''Done'' 0 None, mk_column ''d2'' ''Done 2'' 1 None],
       tbl_cards := [mk_card ''k1'' ''d1'' 0],
       tbl_subtasks := [mk_subtask ''s1'' ''k1'' False 0]\<rparr>"

definition done_hook :: hook where
  "done_hook =
     no_hook\<lparr>board := Some ex_board, columns := boardView done_store ''b1'', loading := False\<rparr>"

definition no_boards_hook :: boardsHook where
  "no_boards_hook = \<lparr>boards = [], boards_loading = False, boards_error = None, boards_console = []\<rparr>"

text \<open>The views of the two example stores, written out.\<close>

definition ex_k1 :: cardWithLabels where
  "ex_k1 = card.extend (mk_card ''k1'' ''c1'' 0) (cardWithLabels.fields
     [\<lparr>label_id = ''l1'', label_board_id = ''b1'', label_text = ''bug'', label_color = ''#ef4444''\<rparr>]
     [mk_subtask ''s1'' ''k1'' False 0, mk_subtask ''s2'' ''k1'' True 1] [] [] [])"

definition ex_k2 :: cardWithLabels where
  "ex_k2 = card.extend (mk_card ''k2'' ''c2'' 0) (cardWithLabels.fields [] [] [] [] [])"

definition ex_k3 :: cardWithLabels where
  "ex_k3 = card.extend (mk_card ''k3'' ''c1'' 1) (cardWithLabels.fields []
     [mk_subtask ''s3'' ''k3'' False 0, mk_subtask ''s4'' ''k3'' False 1] [] [] [])"

definition ex_c1 :: columnWithCards where
  "ex_c1 = column.extend (mk_column ''c1'' ''To Do'' 0 None) (columnWithCards.fields [ex_k1, ex_k3])"

definition ex_c2 :: columnWithCards where
  "ex_c2 = column.extend (mk_column ''c2'' ''In Progress'' 1 (Some 1)) (columnWithCards.fields [ex_k2])"

definition ex_c3 :: columnWithCards where
  "ex_c3 = column.extend (mk_column ''c3'' ''Done'' 2 None) (columnWithCards.fields [])"

definition done_k1 :: cardWithLabels where
  "done_k1 = card.extend (mk_card ''k1'' ''d1'' 0) (cardWithLabels.fields []
     [mk_subtask ''s1'' ''k1'' False 0] [] [] [])"

definition done_d1 :: columnWithCards where
  "done_d1 = column.extend (mk_column ''d1'' ''Done'' 0 None) (columnWithCards.fields [done_k1])"

definition done_d2 :: columnWithCards where
  "done_d2 = column.extend (mk_column ''d2'' ''Done 2'' 1 None) (columnWithCards.fields [])"

text \<open>The example store with the answers \<open>fs\<close> to the coming requests.\<close>

definition answering :: "string option list \<Rightarrow> store" where
  "answering fs = ex_store\<lparr>faults := fs\<rparr>"

section \<open>The store and fetchBoard\<close>

lemma request_ok: "faults st = [] \<Longrightarrow> request st = (None, st)"
  by (simp add: request_def)

lemma request_fault:
  "faults st = Some m # fs \<Longrightarrow> request st = (Some (Thrown m), st\<lparr>faults := fs\<rparr>)"
  by (simp add: request_def)

lemma request_skip: "faults st = None # fs \<Longrightarrow> request st = (None, st\<lparr>faults := fs\<rparr>)"
  by (simp add: request_def)

lemma storage_request_ok: "faults st = [] \<Longrightarrow> storage_request st = (None, st)"
  by (simp add: storage_request_def)

lemma storage_request_fault:
  "faults st = Some m # fs \<Longrightarrow> storage_request st = (Some (Error m), st\<lparr>faults := fs\<rparr>)"
  by (simp add: storage_request_def)

lemma storage_request_skip:
  "faults st = None # fs \<Longrightarrow> storage_request st = (None, st\<lparr>faults := fs\<rparr>)"
  by (simp add: storage_request_def)

lemma data_or_empty_ok: "faults st = [] \<Longrightarrow> data_or_empty st rows = (rows, st)"
  by (simp add: data_or_empty_def request_ok)

lemma columnsWithCards_Nil [simp]: "columnsWithCards [] a b c d e f g = []"
  by (simp add: columnsWithCards_def)

lemma q_empty [simp]:
  "q_cards st [] = []" "q_subtasks st [] = []" "q_attachments st [] = []"
  "q_comments st [] = []" "q_activities st [] = []" "q_card_labels st [] = []"
  by (simp_all add: q_cards_def q_subtasks_def q_attachments_def q_comments_def
        q_activities_def q_card_labels_def split: option.splits)

lemma fetch_nested_ok:
  "faults st = [] \<Longrightarrow> fetch_nested b (q_columns st b) st = (Inr (boardView st b), st)"
  by (simp add: fetch_nested_def boardView_def Let_def request_ok data_or_empty_ok)

text \<open>
  A store that performs every request and holds exactly one board \<open>b\<close>: fetchBoard shows
  the view of the store.
\<close>

lemma fetchBoard_ok:
  assumes "faults st = []" "boardId ev = Some b" "b \<noteq> []" "q_board st b = Inr bd"
  shows "fetchBoard ev (h, st) =
           (h\<lparr>board := Some bd, columns := boardView st b, loading := False, error := None\<rparr>, st)"
  using assms
  by (simp add: fetchBoard_def fetchBoard_try_def truthy_def request_ok fetch_nested_ok Let_def)

lemmas ex_defs =
  ex_store_def done_store_def no_store_def ex_board_def ex_env_def no_hook_def ex_hook_def
  done_hook_def no_boards_hook_def mk_column_def mk_card_def mk_subtask_def

lemmas query_defs =
  q_board_def q_columns_def q_cards_def q_subtasks_def q_labels_def q_card_labels_def
  q_attachments_def q_comments_def q_activities_def single_def

lemmas view_defs =
  boardView_def columnsWithCards_def Let_def column.extend_def card.extend_def
  cardWithLabels.fields_def columnWithCards.fields_def

subsection \<open>The composition keeps the columns and sorts nothing\<close>

lemma column_truncate_extend [simp]: "column.truncate (column.extend (c::column) m) = c"
  by (cases c) (simp add: column.truncate_def column.extend_def)

lemma card_truncate_extend [simp]: "card.truncate (card.extend (c::card) m) = c"
  by (cases c) (simp add: card.truncate_def card.extend_def)

lemma column_id_extend [simp]: "column_id (column.extend c m) = column_id c"
  by (simp add: column.extend_def)

lemma cards_extend [simp]: "cards (column.extend c (columnWithCards.fields ks)) = ks"
  by (simp add: column.extend_def columnWithCards.fields_def)

lemma columnsWithCards_truncate:
  "map column.truncate (columnsWithCards cols cd subs ls cls as cs acts) = cols"
  by (simp add: columnsWithCards_def o_def)

lemma columnsWithCards_mem:
  assumes "col \<in> set (columnsWithCards cols cd subs ls cls as cs acts)"
  shows "column.truncate col \<in> set cols \<and>
         map card.truncate (cards col) = filter (\<lambda>c. card_column_id c = column_id col) cd"
proof -
  from assms obtain c0 where c0: "c0 \<in> set cols" and
    col: "col = column.extend c0 (columnWithCards.fields
       (map (\<lambda>c.
          let cardLabelIds =
            map cardLabel_label_id (filter (\<lambda>cl. cardLabel_card_id cl = card_id c) cls)
          in card.extend c (cardWithLabels.fields
               (filter (\<lambda>l. label_id l \<in> set cardLabelIds) ls)
               (filter (\<lambda>s. subtask_card_id s = card_id c) subs)
               (filter (\<lambda>a. attachment_card_id a = card_id c) as)
               (filter (\<lambda>m. comment_card_id m = card_id c) cs)
               (filter (\<lambda>a. activity_card_id a = Some (card_id c)) acts)))
        (filter (\<lambda>c. card_column_id c = column_id c0) cd)))"
    unfolding columnsWithCards_def by auto
  show ?thesis
    by (simp add: col c0 Let_def o_def)
qed

lemma card_position_truncate: "map card_position (map card.truncate ks) = map card_position ks"
  by (simp add: card.truncate_def o_def)

lemma columnsWithCards_cards_sorted:
  assumes "sorted (map card_position cd)"
    and "col \<in> set (columnsWithCards cols cd subs ls cls as cs acts)"
  shows "sorted (map card_position (cards col))"
proof -
  have "map card_position (cards col) =
          map card_position (filter (\<lambda>c. card_column_id c = column_id col) cd)"
    using columnsWithCards_mem [OF assms(2)] card_position_truncate [of "cards col"] by simp
  with assms(1) show ?thesis
    by (simp add: sorted_filter)
qed

lemma columnsWithCards_all_sorted:
  "sorted (map card_position cd) \<Longrightarrow>
   \<forall>col \<in> set (columnsWithCards cols cd subs ls cls as cs acts).
     sorted (map card_position (cards col))"
  using columnsWithCards_cards_sorted by blast

lemma fetch_nested_sorted:
  assumes "fetch_nested b cols st = (Inr v, st')"
  shows "map column.truncate v = cols \<and> (\<forall>col \<in> set v. sorted (map card_position (cards col)))"
proof (cases "cols = []")
  case True
  with assms show ?thesis
    by (simp add: fetch_nested_def)
next
  case False
  obtain r st1 where r: "request st = (r, st1)" by (cases "request st")
  with False assms have "r = None"
    by (auto simp: fetch_nested_def Let_def split: option.splits)
  have "sorted (map card_position (q_cards st1 (map column_id cols)))"
    by (simp add: q_cards_def)
  with False assms r \<open>r = None\<close> show ?thesis
    by (auto simp: fetch_nested_def Let_def columnsWithCards_truncate
          split: prod.splits if_splits dest: columnsWithCards_cards_sorted [rotated])
qed

section \<open>C7: the order of the view\<close>

text \<open>
  C7. In the view model produced by fetchBoard, the columns appear in ascending order of
  position and the cards of each column appear in ascending order of position. A fetch
  has produced the view when it leaves no error (\<open>error h' = None\<close>); the order is that of
  the two queries with \<^verbatim>\<open>.order('position')\<close>, which the composition keeps.
\<close>

theorem fetchBoard_ordered:
  assumes "fetchBoard ev (h, st) = (h', st')" and "error h' = None"
  shows "sorted (map column_position (columns h')) \<and>
         (\<forall>col \<in> set (columns h'). sorted (map card_position (cards col)))"
proof (cases "truthy (boardId ev)")
  case False
  with assms(1) have "columns h' = []"
    by (auto simp: fetchBoard_def)
  then show ?thesis by simp
next
  case True
  then obtain b where b: "boardId ev = Some b"
    by (cases "boardId ev") (auto simp: truthy_def)
  obtain r h2 st2 where t: "fetchBoard_try b (h, st) = (r, h2, st2)"
    by (cases "fetchBoard_try b (h, st)")
  with assms b True have r: "r = None" and h': "columns h' = columns h2"
    by (auto simp: fetchBoard_def catch_def split: option.splits)
  from t r obtain sa sb v where
    n: "fetch_nested b (q_columns sa b) sa = (Inr v, sb)" and v: "columns h2 = v"
    by (auto simp: fetchBoard_try_def Let_def split: prod.splits option.splits sum.splits)
  note s = fetch_nested_sorted [OF n]
  have "map column_position v = map column_position (map column.truncate v)"
    by (simp add: column.truncate_def o_def)
  then have "sorted (map column_position v)"
    using s by (simp add: q_columns_def)
  with s show ?thesis by (simp add: h' v)
qed

lemma ex_q_board: "q_board ex_store ''b1'' = Inr ex_board"
  by (simp add: ex_defs query_defs)

lemma ex_fetch:
  "fetchBoard ex_env (no_hook, ex_store) =
     (no_hook\<lparr>board := Some ex_board, columns := boardView ex_store ''b1'', loading := False,
              error := None\<rparr>, ex_store)"
  by (rule fetchBoard_ok [OF _ _ _ ex_q_board]) (simp_all add: ex_defs)

lemma ex_view_positions:
  "map (\<lambda>c. (column_id c, column_position c, map (\<lambda>k. (card_id k, card_position k)) (cards c)))
     (boardView ex_store ''b1'') =
   [(''c1'', 0, [(''k1'', 0), (''k3'', 1)]), (''c2'', 1, [(''k2'', 0)]), (''c3'', 2, [])]"
  by (simp add: ex_defs query_defs view_defs)

theorem fetchBoard_ordered_witness:
  "error (fst (fetchBoard ex_env (no_hook, ex_store))) = None \<and>
   map (\<lambda>c. (column_id c, column_position c, map (\<lambda>k. (card_id k, card_position k)) (cards c)))
     (columns (fst (fetchBoard ex_env (no_hook, ex_store)))) =
   [(''c1'', 0, [(''k1'', 0), (''k3'', 1)]), (''c2'', 1, [(''k2'', 0)]), (''c3'', 2, [])] \<and>
   sorted (map column_position (columns (fst (fetchBoard ex_env (no_hook, ex_store))))) \<and>
   list_all (\<lambda>col. sorted (map card_position (cards col)))
     (columns (fst (fetchBoard ex_env (no_hook, ex_store))))"
proof -
  have "error (no_hook\<lparr>board := Some ex_board, columns := boardView ex_store ''b1'',
          loading := False, error := None\<rparr>) = None"
    by simp
  from fetchBoard_ordered [OF ex_fetch this] show ?thesis
    by (simp add: ex_fetch ex_view_positions list_all_iff)
qed

section \<open>C8: the filter of the board\<close>

lemma cardMatches_passes: "cardMatches ev dayOf today fs c = passes ev dayOf today fs c"
  by (cases "dateFilter fs"; cases "card_description c"; cases "dayOf (the (card_due_date c))")
     (auto simp: cardMatches_def passes_def searchOk_def labelOk_def priorityOk_def dateOk_def
        list_ex_iff Let_def)

lemma filteredColumns_default: "filteredColumns ev dayOf today DEFAULT_FILTER_STATE cols = cols"
  by (simp add: filteredColumns_def DEFAULT_FILTER_STATE_def)

lemma passes_default: "passes ev dayOf today DEFAULT_FILTER_STATE c"
  by (simp add: passes_def searchOk_def labelOk_def priorityOk_def dateOk_def DEFAULT_FILTER_STATE_def)

lemma filteredColumns_map:
  "filteredColumns ev dayOf today fs cols =
     map (\<lambda>col. col\<lparr>cards := filter (passes ev dayOf today fs) (cards col)\<rparr>) cols"
proof (cases "searchQuery fs = [] \<and> filter_labels fs = [] \<and> priorities fs = [] \<and> dateFilter fs = All")
  case True
  then have "passes ev dayOf today fs = (\<lambda>c. True)"
    by (auto simp: passes_def searchOk_def labelOk_def priorityOk_def dateOk_def fun_eq_iff)
  with True show ?thesis by (simp add: filteredColumns_def)
next
  case False
  have "cardMatches ev dayOf today fs = passes ev dayOf today fs"
    by (rule ext) (rule cardMatches_passes)
  with False show ?thesis
    by (auto simp: filteredColumns_def)
qed

text \<open>
  C8. With the default filter state filteredColumns returns its columns unchanged. For
  every filter state the columns and their order are kept (each column with its own
  fields), and the cards shown in a column are the cards of the column that pass the four
  predicates together, in their order: a subsequence of the column's cards.
\<close>

theorem filteredColumns_conservative:
  "filteredColumns ev dayOf today DEFAULT_FILTER_STATE cols = cols \<and>
   map column.truncate (filteredColumns ev dayOf today fs cols) = map column.truncate cols \<and>
   map cards (filteredColumns ev dayOf today fs cols) =
     map (\<lambda>col. filter (passes ev dayOf today fs) (cards col)) cols \<and>
   list_all2 subseq (map cards (filteredColumns ev dayOf today fs cols)) (map cards cols)"
proof (intro conjI)
  show "filteredColumns ev dayOf today DEFAULT_FILTER_STATE cols = cols"
    by (rule filteredColumns_default)
  show "map column.truncate (filteredColumns ev dayOf today fs cols) = map column.truncate cols"
    by (simp add: filteredColumns_map column.truncate_def o_def)
  show "map cards (filteredColumns ev dayOf today fs cols) =
     map (\<lambda>col. filter (passes ev dayOf today fs) (cards col)) cols"
    by (simp add: filteredColumns_map o_def)
  show "list_all2 subseq (map cards (filteredColumns ev dayOf today fs cols)) (map cards cols)"
    by (simp add: filteredColumns_map o_def list_all2_map1 list_all2_map2 list_all2_same)
qed

section \<open>C6: the composition of the view\<close>











text \<open>
  The rows that fetchBoard composes satisfy what the composition needs, in a store whose
  identifiers are primary keys: the cards are those of the columns fetched, the subtasks,
  attachments and comments are those of the cards fetched.
\<close>

lemma distinct_map_sort_key:
  "distinct (map f (sort_key g xs)) = distinct (map f xs)"
proof -
  have "mset (map f (sort_key g xs)) = mset (map f xs)"
    by simp
  then show ?thesis by (rule mset_eq_imp_distinct_iff)
qed

lemma fetched_rows_integrity:
  assumes "distinct (map column_id (tbl_columns st))" and "distinct (map card_id (tbl_cards st))"
  shows "distinct (map column_id (q_columns st b))"
    and "\<forall>c \<in> set (q_cards st (map column_id cols)). card_column_id c \<in> column_id ` set cols"
    and "distinct (map card_id (q_cards st ids))"
    and "\<forall>s \<in> set (q_subtasks st (map card_id cd)). subtask_card_id s \<in> card_id ` set cd"
    and "\<forall>a \<in> set (q_attachments st (map card_id cd)). attachment_card_id a \<in> card_id ` set cd"
    and "\<forall>m \<in> set (q_comments st (map card_id cd)). comment_card_id m \<in> card_id ` set cd"
  using assms
  by (auto simp: q_columns_def q_cards_def q_subtasks_def q_attachments_def q_comments_def
        distinct_map_sort_key distinct_map_filter)



lemma ex_queries:
  "q_columns ex_store ''b1'' =
     [mk_column ''c1'' ''To Do'' 0 None, mk_column ''c2'' ''In Progress'' 1 (Some 1),
      mk_column ''c3'' ''Done'' 2 None]"
  "q_cards ex_store [''c1'', ''c2'', ''c3''] =
     [mk_card ''k2'' ''c2'' 0, mk_card ''k1'' ''c1'' 0, mk_card ''k3'' ''c1'' 1]"
  "q_subtasks ex_store [''k2'', ''k1'', ''k3''] =
     [mk_subtask ''s1'' ''k1'' False 0, mk_subtask ''s3'' ''k3'' False 0,
      mk_subtask ''s2'' ''k1'' True 1, mk_subtask ''s4'' ''k3'' False 1]"
  "q_attachments ex_store [''k2'', ''k1'', ''k3''] = []"
  "q_comments ex_store [''k2'', ''k1'', ''k3''] = []"
  by (simp_all add: ex_defs query_defs)


section \<open>What the requests leave unchanged\<close>

lemma same_rows_refl: "same_rows st st"
  by (auto simp: same_rows_def intro: exI [of _ "faults st"])

lemma same_rows_trans: "same_rows a b \<Longrightarrow> same_rows b c \<Longrightarrow> same_rows a c"
  by (auto simp: same_rows_def)

lemma same_rows_request: "request st = (r, st') \<Longrightarrow> same_rows st st'"
  by (auto simp: request_def same_rows_def split: list.splits intro: exI [of _ "faults st"])

lemma same_rows_storage_request: "storage_request st = (r, st') \<Longrightarrow> same_rows st st'"
  by (auto simp: storage_request_def same_rows_def split: list.splits
        intro: exI [of _ "faults st"])

lemma same_rows_data_or_empty: "data_or_empty st rows = (d, st') \<Longrightarrow> same_rows st st'"
  by (auto simp: data_or_empty_def same_rows_refl split: prod.splits option.splits
        dest: same_rows_request)

lemma same_rows_fetch_nested: "fetch_nested b cols st = (r, st') \<Longrightarrow> same_rows st st'"
  by (auto simp: fetch_nested_def Let_def split: prod.splits option.splits if_splits
        dest!: same_rows_request same_rows_data_or_empty)
     (meson same_rows_trans same_rows_refl)+

lemma same_rows_fetchBoard_try: "fetchBoard_try b (h, st) = (r, h', st') \<Longrightarrow> same_rows st st'"
  by (auto simp: fetchBoard_try_def Let_def split: prod.splits option.splits sum.splits
        dest!: same_rows_request same_rows_fetch_nested)
     (meson same_rows_trans same_rows_refl)+

lemma same_rows_fetchBoard: "fetchBoard ev (h, st) = (h', st') \<Longrightarrow> same_rows st st'"
  by (auto simp: fetchBoard_def same_rows_refl split: if_splits prod.splits option.splits
        dest!: same_rows_fetchBoard_try)

lemma same_rows_tables:
  assumes "same_rows st st'"
  shows "tbl_boards st' = tbl_boards st" "tbl_columns st' = tbl_columns st"
    "tbl_cards st' = tbl_cards st" "tbl_subtasks st' = tbl_subtasks st"
    "tbl_labels st' = tbl_labels st" "tbl_card_labels st' = tbl_card_labels st"
    "tbl_attachments st' = tbl_attachments st" "tbl_comments st' = tbl_comments st"
    "tbl_activities st' = tbl_activities st" "bucket st' = bucket st"
  using assms by (auto simp: same_rows_def)


subsection \<open>logActivity, moveCard\<close>

lemma logActivity_rows:
  "tbl_boards (logActivity ev c a d st) = tbl_boards st"
  "tbl_columns (logActivity ev c a d st) = tbl_columns st"
  "tbl_cards (logActivity ev c a d st) = tbl_cards st"
  "tbl_subtasks (logActivity ev c a d st) = tbl_subtasks st"
  "tbl_labels (logActivity ev c a d st) = tbl_labels st"
  "tbl_card_labels (logActivity ev c a d st) = tbl_card_labels st"
  "tbl_attachments (logActivity ev c a d st) = tbl_attachments st"
  "tbl_comments (logActivity ev c a d st) = tbl_comments st"
  "bucket (logActivity ev c a d st) = bucket st"
  by (simp_all add: logActivity_def request_def split: list.splits option.splits)

lemma logActivity_faults: "faults st = [] \<Longrightarrow> faults (logActivity ev c a d st) = []"
  by (simp add: logActivity_def request_def)

lemma moveCard_refused:
  assumes "request st = (Some e, st1)"
  shows "moveCard ev cardId target pos (h, st) =
           (False, catch ''Failed to move card'' ''Error moving card:'' e h, st1)"
  using assms by (simp add: moveCard_def)

lemma moveCard_performed:
  assumes "request st = (None, st1)" and "moveCard ev cardId target pos (h, st) = (r, h', st')"
  shows "r = True \<and> tbl_cards st' = moved cardId target pos (now ev) (tbl_cards st) \<and>
         tbl_columns st' = tbl_columns st \<and> tbl_subtasks st' = tbl_subtasks st"
proof -
  from assms(1) have s1: "same_rows st st1" by (rule same_rows_request)
  define st2 where "st2 = st1\<lparr>tbl_cards := moved cardId target pos (now ev) (tbl_cards st1)\<rparr>"
  obtain st3 where st3: "moveCard ev cardId target pos (h, st) = (True, fetchBoard ev (h, st3))"
    and rows: "tbl_cards st3 = tbl_cards st2" "tbl_columns st3 = tbl_columns st2"
      "tbl_subtasks st3 = tbl_subtasks st2"
    using assms(1)
    by (auto simp: moveCard_def Let_def moved_def st2_def logActivity_rows
          split: prod.splits option.splits)
  obtain h4 st4 where f: "fetchBoard ev (h, st3) = (h4, st4)"
    by (cases "fetchBoard ev (h, st3)")
  note t4 = same_rows_tables [OF same_rows_fetchBoard [OF f]]
  note t1 = same_rows_tables [OF s1]
  from assms(2) st3 f have "r = True" "st' = st4" by simp_all
  then show ?thesis
    by (simp add: t4 rows st2_def t1)
qed


subsection \<open>The automation\<close>

lemma find_hosts_None:
  "(find (\<lambda>s. subtask_id s = sid) (subtasks k) = None) = (\<not> hosts k sid)"
  by (auto simp: hosts_def find_None_iff list_ex_iff)

lemma find_hosts_Some:
  "(\<exists>y. find (\<lambda>s. subtask_id s = sid) (subtasks k) = Some y) = hosts k sid"
  by (metis find_hosts_None not_None_eq)

lemmas find_hosts = find_hosts_None find_hosts_Some

lemma find_in_cards_absent:
  "\<forall>k \<in> set ks. \<not> hosts k sid \<Longrightarrow> find_in_cards ks sid acc = acc"
  by (induction ks) (simp_all add: find_hosts)

lemma find_in_cards_sole:
  assumes "hosts k sid"
  shows "k \<in> set ks \<Longrightarrow> \<forall>k' \<in> set ks. hosts k' sid \<longrightarrow> k' = k \<Longrightarrow>
         find_in_cards ks sid acc = (Some (card_id k), subtasks k)"
proof (induction ks)
  case Nil
  then show ?case by simp
next
  case (Cons a ks)
  show ?case
  proof (cases "hosts a sid")
    case True
    with Cons.prems(2) have "a = k" by simp
    with True show ?thesis by (simp add: find_hosts)
  next
    case False
    with assms Cons.prems(1) have "k \<in> set ks" by auto
    with Cons False show ?thesis by (simp add: find_hosts)
  qed
qed

lemma find_in_columns_absent:
  "\<forall>c \<in> set cols. \<forall>k \<in> set (cards c). \<not> hosts k sid \<Longrightarrow> \<not> truthy (fst acc) \<Longrightarrow>
   find_in_columns cols sid acc = acc"
  by (induction cols) (simp_all add: find_in_cards_absent Let_def)

lemma find_in_columns_sole:
  assumes "col \<in> set cols" "k \<in> set (cards col)" "hosts k sid"
    and "\<forall>c \<in> set cols. \<forall>k' \<in> set (cards c). hosts k' sid \<longrightarrow> k' = k"
    and "card_id k \<noteq> []" and "\<not> truthy (fst acc)"
  shows "find_in_columns cols sid acc = (Some (card_id k), subtasks k)"
  using assms(1,4)
proof (induction cols)
  case Nil
  then show ?case by simp
next
  case (Cons c cols)
  show ?case
  proof (cases "\<exists>k' \<in> set (cards c). hosts k' sid")
    case True
    then have "k \<in> set (cards c)" using Cons.prems(2) by auto
    then have "find_in_cards (cards c) sid acc = (Some (card_id k), subtasks k)"
      using Cons.prems(2) by (intro find_in_cards_sole [OF assms(3)]) simp_all
    then show ?thesis using assms(5) by (simp add: truthy_def)
  next
    case False
    then have a: "find_in_cards (cards c) sid acc = acc"
      by (intro find_in_cards_absent) auto
    from False assms(2,3) Cons.prems(1) have "col \<in> set cols" by auto
    with Cons a assms(6) show ?thesis by simp
  qed
qed

lemma find_current_column:
  assumes "col \<in> set cols" "k \<in> set (cards col)"
    and "\<forall>c \<in> set cols. \<forall>k' \<in> set (cards c). card_id k' = card_id k \<longrightarrow> column_id c = column_id col"
  shows "\<exists>c. find (\<lambda>c. list_ex (\<lambda>k'. card_id k' = card_id k) (cards c)) cols = Some c \<and>
             column_id c = column_id col"
proof -
  let ?P = "\<lambda>c. list_ex (\<lambda>k'. card_id k' = card_id k) (cards c)"
  have "?P col" using assms(2) by (auto simp: list_ex_iff)
  with assms(1) obtain c where c: "find ?P cols = Some c"
    by (cases "find ?P cols") (auto simp: find_None_iff)
  then have "c \<in> set cols" "?P c"
    by (auto simp: find_Some_iff)
  with assms(3) have "column_id c = column_id col"
    by (auto simp: list_ex_iff)
  with c show ?thesis by simp
qed

text \<open>The target of the automation for the card that alone has the subtask.\<close>

lemma automation_target_sole:
  assumes "col \<in> set cols" "k \<in> set (cards col)" "hosts k sid"
    and "\<forall>c \<in> set cols. \<forall>k' \<in> set (cards c). hosts k' sid \<longrightarrow> k' = k"
    and "\<forall>c \<in> set cols. \<forall>k' \<in> set (cards c). card_id k' = card_id k \<longrightarrow> column_id c = column_id col"
    and "card_id k \<noteq> []"
  shows "automation_target ev cols sid =
           (if \<forall>s \<in> set (subtasks k). subtask_id s \<noteq> sid \<longrightarrow> subtask_is_completed s
            then case find (\<lambda>c. isDoneTitle ev (column_title c)) cols of
                   None \<Rightarrow> None
                 | Some d \<Rightarrow> if column_id d \<noteq> column_id col then Some (card_id k, d) else None
            else None)"
proof -
  have f: "find_in_columns cols sid (None, []) = (Some (card_id k), subtasks k)"
    by (rule find_in_columns_sole [OF assms(1,2,3,4,6)]) (simp add: truthy_def)
  from find_current_column [OF assms(1,2,5)] obtain c where
    c: "find (\<lambda>c. list_ex (\<lambda>k'. card_id k' = card_id k) (cards c)) cols = Some c"
       "column_id c = column_id col"
    by blast
  have ne: "subtasks k \<noteq> []" using assms(3) by (auto simp: hosts_def)
  have others: "list_all subtask_is_completed (filter (\<lambda>s. subtask_id s \<noteq> sid) (subtasks k)) =
        (\<forall>s \<in> set (subtasks k). subtask_id s \<noteq> sid \<longrightarrow> subtask_is_completed s)"
    by (auto simp: list_all_iff)
  have "automation_target ev cols sid =
     (if list_all subtask_is_completed (filter (\<lambda>s. subtask_id s \<noteq> sid) (subtasks k))
      then case (find (\<lambda>c. isDoneTitle ev (column_title c)) cols, Some c) of
             (Some d, Some c') \<Rightarrow>
               if column_id d \<noteq> column_id c' then Some (card_id k, d) else None
           | _ \<Rightarrow> None
      else None)"
    unfolding automation_target_def f
    using assms(6) ne by (simp add: truthy_def c(1) split: option.splits)
  then show ?thesis
    unfolding others
    by (cases "find (\<lambda>c. isDoneTitle ev (column_title c)) cols") (auto simp: c(2))
qed

lemma automation_target_absent:
  assumes "\<forall>c \<in> set cols. \<forall>k \<in> set (cards c). \<not> hosts k sid"
  shows "automation_target ev cols sid = None"
proof -
  have "find_in_columns cols sid (None, []) = (None, [])"
    by (rule find_in_columns_absent [OF assms]) (simp add: truthy_def)
  then show ?thesis by (simp add: automation_target_def truthy_def)
qed

subsection \<open>toggleSubtask\<close>

lemma toggleSubtask_refused:
  assumes "request st = (Some e, st1)"
  shows "toggleSubtask ev sid isCompleted (h, st) =
           (None, catch ''Failed to toggle subtask'' ''Error toggling subtask:'' e h, st1)"
  using assms by (simp add: toggleSubtask_def)

lemma toggleSubtask_performed:
  assumes "request st = (None, st1)"
  shows "toggleSubtask ev sid c (h, st) =
     (case (if c then automation_target ev (columns h) sid else None) of
        Some (cardId, d) \<Rightarrow>
          (let (m, h3, st3) =
             moveCard ev cardId (column_id d) 0
               (h, st1\<lparr>tbl_subtasks := toggled sid c (tbl_subtasks st1)\<rparr>)
           in (Some (automationMessage (column_title d)), h3, st3))
      | None \<Rightarrow>
          (let (h3, st3) = fetchBoard ev (h, st1\<lparr>tbl_subtasks := toggled sid c (tbl_subtasks st1)\<rparr>)
           in (None, h3, st3)))"
  unfolding toggled_def using assms by (simp add: toggleSubtask_def Let_def)

lemma toggleSubtask_quiet:
  assumes "isCompleted \<longrightarrow> automation_target ev (columns h) sid = None"
    and "toggleSubtask ev sid isCompleted (h, st) = (msg, h', st')"
  shows "msg = None \<and> tbl_cards st' = tbl_cards st \<and> tbl_columns st' = tbl_columns st"
proof -
  obtain r st1 where r: "request st = (r, st1)" by (cases "request st")
  from same_rows_request [OF r] have s1: "same_rows st st1" .
  show ?thesis
  proof (cases r)
    case (Some e)
    with r have "toggleSubtask ev sid isCompleted (h, st) =
           (None, catch ''Failed to toggle subtask'' ''Error toggling subtask:'' e h, st1)"
      by (simp add: toggleSubtask_refused)
    with assms(2) have "msg = None" "st' = st1" by simp_all
    then show ?thesis by (simp add: same_rows_tables [OF s1])
  next
    case None
    let ?st2 = "st1\<lparr>tbl_subtasks := toggled sid isCompleted (tbl_subtasks st1)\<rparr>"
    obtain h3 st3 where f: "fetchBoard ev (h, ?st2) = (h3, st3)"
      by (cases "fetchBoard ev (h, ?st2)")
    from r None have "request st = (None, st1)" by simp
    from toggleSubtask_performed [OF this, of ev sid isCompleted h] assms(1) f
    have "toggleSubtask ev sid isCompleted (h, st) = (None, h3, st3)"
      by (cases isCompleted) simp_all
    with assms(2) have "msg = None" "st' = st3" by simp_all
    moreover have "tbl_cards st3 = tbl_cards st1" "tbl_columns st3 = tbl_columns st1"
      using same_rows_tables [OF same_rows_fetchBoard [OF f]] by simp_all
    ultimately show ?thesis by (simp add: same_rows_tables [OF s1])
  qed
qed

lemma toggleSubtask_moves:
  assumes "request st = (None, st1)"
    and "automation_target ev (columns h) sid = Some (cardId, d)"
    and "toggleSubtask ev sid True (h, st) = (msg, h', st')"
  shows "msg = Some (automationMessage (column_title d)) \<and>
         (fst (request st1) = None \<longrightarrow>
            tbl_cards st' = moved cardId (column_id d) 0 (now ev) (tbl_cards st)) \<and>
         tbl_subtasks st' = toggled sid True (tbl_subtasks st)"
proof -
  from same_rows_request [OF assms(1)] have s1: "same_rows st st1" .
  let ?st2 = "st1\<lparr>tbl_subtasks := toggled sid True (tbl_subtasks st1)\<rparr>"
  obtain r h3 st3 where m: "moveCard ev cardId (column_id d) 0 (h, ?st2) = (r, h3, st3)"
    by (cases "moveCard ev cardId (column_id d) 0 (h, ?st2)")
  from toggleSubtask_performed [OF assms(1), of ev sid True h] assms(2) m
  have "toggleSubtask ev sid True (h, st) = (Some (automationMessage (column_title d)), h3, st3)"
    by simp
  with assms(3) have res: "msg = Some (automationMessage (column_title d))" "st' = st3"
    by simp_all
  obtain q st2' where q: "request ?st2 = (q, st2')" by (cases "request ?st2")
  have rq: "fst (request st1) = q"
    using q by (auto simp: request_def split: list.splits)
  note t1 = same_rows_tables [OF s1]
  have sub: "tbl_subtasks st3 = toggled sid True (tbl_subtasks st)"
  proof (cases q)
    case None
    with q have "request ?st2 = (None, st2')" by simp
    from moveCard_performed [OF this m] show ?thesis by (simp add: t1)
  next
    case (Some e)
    with q m have "st3 = st2'" by (simp add: moveCard_refused)
    moreover have "tbl_subtasks st2' = tbl_subtasks ?st2"
      by (rule same_rows_tables [OF same_rows_request [OF q]])
    ultimately show ?thesis by (simp add: t1)
  qed
  have "fst (request st1) = None \<longrightarrow>
            tbl_cards st3 = moved cardId (column_id d) 0 (now ev) (tbl_cards st)"
  proof
    assume "fst (request st1) = None"
    with rq q have "request ?st2 = (None, st2')" by simp
    from moveCard_performed [OF this m] show
      "tbl_cards st3 = moved cardId (column_id d) 0 (now ev) (tbl_cards st)"
      by (simp add: t1)
  qed
  with res sub show ?thesis by simp
qed

lemmas ex_view_defs = ex_k1_def ex_k2_def ex_k3_def ex_c1_def ex_c2_def ex_c3_def
  done_k1_def done_d1_def done_d2_def

lemma ex_view: "boardView ex_store ''b1'' = [ex_c1, ex_c2, ex_c3]"
  by (simp add: ex_defs query_defs view_defs ex_view_defs del: set_map set_filter)

lemma done_view: "boardView done_store ''b1'' = [done_d1, done_d2]"
  by (simp add: ex_defs query_defs view_defs ex_view_defs del: set_map set_filter)

lemma ex_columns: "columns ex_hook = [ex_c1, ex_c2, ex_c3]" "columns done_hook = [done_d1, done_d2]"
  by (simp_all add: ex_hook_def done_hook_def ex_view done_view)

lemma ex_titles:
  "isDoneTitle ex_env ''To Do'' = False" "isDoneTitle ex_env ''In Progress'' = False"
  "isDoneTitle ex_env ''Done'' = True" "isDoneTitle ex_env ''Done 2'' = True"
  by (simp_all add: isDoneTitle_def ex_env_def ascii_lower_def ascii_lower_char_def)

lemma ex_fields:
  "column_id ex_c1 = ''c1''" "column_id ex_c2 = ''c2''" "column_id ex_c3 = ''c3''"
  "column_title ex_c1 = ''To Do''" "column_title ex_c2 = ''In Progress''"
  "column_title ex_c3 = ''Done''"
  "cards ex_c1 = [ex_k1, ex_k3]" "cards ex_c2 = [ex_k2]" "cards ex_c3 = []"
  "card_id ex_k1 = ''k1''" "card_id ex_k2 = ''k2''" "card_id ex_k3 = ''k3''"
  "subtasks ex_k1 = [mk_subtask ''s1'' ''k1'' False 0, mk_subtask ''s2'' ''k1'' True 1]"
  "subtasks ex_k2 = []"
  "subtasks ex_k3 = [mk_subtask ''s3'' ''k3'' False 0, mk_subtask ''s4'' ''k3'' False 1]"
  "column_id done_d1 = ''d1''" "column_id done_d2 = ''d2''"
  "column_title done_d1 = ''Done''" "column_title done_d2 = ''Done 2''"
  "cards done_d1 = [done_k1]" "cards done_d2 = []"
  "card_id done_k1 = ''k1''" "subtasks done_k1 = [mk_subtask ''s1'' ''k1'' False 0]"
  by (simp_all add: ex_view_defs mk_column_def mk_card_def column.extend_def card.extend_def
        columnWithCards.fields_def cardWithLabels.fields_def)

lemma ex_hosts:
  "hosts ex_k1 sid = (sid = ''s1'' \<or> sid = ''s2'')" "hosts ex_k2 sid = False"
  "hosts ex_k3 sid = (sid = ''s3'' \<or> sid = ''s4'')" "hosts done_k1 sid = (sid = ''s1'')"
  by (auto simp: hosts_def ex_fields mk_subtask_def)

lemma ex_positions:
  "column_position ex_c1 = 0" "column_position ex_c2 = 1" "column_position ex_c3 = 2"
  "card_position ex_k1 = 0" "card_position ex_k2 = 0" "card_position ex_k3 = 1"
  "column_wip_limit ex_c1 = None" "column_wip_limit ex_c2 = Some 1"
  "column_wip_limit ex_c3 = None"
  by (simp_all add: ex_view_defs mk_column_def mk_card_def column.extend_def card.extend_def)

lemma ex_max:
  "columns ex_hook \<noteq> []"
  "Max (column_position ` set (columns ex_hook)) = 2"
  "find (\<lambda>c. column_id c = ''c1'') (columns ex_hook) = Some ex_c1"
  "cards ex_c1 \<noteq> []"
  "Max (card_position ` set (cards ex_c1)) = 1"
  by (simp_all add: ex_columns ex_fields ex_positions)

lemma ex_store_rows:
  "faults ex_store = []"
  "tbl_cards ex_store = [mk_card ''k3'' ''c1'' 1, mk_card ''k2'' ''c2'' 0, mk_card ''k1'' ''c1'' 0]"
  "tbl_columns ex_store =
     [mk_column ''c3'' ''Done'' 2 None, mk_column ''c1'' ''To Do'' 0 None,
      mk_column ''c2'' ''In Progress'' 1 (Some 1)]"
  by (simp_all add: ex_store_def no_store_def)

lemma ex_hook_state:
  "loading ex_hook = False" "error ex_hook = None" "board ex_hook = Some ex_board"
  "console ex_hook = []"
  by (simp_all add: ex_hook_def no_hook_def)

lemma ex_labels:
  "map label_id (labels ex_k1) = [''l1'']" "labels ex_k2 = []" "labels ex_k3 = []"
  "card_priority ex_k1 = Medium" "card_priority ex_k2 = Medium" "card_priority ex_k3 = Medium"
  by (simp_all add: ex_view_defs mk_card_def card.extend_def cardWithLabels.fields_def)

lemma ex_passes:
  "passes ev dayOf today \<lparr>searchQuery = [], filter_labels = [''l1''], priorities = [Medium],
     dateFilter = All\<rparr> ex_k1"
  "\<not> passes ev dayOf today \<lparr>searchQuery = [], filter_labels = [''l1''], priorities = [Medium],
     dateFilter = All\<rparr> ex_k2"
  "\<not> passes ev dayOf today \<lparr>searchQuery = [], filter_labels = [''l1''], priorities = [Medium],
     dateFilter = All\<rparr> ex_k3"
proof -
  have "label_id ` set (labels ex_k1) = {''l1''}"
    using ex_labels(1) by (metis list.set(1) list.set(2) set_map)
  then show
    "passes ev dayOf today \<lparr>searchQuery = [], filter_labels = [''l1''], priorities = [Medium],
       dateFilter = All\<rparr> ex_k1"
    "\<not> passes ev dayOf today \<lparr>searchQuery = [], filter_labels = [''l1''], priorities = [Medium],
       dateFilter = All\<rparr> ex_k2"
    "\<not> passes ev dayOf today \<lparr>searchQuery = [], filter_labels = [''l1''], priorities = [Medium],
       dateFilter = All\<rparr> ex_k3"
    by (simp_all add: passes_def searchOk_def labelOk_def priorityOk_def dateOk_def ex_labels)
qed

lemma automationMessage_truthy: "truthy (Some (automationMessage t))"
  by (simp add: truthy_def automationMessage_def)

lemma handleToggleSubtask_eq:
  "fst (handleToggleSubtask ev sid c w) =
     (case fst (toggleSubtask ev sid c w) of
        None \<Rightarrow> []
      | Some m \<Rightarrow> if m = [] then [] else [Confetti, ToastSuccess m])"
  by (simp add: handleToggleSubtask_def truthy_def split: prod.splits option.splits)

section \<open>C1: the automation of toggleSubtask\<close>

text \<open>
  C1 as stated says: when a subtask of a card is marked complete, every other subtask of
  the card is complete, and some column whose title matches the heuristic differs from the
  card's column, the card is moved to that column and a message is returned. The code takes
  the first column that matches, and moves the card only when that column is not the
  card's: with the card in the column Done and a second column Done 2, nothing is moved
  and no message is returned.
\<close>

lemma done_target: "automation_target ex_env (columns done_hook) ''s1'' = None"
proof -
  have "find (\<lambda>c. isDoneTitle ex_env (column_title c)) (columns done_hook) = Some done_d1"
    by (simp add: ex_columns ex_fields ex_titles)
  moreover have "done_d1 \<in> set (columns done_hook)" "done_k1 \<in> set (cards done_d1)"
    "hosts done_k1 ''s1''"
    by (simp_all add: ex_columns ex_fields ex_hosts)
  moreover have "\<forall>c \<in> set (columns done_hook). \<forall>k' \<in> set (cards c).
      hosts k' ''s1'' \<longrightarrow> k' = done_k1"
    by (simp add: ex_columns ex_fields ex_hosts)
  moreover have "\<forall>c \<in> set (columns done_hook). \<forall>k' \<in> set (cards c).
      card_id k' = card_id done_k1 \<longrightarrow> column_id c = column_id done_d1"
    by (simp add: ex_columns ex_fields)
  moreover have "card_id done_k1 \<noteq> []" by (simp add: ex_fields)
  ultimately show ?thesis
    by (simp add: automation_target_sole [where col = done_d1 and cols = "columns done_hook"
          and k = done_k1 and sid = "''s1''" and ev = ex_env])
qed

theorem toggleSubtask_automation_counterexample:
  "map (\<lambda>c. (column_id c, column_title c, isDoneTitle ex_env (column_title c),
             map (\<lambda>k. (card_id k, map (\<lambda>s. (subtask_id s, subtask_is_completed s)) (subtasks k)))
               (cards c)))
     (columns done_hook) =
     [(''d1'', ''Done'', True, [(''k1'', [(''s1'', False)])]), (''d2'', ''Done 2'', True, [])] \<and>
   fst (toggleSubtask ex_env ''s1'' True (done_hook, done_store)) = None \<and>
   tbl_cards (snd (snd (toggleSubtask ex_env ''s1'' True (done_hook, done_store)))) =
     [mk_card ''k1'' ''d1'' 0] \<and>
   fst (handleToggleSubtask ex_env ''s1'' True (done_hook, done_store)) = []"
proof -
  obtain msg h' st' where e: "toggleSubtask ex_env ''s1'' True (done_hook, done_store) = (msg, h', st')"
    by (cases "toggleSubtask ex_env ''s1'' True (done_hook, done_store)")
  have "True \<longrightarrow> automation_target ex_env (columns done_hook) ''s1'' = None"
    by (simp add: done_target)
  from toggleSubtask_quiet [OF this e] have "msg = None" "tbl_cards st' = tbl_cards done_store"
    by simp_all
  moreover have "tbl_cards done_store = [mk_card ''k1'' ''d1'' 0]"
    by (simp add: done_store_def no_store_def)
  moreover have "map (\<lambda>c. (column_id c, column_title c, isDoneTitle ex_env (column_title c),
             map (\<lambda>k. (card_id k, map (\<lambda>s. (subtask_id s, subtask_is_completed s)) (subtasks k)))
               (cards c)))
     (columns done_hook) =
     [(''d1'', ''Done'', True, [(''k1'', [(''s1'', False)])]), (''d2'', ''Done 2'', True, [])]"
    by (simp add: ex_columns ex_fields ex_titles mk_subtask_def)
  ultimately show ?thesis
    by (simp add: e handleToggleSubtask_eq)
qed

text \<open>
  C1, amended. The card \<open>k\<close> of the column \<open>col\<close> is the only card of the hook's columns
  with a subtask \<open>sid\<close>, its identifier is not empty and occurs in no other column; every
  other subtask of \<open>k\<close> is completed; \<open>d\<close> is the first column whose title matches the
  heuristic, and it is not the column of \<open>k\<close>; the store performs the requests. Then
  toggleSubtask with \<^verbatim>\<open>isCompleted = true\<close> returns the automation message, the rows of the
  card have the column \<open>d\<close> and the position 0, the subtask is completed in the store, and
  handleToggleSubtask raises the confetti and the success toast.
\<close>

theorem toggleSubtask_automation:
  assumes "faults st = []"
    and "col \<in> set (columns h)" "k \<in> set (cards col)" "hosts k sid"
    and "\<forall>c \<in> set (columns h). \<forall>k' \<in> set (cards c). hosts k' sid \<longrightarrow> k' = k"
    and "\<forall>c \<in> set (columns h). \<forall>k' \<in> set (cards c).
           card_id k' = card_id k \<longrightarrow> column_id c = column_id col"
    and "card_id k \<noteq> []"
    and "\<forall>s \<in> set (subtasks k). subtask_id s \<noteq> sid \<longrightarrow> subtask_is_completed s"
    and "find (\<lambda>c. isDoneTitle ev (column_title c)) (columns h) = Some d"
    and "column_id d \<noteq> column_id col"
  shows "fst (toggleSubtask ev sid True (h, st)) = Some (automationMessage (column_title d)) \<and>
         tbl_cards (snd (snd (toggleSubtask ev sid True (h, st)))) =
           moved (card_id k) (column_id d) 0 (now ev) (tbl_cards st) \<and>
         tbl_subtasks (snd (snd (toggleSubtask ev sid True (h, st)))) =
           toggled sid True (tbl_subtasks st) \<and>
         fst (handleToggleSubtask ev sid True (h, st)) =
           [Confetti, ToastSuccess (automationMessage (column_title d))]"
proof -
  have t: "automation_target ev (columns h) sid = Some (card_id k, d)"
    using assms(8,9,10) by (simp add: automation_target_sole [OF assms(2-7)])
  have r: "request st = (None, st)" using assms(1) by (rule request_ok)
  obtain msg h' st' where e: "toggleSubtask ev sid True (h, st) = (msg, h', st')"
    by (cases "toggleSubtask ev sid True (h, st)")
  from toggleSubtask_moves [OF r t e] r
  have "msg = Some (automationMessage (column_title d))"
    and "tbl_cards st' = moved (card_id k) (column_id d) 0 (now ev) (tbl_cards st)"
    and "tbl_subtasks st' = toggled sid True (tbl_subtasks st)"
    by simp_all
  then show ?thesis
    using automationMessage_truthy [of "column_title d"]
    by (simp add: e handleToggleSubtask_eq truthy_def)
qed

theorem toggleSubtask_automation_witness:
  "fst (toggleSubtask ex_env ''s1'' True (ex_hook, ex_store)) = Some (automationMessage ''Done'') \<and>
   map (\<lambda>r. (card_id r, card_column_id r, card_position r))
     (tbl_cards (snd (snd (toggleSubtask ex_env ''s1'' True (ex_hook, ex_store))))) =
     [(''k3'', ''c1'', 1), (''k2'', ''c2'', 0), (''k1'', ''c3'', 0)] \<and>
   fst (handleToggleSubtask ex_env ''s1'' True (ex_hook, ex_store)) =
     [Confetti, ToastSuccess (automationMessage ''Done'')]"
proof -
  have "faults ex_store = []" by (simp add: ex_defs)
  moreover have "ex_c1 \<in> set (columns ex_hook)" "ex_k1 \<in> set (cards ex_c1)" "hosts ex_k1 ''s1''"
    by (simp_all add: ex_columns ex_fields ex_hosts)
  moreover have "\<forall>c \<in> set (columns ex_hook). \<forall>k' \<in> set (cards c). hosts k' ''s1'' \<longrightarrow> k' = ex_k1"
    by (simp add: ex_columns ex_fields ex_hosts)
  moreover have "\<forall>c \<in> set (columns ex_hook). \<forall>k' \<in> set (cards c).
           card_id k' = card_id ex_k1 \<longrightarrow> column_id c = column_id ex_c1"
    by (simp add: ex_columns ex_fields)
  moreover have "card_id ex_k1 \<noteq> []" by (simp add: ex_fields)
  moreover have "\<forall>s \<in> set (subtasks ex_k1). subtask_id s \<noteq> ''s1'' \<longrightarrow> subtask_is_completed s"
    by (simp add: ex_fields mk_subtask_def)
  moreover have "find (\<lambda>c. isDoneTitle ex_env (column_title c)) (columns ex_hook) = Some ex_c3"
    by (simp add: ex_columns ex_fields ex_titles)
  moreover have "column_id ex_c3 \<noteq> column_id ex_c1" by (simp add: ex_fields)
  ultimately show ?thesis
    using toggleSubtask_automation [where st = ex_store and col = ex_c1 and h = ex_hook and k = ex_k1
        and sid = "''s1''" and d = ex_c3 and ev = ex_env]
    by (simp add: ex_fields moved_def ex_defs)
qed

section \<open>C2: no automation in the other cases\<close>

lemma find_in_cards_result:
  assumes "\<forall>k' \<in> set ks. hosts k' sid \<longrightarrow> k' = k"
  shows "find_in_cards ks sid acc = acc \<or> find_in_cards ks sid acc = (Some (card_id k), subtasks k)"
  using assms by (induction ks) (simp_all add: find_hosts)

lemma find_in_columns_result:
  assumes "\<forall>c \<in> set cols. \<forall>k' \<in> set (cards c). hosts k' sid \<longrightarrow> k' = k"
  shows "find_in_columns cols sid acc = acc \<or>
         find_in_columns cols sid acc = (Some (card_id k), subtasks k)"
  using assms
proof (induction cols arbitrary: acc)
  case Nil
  then show ?case by simp
next
  case (Cons c cols)
  then have "\<forall>k' \<in> set (cards c). hosts k' sid \<longrightarrow> k' = k" by simp
  from find_in_cards_result [OF this, of acc]
  show ?case
  proof
    assume a: "find_in_cards (cards c) sid acc = acc"
    from Cons.prems have "\<forall>c \<in> set cols. \<forall>k' \<in> set (cards c). hosts k' sid \<longrightarrow> k' = k"
      by simp
    from Cons.IH [OF this, of acc] a show ?thesis by (auto simp: Let_def)
  next
    assume a: "find_in_cards (cards c) sid acc = (Some (card_id k), subtasks k)"
    from Cons.prems have "\<forall>c \<in> set cols. \<forall>k' \<in> set (cards c). hosts k' sid \<longrightarrow> k' = k"
      by simp
    from Cons.IH [OF this, of "(Some (card_id k), subtasks k)"]
    have "find_in_columns cols sid (Some (card_id k), subtasks k) = (Some (card_id k), subtasks k)"
      by blast
    with a show ?thesis by (simp add: Let_def)
  qed
qed

lemma automation_target_no_id:
  assumes "\<forall>c \<in> set cols. \<forall>k' \<in> set (cards c). hosts k' sid \<longrightarrow> k' = k" and "card_id k = []"
  shows "automation_target ev cols sid = None"
  using find_in_columns_result [OF assms(1), of "(None, [])"] assms(2)
  by (auto simp: automation_target_def truthy_def)

lemma ex_target: "automation_target ex_env (columns ex_hook) ''s1'' = Some (''k1'', ex_c3)"
proof -
  have "ex_c1 \<in> set (columns ex_hook)" "ex_k1 \<in> set (cards ex_c1)" "hosts ex_k1 ''s1''"
    by (simp_all add: ex_columns ex_fields ex_hosts)
  moreover have "\<forall>c \<in> set (columns ex_hook). \<forall>k' \<in> set (cards c). hosts k' ''s1'' \<longrightarrow> k' = ex_k1"
    by (simp add: ex_columns ex_fields ex_hosts)
  moreover have "\<forall>c \<in> set (columns ex_hook). \<forall>k' \<in> set (cards c).
           card_id k' = card_id ex_k1 \<longrightarrow> column_id c = column_id ex_c1"
    by (simp add: ex_columns ex_fields)
  moreover have "card_id ex_k1 \<noteq> []" by (simp add: ex_fields)
  moreover have "\<forall>s \<in> set (subtasks ex_k1). subtask_id s \<noteq> ''s1'' \<longrightarrow> subtask_is_completed s"
    by (simp add: ex_fields mk_subtask_def)
  moreover have "find (\<lambda>c. isDoneTitle ex_env (column_title c)) (columns ex_hook) = Some ex_c3"
    by (simp add: ex_columns ex_fields ex_titles)
  ultimately show ?thesis
    by (simp add: automation_target_sole [where col = ex_c1 and cols = "columns ex_hook"
          and k = ex_k1 and sid = "''s1''" and ev = ex_env] ex_fields)
qed

lemma handleAddSubtask_performed:
  assumes "faults st = []"
  shows "handleAddSubtask cardId title (h, st) =
     ((Some \<lparr>subtask_id = fresh st (serial st), subtask_card_id = cardId, subtask_title = title,
             subtask_is_completed = default_is_completed st, subtask_position = 0,
             subtask_created_at = clock st\<rparr>, []), h,
      st\<lparr>tbl_subtasks := tbl_subtasks st @
            [\<lparr>subtask_id = fresh st (serial st), subtask_card_id = cardId, subtask_title = title,
              subtask_is_completed = default_is_completed st, subtask_position = 0,
              subtask_created_at = clock st\<rparr>],
          serial := Suc (serial st)\<rparr>)"
  using assms by (simp add: handleAddSubtask_def request_ok Let_def)

text \<open>
  C2 as stated says that nothing is moved while some other subtask of the card is still
  not completed. toggleSubtask looks for the other subtasks in the hook's state, not in
  the store, and the hook's state is not refreshed when a subtask is added:
  handleAddSubtask inserts the row and fetches nothing. After a third subtask is added to
  the card k1, marking s1 complete moves k1 to the column Done and returns the message,
  while the new subtask of k1 is not completed.
\<close>

theorem toggleSubtask_no_automation_counterexample:
  "columns (fst (snd (handleAddSubtask ''k1'' ''Review'' (ex_hook, ex_store)))) =
     columns ex_hook \<and>
   fst (toggleSubtask ex_env ''s1'' True
     (snd (handleAddSubtask ''k1'' ''Review'' (ex_hook, ex_store)))) =
     Some (automationMessage ''Done'') \<and>
   map (\<lambda>r. (card_id r, card_column_id r, card_position r))
     (tbl_cards (snd (snd (toggleSubtask ex_env ''s1'' True
        (snd (handleAddSubtask ''k1'' ''Review'' (ex_hook, ex_store))))))) =
     [(''k3'', ''c1'', 1), (''k2'', ''c2'', 0), (''k1'', ''c3'', 0)] \<and>
   map (\<lambda>s. (subtask_title s, subtask_is_completed s))
     (filter (\<lambda>s. subtask_card_id s = ''k1'')
        (tbl_subtasks (snd (snd (toggleSubtask ex_env ''s1'' True
           (snd (handleAddSubtask ''k1'' ''Review'' (ex_hook, ex_store)))))))) =
     [(''step'', True), (''step'', True), (''Review'', False)]"
proof -
  let ?st = "ex_store\<lparr>tbl_subtasks := tbl_subtasks ex_store @
       [\<lparr>subtask_id = fresh ex_store (serial ex_store), subtask_card_id = ''k1'',
         subtask_title = ''Review'', subtask_is_completed = default_is_completed ex_store,
         subtask_position = 0, subtask_created_at = clock ex_store\<rparr>],
     serial := Suc (serial ex_store)\<rparr>"
  have a: "snd (handleAddSubtask ''k1'' ''Review'' (ex_hook, ex_store)) = (ex_hook, ?st)"
    by (simp add: handleAddSubtask_performed [OF ex_store_rows(1)])
  have r: "request ?st = (None, ?st)"
    by (rule request_ok) (simp add: ex_store_rows)
  obtain msg h' st' where e: "toggleSubtask ex_env ''s1'' True (ex_hook, ?st) = (msg, h', st')"
    by (cases "toggleSubtask ex_env ''s1'' True (ex_hook, ?st)")
  from toggleSubtask_moves [OF r ex_target e] r
  have "msg = Some (automationMessage (column_title ex_c3))"
    and "tbl_cards st' = moved ''k1'' (column_id ex_c3) 0 (now ex_env) (tbl_cards ?st)"
    and "tbl_subtasks st' = toggled ''s1'' True (tbl_subtasks ?st)"
    by simp_all
  then show ?thesis
    unfolding a e
    by (simp add: ex_fields moved_def toggled_def ex_store_rows mk_card_def)
       (simp add: ex_defs)
qed

text \<open>
  C2, amended. toggleSubtask returns no message and leaves the rows of the cards and of the
  columns as they are, whatever the store answers, and no notification is raised, in each
  of these cases: the subtask is marked incomplete; no card of the hook's state has the
  subtask; or, for the card \<open>k\<close> of the column \<open>col\<close> that alone has the subtask \<open>sid\<close> in
  the hook's state, some other subtask that the hook's state holds for \<open>k\<close> is not
  completed, or no column of the hook's state matches the heuristic, or the first one
  that matches is the card's own column.
\<close>

theorem toggleSubtask_no_automation:
  assumes "\<not> isCompleted \<or>
     (\<forall>c \<in> set (columns h). \<forall>k' \<in> set (cards c). \<not> hosts k' sid) \<or>
     (col \<in> set (columns h) \<and> k \<in> set (cards col) \<and> hosts k sid \<and>
      (\<forall>c \<in> set (columns h). \<forall>k' \<in> set (cards c). hosts k' sid \<longrightarrow> k' = k) \<and>
      (\<forall>c \<in> set (columns h). \<forall>k' \<in> set (cards c).
          card_id k' = card_id k \<longrightarrow> column_id c = column_id col) \<and>
      ((\<exists>s \<in> set (subtasks k). subtask_id s \<noteq> sid \<and> \<not> subtask_is_completed s) \<or>
       (case find (\<lambda>c. isDoneTitle ev (column_title c)) (columns h) of
          None \<Rightarrow> True
        | Some d \<Rightarrow> column_id d = column_id col)))"
  shows "fst (toggleSubtask ev sid isCompleted (h, st)) = None \<and>
         tbl_cards (snd (snd (toggleSubtask ev sid isCompleted (h, st)))) = tbl_cards st \<and>
         tbl_columns (snd (snd (toggleSubtask ev sid isCompleted (h, st)))) = tbl_columns st \<and>
         fst (handleToggleSubtask ev sid isCompleted (h, st)) = []"
proof -
  have t: "isCompleted \<longrightarrow> automation_target ev (columns h) sid = None"
  proof
    assume c: isCompleted
    from assms c consider
      (absent) "\<forall>c \<in> set (columns h). \<forall>k' \<in> set (cards c). \<not> hosts k' sid"
      | (found) "col \<in> set (columns h)" "k \<in> set (cards col)" "hosts k sid"
          "\<forall>c \<in> set (columns h). \<forall>k' \<in> set (cards c). hosts k' sid \<longrightarrow> k' = k"
          "\<forall>c \<in> set (columns h). \<forall>k' \<in> set (cards c).
              card_id k' = card_id k \<longrightarrow> column_id c = column_id col"
          "(\<exists>s \<in> set (subtasks k). subtask_id s \<noteq> sid \<and> \<not> subtask_is_completed s) \<or>
           (case find (\<lambda>c. isDoneTitle ev (column_title c)) (columns h) of
              None \<Rightarrow> True
            | Some d \<Rightarrow> column_id d = column_id col)"
      by blast
    then show "automation_target ev (columns h) sid = None"
    proof cases
      case absent
      then show ?thesis by (rule automation_target_absent)
    next
      case found
      show ?thesis
      proof (cases "card_id k = []")
        case True
        with found(4) show ?thesis by (rule automation_target_no_id)
      next
        case False
        note a = automation_target_sole [OF found(1-5) False]
        from found(6) show ?thesis
        proof
          assume "\<exists>s \<in> set (subtasks k). subtask_id s \<noteq> sid \<and> \<not> subtask_is_completed s"
          then show ?thesis by (auto simp: a)
        next
          assume "case find (\<lambda>c. isDoneTitle ev (column_title c)) (columns h) of
              None \<Rightarrow> True
            | Some d \<Rightarrow> column_id d = column_id col"
          then show ?thesis by (simp add: a split: option.splits)
        qed
      qed
    qed
  qed
  obtain msg h' st' where e: "toggleSubtask ev sid isCompleted (h, st) = (msg, h', st')"
    by (cases "toggleSubtask ev sid isCompleted (h, st)")
  from toggleSubtask_quiet [OF t e] show ?thesis
    by (simp add: e handleToggleSubtask_eq)
qed

theorem toggleSubtask_no_automation_witness:
  "fst (toggleSubtask ex_env ''s2'' False (ex_hook, ex_store)) = None \<and>
   tbl_cards (snd (snd (toggleSubtask ex_env ''s2'' False (ex_hook, ex_store)))) =
     tbl_cards ex_store \<and>
   fst (toggleSubtask ex_env ''s9'' True (ex_hook, ex_store)) = None \<and>
   tbl_cards (snd (snd (toggleSubtask ex_env ''s9'' True (ex_hook, ex_store)))) =
     tbl_cards ex_store \<and>
   fst (toggleSubtask ex_env ''s3'' True (ex_hook, ex_store)) = None \<and>
   tbl_cards (snd (snd (toggleSubtask ex_env ''s3'' True (ex_hook, ex_store)))) =
     tbl_cards ex_store \<and>
   fst (handleToggleSubtask ex_env ''s3'' True (ex_hook, ex_store)) = [] \<and>
   fst (toggleSubtask ex_env ''s1'' True (done_hook, done_store)) = None \<and>
   tbl_cards (snd (snd (toggleSubtask ex_env ''s1'' True (done_hook, done_store)))) =
     tbl_cards done_store"
proof -
  have absent: "\<forall>c \<in> set (columns ex_hook). \<forall>k' \<in> set (cards c). \<not> hosts k' ''s9''"
    by (simp add: ex_columns ex_fields ex_hosts)
  have "ex_c1 \<in> set (columns ex_hook)" "ex_k3 \<in> set (cards ex_c1)" "hosts ex_k3 ''s3''"
    by (simp_all add: ex_columns ex_fields ex_hosts)
  moreover have "\<forall>c \<in> set (columns ex_hook). \<forall>k' \<in> set (cards c). hosts k' ''s3'' \<longrightarrow> k' = ex_k3"
    by (simp add: ex_columns ex_fields ex_hosts)
  moreover have "\<forall>c \<in> set (columns ex_hook). \<forall>k' \<in> set (cards c).
           card_id k' = card_id ex_k3 \<longrightarrow> column_id c = column_id ex_c1"
    by (simp add: ex_columns ex_fields)
  moreover have "\<exists>s \<in> set (subtasks ex_k3). subtask_id s \<noteq> ''s3'' \<and> \<not> subtask_is_completed s"
    by (simp add: ex_fields mk_subtask_def)
  ultimately have sibling:
    "ex_c1 \<in> set (columns ex_hook) \<and> ex_k3 \<in> set (cards ex_c1) \<and> hosts ex_k3 ''s3'' \<and>
      (\<forall>c \<in> set (columns ex_hook). \<forall>k' \<in> set (cards c). hosts k' ''s3'' \<longrightarrow> k' = ex_k3) \<and>
      (\<forall>c \<in> set (columns ex_hook). \<forall>k' \<in> set (cards c).
          card_id k' = card_id ex_k3 \<longrightarrow> column_id c = column_id ex_c1) \<and>
      ((\<exists>s \<in> set (subtasks ex_k3). subtask_id s \<noteq> ''s3'' \<and> \<not> subtask_is_completed s) \<or>
       (case find (\<lambda>c. isDoneTitle ex_env (column_title c)) (columns ex_hook) of
          None \<Rightarrow> True
        | Some d \<Rightarrow> column_id d = column_id ex_c1))"
    by blast
  have "done_d1 \<in> set (columns done_hook)" "done_k1 \<in> set (cards done_d1)"
    "hosts done_k1 ''s1''"
    by (simp_all add: ex_columns ex_fields ex_hosts)
  moreover have "\<forall>c \<in> set (columns done_hook). \<forall>k' \<in> set (cards c).
      hosts k' ''s1'' \<longrightarrow> k' = done_k1"
    by (simp add: ex_columns ex_fields ex_hosts)
  moreover have "\<forall>c \<in> set (columns done_hook). \<forall>k' \<in> set (cards c).
      card_id k' = card_id done_k1 \<longrightarrow> column_id c = column_id done_d1"
    by (simp add: ex_columns ex_fields)
  moreover have "find (\<lambda>c. isDoneTitle ex_env (column_title c)) (columns done_hook) = Some done_d1"
    by (simp add: ex_columns ex_fields ex_titles)
  ultimately have home:
    "done_d1 \<in> set (columns done_hook) \<and> done_k1 \<in> set (cards done_d1) \<and> hosts done_k1 ''s1'' \<and>
      (\<forall>c \<in> set (columns done_hook). \<forall>k' \<in> set (cards c). hosts k' ''s1'' \<longrightarrow> k' = done_k1) \<and>
      (\<forall>c \<in> set (columns done_hook). \<forall>k' \<in> set (cards c).
          card_id k' = card_id done_k1 \<longrightarrow> column_id c = column_id done_d1) \<and>
      ((\<exists>s \<in> set (subtasks done_k1). subtask_id s \<noteq> ''s1'' \<and> \<not> subtask_is_completed s) \<or>
       (case find (\<lambda>c. isDoneTitle ex_env (column_title c)) (columns done_hook) of
          None \<Rightarrow> True
        | Some d \<Rightarrow> column_id d = column_id done_d1))"
    by simp
  note t = toggleSubtask_no_automation
  from t [where isCompleted = False and ev = ex_env and sid = "''s2''" and h = ex_hook
        and st = ex_store and col = ex_c1 and k = ex_k1]
    t [where isCompleted = True and ev = ex_env and sid = "''s9''" and h = ex_hook
        and st = ex_store and col = ex_c1 and k = ex_k1, OF disjI2, OF disjI1, OF absent]
    t [where isCompleted = True and ev = ex_env and sid = "''s3''" and h = ex_hook
        and st = ex_store and col = ex_c1 and k = ex_k3, OF disjI2, OF disjI2, OF sibling]
    t [where isCompleted = True and ev = ex_env and sid = "''s1''" and h = done_hook
        and st = done_store and col = done_d1 and k = done_k1, OF disjI2, OF disjI2, OF home]
  show ?thesis by simp
qed

section \<open>C9: new columns and cards go to the end\<close>

lemma addColumn_performed:
  assumes "request st = (None, st1)" and "truthy (boardId ev)"
    and "data = \<lparr>column_id = fresh st1 (serial st1), column_board_id = the (boardId ev),
            column_title = title,
            column_position =
              (if columns h = [] then 0 else Max (set (map column_position (columns h))) + 1),
            column_wip_limit = None, column_created_at = clock st1\<rparr>"
  shows "addColumn ev title (h, st) =
     (Some data,
      fetchBoard ev (h, st1\<lparr>tbl_columns := tbl_columns st1 @ [data], serial := Suc (serial st1)\<rparr>))"
  using assms by (simp add: addColumn_def Let_def split_beta)

lemma addCard_performed:
  assumes "request st = (None, st1)"
    and "data = \<lparr>card_id = fresh st1 (serial st1), card_column_id = columnId, card_title = title,
            card_description = None,
            card_position =
              (case find (\<lambda>c. column_id c = columnId) (columns h) of
                 None \<Rightarrow> 0
               | Some col \<Rightarrow>
                   if cards col = [] then 0 else Max (set (map card_position (cards col))) + 1),
            card_due_date = None, card_priority = default_priority st1,
            card_assigned_to = None, card_created_at = clock st1,
            card_updated_at = clock st1\<rparr>"
  shows "addCard ev columnId title (h, st) =
     (Some data, h,
      logActivity ev (card_id data) ''create_card'' [(''title'', JStr title)]
        (st1\<lparr>tbl_cards := tbl_cards st1 @ [data], serial := Suc (serial st1)\<rparr>))"
  using assms by (simp add: addCard_def Let_def split: option.splits)

lemma addColumn_refused:
  assumes "request st = (Some e, st1)" and "truthy (boardId ev)"
  shows "addColumn ev title (h, st) =
           (None, catch ''Failed to add column'' ''Error adding column:'' e h, st1)"
  using assms by (simp add: addColumn_def Let_def)

lemma addCard_refused:
  assumes "request st = (Some e, st1)"
  shows "addCard ev columnId title (h, st) =
           (None, catch ''Failed to add card'' ''Error adding card:'' e h, st1)"
  using assms by (simp add: addCard_def Let_def)

lemma addColumn_position:
  assumes "addColumn ev title (h, st) = (Some c, h', st')"
  shows "column_position c =
        (if columns h = [] then 0 else Max (set (map column_position (columns h))) + 1) \<and>
      column_title c = title \<and> c \<in> set (tbl_columns st')"
proof -
  obtain r st1 where r: "request st = (r, st1)" by (cases "request st")
  have t: "truthy (boardId ev)"
    using assms by (cases "truthy (boardId ev)") (simp_all add: addColumn_def)
  show ?thesis
  proof (cases r)
    case (Some e)
    with r assms show ?thesis by (simp add: addColumn_refused [OF _ t])
  next
    case None
    with r have p: "request st = (None, st1)" by simp
    from addColumn_performed [OF p t refl, of title h] assms
    have c: "c = \<lparr>column_id = fresh st1 (serial st1), column_board_id = the (boardId ev),
            column_title = title,
            column_position =
              (if columns h = [] then 0 else Max (set (map column_position (columns h))) + 1),
            column_wip_limit = None, column_created_at = clock st1\<rparr>"
      and f: "fetchBoard ev (h, st1\<lparr>tbl_columns := tbl_columns st1 @ [c],
                    serial := Suc (serial st1)\<rparr>) = (h', st')"
      by simp_all
    from same_rows_tables(2) [OF same_rows_fetchBoard [OF f]]
    have "c \<in> set (tbl_columns st')" by simp
    with c show ?thesis by simp
  qed
qed

lemma addCard_position:
  assumes "addCard ev columnId title (h, st) = (Some k, h', st')"
  shows "card_position k =
        (case find (\<lambda>c. column_id c = columnId) (columns h) of
           None \<Rightarrow> 0
         | Some col \<Rightarrow>
             if cards col = [] then 0 else Max (set (map card_position (cards col))) + 1) \<and>
      card_column_id k = columnId \<and> card_title k = title \<and> k \<in> set (tbl_cards st')"
proof -
  obtain r st1 where r: "request st = (r, st1)" by (cases "request st")
  show ?thesis
  proof (cases r)
    case (Some e)
    with r assms show ?thesis by (simp add: addCard_refused)
  next
    case None
    with r have p: "request st = (None, st1)" by simp
    from assms show ?thesis
      by (auto simp: addCard_performed [OF p refl] logActivity_rows)
  qed
qed

lemma boardView_truncate: "map column.truncate (boardView st b) = q_columns st b"
  by (simp add: boardView_def Let_def columnsWithCards_truncate)

lemma boardView_column_positions:
  "set (map column_position (boardView st b)) =
   set (map column_position (filter (\<lambda>r. column_board_id r = b) (tbl_columns st)))"
proof -
  have "map column_position (boardView st b) =
        map column_position (map column.truncate (boardView st b))"
    by (simp add: column.truncate_def o_def)
  then show ?thesis
    by (simp only: boardView_truncate) (simp add: q_columns_def)
qed

lemma boardView_card_positions:
  assumes "col \<in> set (boardView st b)"
  shows "set (map card_position (cards col)) =
         set (map card_position (filter (\<lambda>r. card_column_id r = column_id col) (tbl_cards st)))"
proof -
  from assms have m: "column.truncate col \<in> set (q_columns st b)"
    and c: "map card.truncate (cards col) =
            filter (\<lambda>c. card_column_id c = column_id col)
              (q_cards st (map column_id (q_columns st b)))"
    using columnsWithCards_mem unfolding boardView_def Let_def by blast+
  have "column_id (column.truncate col) = column_id col"
    by (simp add: column.truncate_def)
  with m have i: "column_id col \<in> column_id ` set (q_columns st b)"
    by (metis imageI)
  have "map card_position (cards col) = map card_position (map card.truncate (cards col))"
    by (rule card_position_truncate [symmetric])
  then have "set (map card_position (cards col)) =
      card_position ` {r \<in> set (q_cards st (map column_id (q_columns st b))).
         card_column_id r = column_id col}"
    by (simp only: c) auto
  also have "\<dots> = card_position ` {r \<in> set (tbl_cards st). card_column_id r = column_id col}"
    using i by (auto simp: q_cards_def)
  finally show ?thesis by auto
qed

lemma addColumn_in_step:
  assumes "columns h = boardView st b"
    and "addColumn ev title (h, st) = (Some c, h', st')"
  shows "column_position c =
     (let ps = map column_position (filter (\<lambda>r. column_board_id r = b) (tbl_columns st))
      in if ps = [] then 0 else Max (set ps) + 1)"
proof -
  have "(columns h = []) =
        (map column_position (filter (\<lambda>r. column_board_id r = b) (tbl_columns st)) = [])"
    using boardView_column_positions [of st b] assms(1)
    by (metis map_is_Nil_conv set_empty)
  with addColumn_position [OF assms(2)] boardView_column_positions [of st b] assms(1)
  show ?thesis by (simp add: Let_def)
qed

lemma addCard_in_step:
  assumes "columns h = boardView st b" and "columnId \<in> set (map column_id (columns h))"
    and "addCard ev columnId title (h, st) = (Some k, h', st')"
  shows "card_position k =
     (let ps = map card_position (filter (\<lambda>r. card_column_id r = columnId) (tbl_cards st))
      in if ps = [] then 0 else Max (set ps) + 1)"
proof -
  from assms(2) obtain col where f: "find (\<lambda>c. column_id c = columnId) (columns h) = Some col"
    by (cases "find (\<lambda>c. column_id c = columnId) (columns h)") (auto simp: find_None_iff)
  then have col: "col \<in> set (boardView st b)" "column_id col = columnId"
    using assms(1) by (auto simp: find_Some_iff)
  note p = boardView_card_positions [OF col(1), unfolded col(2)]
  have "(cards col = []) =
        (map card_position (filter (\<lambda>r. card_column_id r = columnId) (tbl_cards st)) = [])"
    using p by (metis map_is_Nil_conv set_empty)
  with addCard_position [OF assms(3)] f p show ?thesis by (simp add: Let_def)
qed

text \<open>
  C9 as stated takes the greatest position among the cards of the target column. addCard
  takes it among the cards that the hook's state holds for that column, and does not fetch
  the board again: a second addCard, called before a change notification has refreshed
  the hook, computes the same position. Two cards added to the column To Do in a row both
  get the position 2, so that the second one is not one past the greatest position of the
  column, which is 2 by then.
\<close>

theorem new_rows_appended_counterexample:
  "map_option card_position (fst (addCard ex_env ''c1'' ''Write tests'' (ex_hook, ex_store))) =
     Some 2 \<and>
   columns (fst (snd (addCard ex_env ''c1'' ''Write tests'' (ex_hook, ex_store)))) =
     columns ex_hook \<and>
   map_option card_position
     (fst (addCard ex_env ''c1'' ''Review''
        (snd (addCard ex_env ''c1'' ''Write tests'' (ex_hook, ex_store))))) = Some 2 \<and>
   map (\<lambda>r. (card_title r, card_position r))
     (filter (\<lambda>r. card_column_id r = ''c1'')
        (tbl_cards (snd (snd (addCard ex_env ''c1'' ''Review''
           (snd (addCard ex_env ''c1'' ''Write tests'' (ex_hook, ex_store)))))))) =
     [(''Task'', 1), (''Task'', 0), (''Write tests'', 2), (''Review'', 2)]"
proof -
  let ?st1 = "snd (snd (addCard ex_env ''c1'' ''Write tests'' (ex_hook, ex_store)))"
  note a = addCard_performed [OF request_ok refl]
  have f0: "faults ex_store = []" by (simp add: ex_defs)
  have one: "addCard ex_env ''c1'' ''Write tests'' (ex_hook, ex_store) =
      (fst (addCard ex_env ''c1'' ''Write tests'' (ex_hook, ex_store)), ex_hook, ?st1)"
    by (simp add: a [OF f0])
  have f1: "faults ?st1 = []"
    by (simp add: a [OF f0] logActivity_faults f0)
  have p1: "map_option card_position
      (fst (addCard ex_env ''c1'' ''Write tests'' (ex_hook, ex_store))) = Some 2"
    by (simp add: a [OF f0] ex_max)
  have c1: "map (\<lambda>r. (card_title r, card_position r))
      (filter (\<lambda>r. card_column_id r = ''c1'') (tbl_cards ?st1)) =
      [(''Task'', 1), (''Task'', 0), (''Write tests'', 2)]"
    by (simp add: a [OF f0] logActivity_rows ex_max ex_store_rows mk_card_def)
  have two: "addCard ex_env ''c1'' ''Review''
      (snd (addCard ex_env ''c1'' ''Write tests'' (ex_hook, ex_store))) =
      addCard ex_env ''c1'' ''Review'' (ex_hook, ?st1)"
    by (subst one) simp
  have p2: "map_option card_position (fst (addCard ex_env ''c1'' ''Review'' (ex_hook, ?st1))) =
      Some 2"
    by (simp add: a [OF f1] ex_max)
  have c2: "map (\<lambda>r. (card_title r, card_position r))
      (filter (\<lambda>r. card_column_id r = ''c1'')
         (tbl_cards (snd (snd (addCard ex_env ''c1'' ''Review'' (ex_hook, ?st1)))))) =
      [(''Task'', 1), (''Task'', 0), (''Write tests'', 2), (''Review'', 2)]"
    using c1 by (simp add: a [OF f1] logActivity_rows ex_max)
  from p1 p2 c2 show ?thesis
    by (simp only: two) (simp add: a [OF f0])
qed

text \<open>
  C9, amended. The column that addColumn returns has the position one greater than the
  greatest position of the columns of the hook's state, 0 when there is none, and is a row
  of the store. The card that addCard returns has the position one greater than the
  greatest position of the cards that the hook's state holds for the target column, 0 when
  that column has no card there (or is not there), and is a row of the store. When the
  hook's state is the view of the store, these are the greatest positions of the rows of
  the store: of the columns of the board, and of the cards of the target column. Both
  operations return a row when the store performs the insert (addColumn needs a board id).
\<close>

theorem new_rows_appended:
  "(\<forall>c. fst (addColumn ev title (h, st)) = Some c \<longrightarrow>
      column_position c =
        (if columns h = [] then 0 else Max (set (map column_position (columns h))) + 1) \<and>
      column_title c = title \<and> c \<in> set (tbl_columns (snd (snd (addColumn ev title (h, st))))) \<and>
      (columns h = boardView st b \<longrightarrow>
         column_position c =
           (let ps = map column_position (filter (\<lambda>r. column_board_id r = b) (tbl_columns st))
            in if ps = [] then 0 else Max (set ps) + 1))) \<and>
   (\<forall>k. fst (addCard ev columnId title (h, st)) = Some k \<longrightarrow>
      card_position k =
        (case find (\<lambda>c. column_id c = columnId) (columns h) of
           None \<Rightarrow> 0
         | Some col \<Rightarrow>
             if cards col = [] then 0 else Max (set (map card_position (cards col))) + 1) \<and>
      card_column_id k = columnId \<and> card_title k = title \<and>
      k \<in> set (tbl_cards (snd (snd (addCard ev columnId title (h, st))))) \<and>
      (columns h = boardView st b \<and> columnId \<in> set (map column_id (columns h)) \<longrightarrow>
         card_position k =
           (let ps = map card_position (filter (\<lambda>r. card_column_id r = columnId) (tbl_cards st))
            in if ps = [] then 0 else Max (set ps) + 1))) \<and>
   (fst (request st) = None \<longrightarrow>
      fst (addCard ev columnId title (h, st)) \<noteq> None \<and>
      (truthy (boardId ev) \<longrightarrow> fst (addColumn ev title (h, st)) \<noteq> None))"
proof (intro conjI allI impI)
  fix c assume "fst (addColumn ev title (h, st)) = Some c"
  then have e: "addColumn ev title (h, st) =
      (Some c, fst (snd (addColumn ev title (h, st))), snd (snd (addColumn ev title (h, st))))"
    by (metis prod.collapse)
  from addColumn_position [OF e]
  show "column_position c =
        (if columns h = [] then 0 else Max (set (map column_position (columns h))) + 1)"
    and "column_title c = title"
    and "c \<in> set (tbl_columns (snd (snd (addColumn ev title (h, st)))))"
    by simp_all
  show "column_position c =
      (let ps = map column_position (filter (\<lambda>r. column_board_id r = b) (tbl_columns st))
       in if ps = [] then 0 else Max (set ps) + 1)"
    if "columns h = boardView st b"
    using that e by (rule addColumn_in_step)
next
  fix k assume "fst (addCard ev columnId title (h, st)) = Some k"
  then have e: "addCard ev columnId title (h, st) =
      (Some k, fst (snd (addCard ev columnId title (h, st))),
       snd (snd (addCard ev columnId title (h, st))))"
    by (metis prod.collapse)
  from addCard_position [OF e]
  show "card_position k =
        (case find (\<lambda>c. column_id c = columnId) (columns h) of
           None \<Rightarrow> 0
         | Some col \<Rightarrow>
             if cards col = [] then 0 else Max (set (map card_position (cards col))) + 1)"
    and "card_column_id k = columnId" and "card_title k = title"
    and "k \<in> set (tbl_cards (snd (snd (addCard ev columnId title (h, st)))))"
    by simp_all
  show "card_position k =
      (let ps = map card_position (filter (\<lambda>r. card_column_id r = columnId) (tbl_cards st))
       in if ps = [] then 0 else Max (set ps) + 1)"
    if "columns h = boardView st b \<and> columnId \<in> set (map column_id (columns h))"
    by (rule addCard_in_step [OF conjunct1 [OF that] conjunct2 [OF that] e])
next
  assume "fst (request st) = None"
  then have p: "request st = (None, snd (request st))" by (metis prod.collapse)
  show "fst (addCard ev columnId title (h, st)) \<noteq> None"
    by (simp add: addCard_performed [OF p refl])
  show "fst (addColumn ev title (h, st)) \<noteq> None" if "truthy (boardId ev)"
    using that by (simp add: addColumn_performed [OF p _ refl])
qed

theorem new_rows_appended_witness:
  "map_option column_position (fst (addColumn ex_env ''Review'' (ex_hook, ex_store))) = Some 3 \<and>
   map_option card_position (fst (addCard ex_env ''c1'' ''Write tests'' (ex_hook, ex_store))) =
     Some 2 \<and>
   columns ex_hook = boardView ex_store ''b1'' \<and>
   map column_position (filter (\<lambda>r. column_board_id r = ''b1'') (tbl_columns ex_store)) =
     [2, 0, 1] \<and>
   map card_position (filter (\<lambda>r. card_column_id r = ''c1'') (tbl_cards ex_store)) = [1, 0]"
proof -
  note t = new_rows_appended [of ex_env "''Review''" ex_hook ex_store "''b1''" "''c1''"]
  have r: "fst (request ex_store) = None" "truthy (boardId ex_env)"
    by (simp_all add: request_def ex_defs truthy_def)
  have v: "columns ex_hook = boardView ex_store ''b1''"
    by (simp add: ex_hook_def)
  have m: "''c1'' \<in> set (map column_id (columns ex_hook))"
    by (simp add: ex_columns ex_fields)
  have ps: "map column_position (filter (\<lambda>r. column_board_id r = ''b1'') (tbl_columns ex_store)) =
      [2, 0, 1]"
    "map card_position (filter (\<lambda>r. card_column_id r = ''c1'') (tbl_cards ex_store)) = [1, 0]"
    by (simp_all add: ex_store_rows mk_column_def mk_card_def)
  from t r obtain c where c: "fst (addColumn ex_env ''Review'' (ex_hook, ex_store)) = Some c"
    by blast
  with t v have "column_position c =
      (let ps = map column_position
         (filter (\<lambda>r. column_board_id r = ''b1'') (tbl_columns ex_store))
       in if ps = [] then 0 else Max (set ps) + 1)"
    by blast
  then have pc: "column_position c = 3" by (simp only: ps) simp
  note u = new_rows_appended [of ex_env "''Write tests''" ex_hook ex_store "''b1''" "''c1''"]
  from u r obtain k where
    k: "fst (addCard ex_env ''c1'' ''Write tests'' (ex_hook, ex_store)) = Some k"
    by blast
  with u v m have "card_position k =
      (let ps = map card_position (filter (\<lambda>r. card_column_id r = ''c1'') (tbl_cards ex_store))
       in if ps = [] then 0 else Max (set ps) + 1)"
    by blast
  then have "card_position k = 2" by (simp only: ps) simp
  with c k pc v ps show ?thesis by simp
qed

section \<open>C10: the default columns of a new board\<close>

text \<open>
  When the store performs both inserts, createBoard returns the new board and the store
  has three more columns, of the new board: To Do, In Progress and Done at the positions
  0, 1 and 2.
\<close>

lemma createBoard_performed:
  assumes "faults st = []"
  shows "createBoard title orgId (h, st) =
     (Some \<lparr>board_id = fresh st (serial st), board_title = title, board_owner_id = auth_uid st,
            board_org_id = (if truthy orgId then orgId else None), board_assigned_to = None,
            board_board_type = Personal, board_created_at = clock st,
            board_updated_at = clock st\<rparr>,
      h,
      insert_columns (defaultColumns (fresh st (serial st)))
        (st\<lparr>tbl_boards := tbl_boards st @
            [\<lparr>board_id = fresh st (serial st), board_title = title, board_owner_id = auth_uid st,
              board_org_id = (if truthy orgId then orgId else None), board_assigned_to = None,
              board_board_type = Personal, board_created_at = clock st,
              board_updated_at = clock st\<rparr>],
           serial := Suc (serial st)\<rparr>))"
  using assms by (simp add: createBoard_def request_def Let_def)

lemma createBoard_default_columns:
  assumes "faults st = []" and "createBoard title orgId (h, st) = (Some b, h', st')"
  shows "map (\<lambda>c. (column_board_id c, column_title c, column_position c)) (tbl_columns st') =
           map (\<lambda>c. (column_board_id c, column_title c, column_position c)) (tbl_columns st) @
           [(board_id b, ''To Do'', 0), (board_id b, ''In Progress'', 1), (board_id b, ''Done'', 2)]"
  using assms(2) unfolding createBoard_performed [OF assms(1)]
  by (auto simp: insert_columns_def defaultColumns_def)

lemma createBoard_example:
  "map (\<lambda>c. (column_board_id c, column_title c, column_position c))
     (tbl_columns (snd (snd (createBoard ''Sprint'' None (no_boards_hook, no_store))))) =
   [(''id'', ''To Do'', 0), (''id'', ''In Progress'', 1), (''id'', ''Done'', 2)]"
  by (simp add: createBoard_def request_def Let_def no_store_def no_boards_hook_def truthy_def
        insert_columns_def defaultColumns_def)

text \<open>
  C10 says that every successful createBoard call creates the three default columns.
  createBoard reads the error of the insert of the board (\<^verbatim>\<open>if (createError) throw\<close>) and
  not the error of the insert of the columns: when the store performs the first insert and
  refuses the second, createBoard returns the new board, sets no error and logs nothing,
  and the board has no column.
\<close>

theorem createBoard_columns_refused:
  "map_option board_title
     (fst (createBoard ''Sprint'' None
        (no_boards_hook, no_store\<lparr>faults := [None, Some ''permission denied for table columns'']\<rparr>))) =
     Some ''Sprint'' \<and>
   boards_error (fst (snd (createBoard ''Sprint'' None
        (no_boards_hook, no_store\<lparr>faults := [None, Some ''permission denied for table columns'']\<rparr>)))) =
     None \<and>
   boards_console (fst (snd (createBoard ''Sprint'' None
        (no_boards_hook, no_store\<lparr>faults := [None, Some ''permission denied for table columns'']\<rparr>)))) =
     [] \<and>
   map board_title (tbl_boards (snd (snd (createBoard ''Sprint'' None
        (no_boards_hook, no_store\<lparr>faults := [None, Some ''permission denied for table columns'']\<rparr>))))) =
     [''Sprint''] \<and>
   tbl_columns (snd (snd (createBoard ''Sprint'' None
        (no_boards_hook, no_store\<lparr>faults := [None, Some ''permission denied for table columns'']\<rparr>)))) =
     []"
  by (simp add: createBoard_def request_def Let_def no_store_def no_boards_hook_def truthy_def)

section \<open>C4: the WIP limit\<close>

lemma moveCard_ok:
  assumes "faults st = []"
  shows "fst (moveCard ev cardId target pos (h, st)) = True \<and>
         tbl_cards (snd (snd (moveCard ev cardId target pos (h, st)))) =
           moved cardId target pos (now ev) (tbl_cards st) \<and>
         tbl_columns (snd (snd (moveCard ev cardId target pos (h, st)))) = tbl_columns st"
proof -
  obtain r h' st' where e: "moveCard ev cardId target pos (h, st) = (r, h', st')"
    by (cases "moveCard ev cardId target pos (h, st)")
  from moveCard_performed [OF request_ok [OF assms] e] show ?thesis
    by (simp add: e)
qed

lemma addCard_ok:
  assumes "faults st = []"
  shows "\<exists>k. fst (addCard ev columnId title (h, st)) = Some k \<and> card_column_id k = columnId \<and>
             tbl_cards (snd (snd (addCard ev columnId title (h, st)))) = tbl_cards st @ [k]"
  by (simp add: addCard_performed [OF request_ok [OF assms] refl] logActivity_rows)

lemma Column_filtered:
  "map Column (filteredColumns ev dayOf today fs cols) =
     map (\<lambda>c. let n = int (length (filter (passes ev dayOf today fs) (cards c)));
                  full = (case column_wip_limit c of None \<Rightarrow> False | Some l \<Rightarrow> l \<le> n)
              in \<lparr>view_id = column_id c, view_count = n, wip_warning = full,
                  add_card_disabled = full\<rparr>) cols"
  by (auto simp: filteredColumns_map Column_def isOverLimit_def cardCount_def Let_def o_def
        split: option.splits)

lemma click_filtered:
  "map (\<lambda>c. click_add_card_btn c False) (filteredColumns ev dayOf today fs cols) =
     map (\<lambda>c. case column_wip_limit c of
                None \<Rightarrow> True
              | Some l \<Rightarrow> int (length (filter (passes ev dayOf today fs) (cards c))) < l) cols"
  by (auto simp: filteredColumns_map click_add_card_btn_def isOverLimit_def cardCount_def o_def
        split: option.splits)

text \<open>
  C4 as stated says that adding a card to a column is disabled once the column is full,
  that moveCard is prevented when the target column is full, and that a column never holds
  more cards than its WIP limit. The column In Progress has the limit 1 and one card, k2.
  moveCard reads no limit: moving the card k1 into that column succeeds, and the store
  then holds two cards of the column. The button that adds a card counts the cards that
  the filter of the board lets through: with a filter that hides k2 the board shows the
  column with no card, no warning and the button enabled; addCard reads no limit either,
  and the store then holds two cards of the column.
\<close>

theorem wip_limit_counterexample:
  "map (\<lambda>c. (column_id c, column_wip_limit c, map card_id (cards c))) (columns ex_hook) =
     [(''c1'', None, [''k1'', ''k3'']), (''c2'', Some 1, [''k2'']), (''c3'', None, [])] \<and>
   isOverLimit ex_c2 \<and>
   fst (moveCard ex_env ''k1'' ''c2'' 0 (ex_hook, ex_store)) = True \<and>
   map (\<lambda>c. (column_id c, column_wip_limit c))
     (tbl_columns (snd (snd (moveCard ex_env ''k1'' ''c2'' 0 (ex_hook, ex_store))))) =
     [(''c3'', None), (''c1'', None), (''c2'', Some 1)] \<and>
   map card_id (filter (\<lambda>r. card_column_id r = ''c2'')
     (tbl_cards (snd (snd (moveCard ex_env ''k1'' ''c2'' 0 (ex_hook, ex_store)))))) =
     [''k2'', ''k1''] \<and>
   Board_columns ex_env (\<lambda>s. None) 0
     \<lparr>searchQuery = [], filter_labels = [''l1''], priorities = [Medium], dateFilter = All\<rparr>
     ex_hook =
     Some [\<lparr>view_id = ''c1'', view_count = 1, wip_warning = False, add_card_disabled = False\<rparr>,
           \<lparr>view_id = ''c2'', view_count = 0, wip_warning = False, add_card_disabled = False\<rparr>,
           \<lparr>view_id = ''c3'', view_count = 0, wip_warning = False, add_card_disabled = False\<rparr>] \<and>
   map_option card_column_id (fst (addCard ex_env ''c2'' ''Extra'' (ex_hook, ex_store))) =
     Some ''c2'' \<and>
   map card_title (filter (\<lambda>r. card_column_id r = ''c2'')
     (tbl_cards (snd (snd (addCard ex_env ''c2'' ''Extra'' (ex_hook, ex_store)))))) =
     [''Task'', ''Extra'']"
proof -
  have "map (\<lambda>c. (column_id c, column_wip_limit c, map card_id (cards c))) (columns ex_hook) =
     [(''c1'', None, [''k1'', ''k3'']), (''c2'', Some 1, [''k2'']), (''c3'', None, [])]"
    by (simp add: ex_columns ex_fields ex_positions)
  moreover have "isOverLimit ex_c2"
    by (simp add: isOverLimit_def cardCount_def ex_fields ex_positions)
  moreover have "Board_columns ex_env (\<lambda>s. None) 0
     \<lparr>searchQuery = [], filter_labels = [''l1''], priorities = [Medium], dateFilter = All\<rparr>
     ex_hook =
     Some [\<lparr>view_id = ''c1'', view_count = 1, wip_warning = False, add_card_disabled = False\<rparr>,
           \<lparr>view_id = ''c2'', view_count = 0, wip_warning = False, add_card_disabled = False\<rparr>,
           \<lparr>view_id = ''c3'', view_count = 0, wip_warning = False, add_card_disabled = False\<rparr>]"
    by (simp add: Board_columns_def ex_hook_state truthy_def Column_filtered ex_columns
          ex_fields ex_positions ex_passes)
  moreover have "map_option card_column_id
      (fst (addCard ex_env ''c2'' ''Extra'' (ex_hook, ex_store))) = Some ''c2''"
    and "map card_title (filter (\<lambda>r. card_column_id r = ''c2'')
     (tbl_cards (snd (snd (addCard ex_env ''c2'' ''Extra'' (ex_hook, ex_store)))))) =
     [''Task'', ''Extra'']"
    by (simp_all add: addCard_performed [OF request_ok [OF ex_store_rows(1)] refl]
          logActivity_rows ex_store_rows mk_card_def)
  ultimately show ?thesis
    using moveCard_ok [OF ex_store_rows(1), of ex_env "''k1''" "''c2''" 0 ex_hook]
    by (simp add: ex_store_rows moved_def mk_card_def mk_column_def)
qed

text \<open>
  C4, amended. The board gives each column component the cards of the column that pass
  the filter. The component shows the warning and disables the button that adds a card
  when the \<^verbatim>\<open>wip_limit\<close> of the column is not null and the number of those cards has reached
  it; a click on the button opens the form only while that number is below the limit.
  addCard and moveCard make no such check: when the store performs the requests, addCard
  adds a card of the target column to the rows of the store, and moveCard returns true
  and gives the card the target column and the position asked for, whatever the limit of
  the target column.
\<close>

theorem wip_limit_not_enforced:
  "(\<not> loading h \<and> \<not> truthy (error h) \<and> board h \<noteq> None \<longrightarrow>
      Board_columns ev dayOf today fs h =
        Some (map (\<lambda>c. let n = int (length (filter (passes ev dayOf today fs) (cards c)));
                          full = (case column_wip_limit c of None \<Rightarrow> False | Some l \<Rightarrow> l \<le> n)
                      in \<lparr>view_id = column_id c, view_count = n, wip_warning = full,
                          add_card_disabled = full\<rparr>) (columns h))) \<and>
   map (\<lambda>c. click_add_card_btn c False) (filteredColumns ev dayOf today fs (columns h)) =
     map (\<lambda>c. case column_wip_limit c of
                None \<Rightarrow> True
              | Some l \<Rightarrow> int (length (filter (passes ev dayOf today fs) (cards c))) < l)
       (columns h) \<and>
   (faults st = [] \<longrightarrow>
      (\<exists>k. fst (addCard ev target title (h, st)) = Some k \<and> card_column_id k = target \<and>
           tbl_cards (snd (snd (addCard ev target title (h, st)))) = tbl_cards st @ [k])) \<and>
   (faults st = [] \<longrightarrow>
      fst (moveCard ev cardId target pos (h, st)) = True \<and>
      tbl_cards (snd (snd (moveCard ev cardId target pos (h, st)))) =
        moved cardId target pos (now ev) (tbl_cards st) \<and>
      tbl_columns (snd (snd (moveCard ev cardId target pos (h, st)))) = tbl_columns st)"
proof (intro conjI impI)
  assume "\<not> loading h \<and> \<not> truthy (error h) \<and> board h \<noteq> None"
  then show "Board_columns ev dayOf today fs h =
        Some (map (\<lambda>c. let n = int (length (filter (passes ev dayOf today fs) (cards c)));
                          full = (case column_wip_limit c of None \<Rightarrow> False | Some l \<Rightarrow> l \<le> n)
                      in \<lparr>view_id = column_id c, view_count = n, wip_warning = full,
                          add_card_disabled = full\<rparr>) (columns h))"
    by (simp add: Board_columns_def Column_filtered)
next
  show "map (\<lambda>c. click_add_card_btn c False) (filteredColumns ev dayOf today fs (columns h)) =
     map (\<lambda>c. case column_wip_limit c of
                None \<Rightarrow> True
              | Some l \<Rightarrow> int (length (filter (passes ev dayOf today fs) (cards c))) < l)
       (columns h)"
    by (rule click_filtered)
next
  assume "faults st = []"
  then show "\<exists>k. fst (addCard ev target title (h, st)) = Some k \<and> card_column_id k = target \<and>
           tbl_cards (snd (snd (addCard ev target title (h, st)))) = tbl_cards st @ [k]"
    by (rule addCard_ok)
next
  assume f: "faults st = []"
  from moveCard_ok [OF f, of ev cardId target pos h]
  show "fst (moveCard ev cardId target pos (h, st)) = True"
    and "tbl_cards (snd (snd (moveCard ev cardId target pos (h, st)))) =
        moved cardId target pos (now ev) (tbl_cards st)"
    and "tbl_columns (snd (snd (moveCard ev cardId target pos (h, st)))) = tbl_columns st"
    by simp_all
qed

theorem wip_limit_not_enforced_witness:
  "Board_columns ex_env (\<lambda>s. None) 0 DEFAULT_FILTER_STATE ex_hook =
     Some [\<lparr>view_id = ''c1'', view_count = 2, wip_warning = False, add_card_disabled = False\<rparr>,
           \<lparr>view_id = ''c2'', view_count = 1, wip_warning = True, add_card_disabled = True\<rparr>,
           \<lparr>view_id = ''c3'', view_count = 0, wip_warning = False, add_card_disabled = False\<rparr>] \<and>
   map (\<lambda>c. click_add_card_btn c False)
     (filteredColumns ex_env (\<lambda>s. None) 0 DEFAULT_FILTER_STATE (columns ex_hook)) =
     [True, False, True] \<and>
   map_option card_column_id (fst (addCard ex_env ''c2'' ''Extra'' (ex_hook, ex_store))) =
     Some ''c2'' \<and>
   fst (moveCard ex_env ''k3'' ''c2'' 5 (ex_hook, ex_store)) = True \<and>
   map (\<lambda>r. (card_id r, card_column_id r, card_position r))
     (tbl_cards (snd (snd (moveCard ex_env ''k3'' ''c2'' 5 (ex_hook, ex_store))))) =
     [(''k3'', ''c2'', 5), (''k2'', ''c2'', 0), (''k1'', ''c1'', 0)]"
proof -
  note t = wip_limit_not_enforced [where h = ex_hook and st = ex_store and ev = ex_env
      and dayOf = "\<lambda>s. None" and today = 0 and fs = DEFAULT_FILTER_STATE and target = "''c2''"
      and title = "''Extra''" and cardId = "''k3''" and pos = 5]
  have s: "\<not> loading ex_hook \<and> \<not> truthy (error ex_hook) \<and> board ex_hook \<noteq> None"
    "faults ex_store = []"
    by (simp_all add: ex_hook_state truthy_def ex_store_rows)
  from t s have "Board_columns ex_env (\<lambda>s. None) 0 DEFAULT_FILTER_STATE ex_hook =
     Some [\<lparr>view_id = ''c1'', view_count = 2, wip_warning = False, add_card_disabled = False\<rparr>,
           \<lparr>view_id = ''c2'', view_count = 1, wip_warning = True, add_card_disabled = True\<rparr>,
           \<lparr>view_id = ''c3'', view_count = 0, wip_warning = False, add_card_disabled = False\<rparr>]"
    by (simp add: ex_columns ex_fields ex_positions passes_default)
  moreover from t have "map (\<lambda>c. click_add_card_btn c False)
     (filteredColumns ex_env (\<lambda>s. None) 0 DEFAULT_FILTER_STATE (columns ex_hook)) =
     [True, False, True]"
    by (simp add: ex_columns ex_fields ex_positions passes_default)
  moreover from t s obtain k where
    "fst (addCard ex_env ''c2'' ''Extra'' (ex_hook, ex_store)) = Some k" "card_column_id k = ''c2''"
    by blast
  moreover from t s have "fst (moveCard ex_env ''k3'' ''c2'' 5 (ex_hook, ex_store)) = True"
    and "tbl_cards (snd (snd (moveCard ex_env ''k3'' ''c2'' 5 (ex_hook, ex_store)))) =
        moved ''k3'' ''c2'' 5 (now ex_env) (tbl_cards ex_store)"
    by blast+
  ultimately show ?thesis
    by (simp add: ex_store_rows moved_def mk_card_def)
qed

section \<open>C5: errors of the store\<close>

lemma reported_catch:
  "reported (err_message e fallback) lbl e h (catch fallback lbl e h)"
  by (simp add: reported_def catch_def)

lemma q_faults:
  "q_board (st\<lparr>faults := fs\<rparr>) b = q_board st b"
  "q_columns (st\<lparr>faults := fs\<rparr>) b = q_columns st b"
  by (simp_all add: q_board_def q_columns_def)

lemma single_not_one: "length rows \<noteq> 1 \<Longrightarrow> single rows = Inl PGRST116"
  by (cases rows; cases "tl rows") (auto simp: single_def)

subsection \<open>The requests whose error is read\<close>

lemma refused_simple:
  assumes "request st = (Some e, st1)"
  shows "updateColumn columnId title (h, st) =
           (False, catch ''Failed to update column'' ''Error updating column:'' e h, st1)"
    and "deleteColumn columnId (h, st) =
           (False, catch ''Failed to delete column'' ''Error deleting column:'' e h, st1)"
    and "reorderColumns columnId newPosition (h, st) =
           (False, catch ''Failed to reorder column'' ''Error reordering column:'' e h, st1)"
    and "updateCard ev cardId updates (h, st) =
           (False, catch ''Failed to update card'' ''Error updating card:'' e h, st1)"
    and "deleteCard cardId (h, st) =
           (False, catch ''Failed to delete card'' ''Error deleting card:'' e h, st1)"
    and "assignCard ev cardId userId (h, st) =
           (False, catch ''Failed to assign card'' ''Error assigning card:'' e h, st1)"
    and "addComment ev cardId content (h, st) =
           (Some e, catch ''Failed to add comment'' ''Error adding comment:'' e h, st1)"
    and "deleteComment ev commentId (h, st) =
           (Some e, catch ''Failed to delete comment'' ''Error deleting comment:'' e h, st1)"
  using assms
  by (simp_all add: updateColumn_def deleteColumn_def reorderColumns_def updateCard_def
        deleteCard_def assignCard_def addComment_def deleteComment_def Let_def)

lemma fetchBoard_refused:
  assumes "request st = (Some e, st1)" and "truthy (boardId ev)"
  shows "fetchBoard ev (h, st) =
           ((catch ''Failed to fetch board'' ''Error fetching board:'' e
               (h\<lparr>loading := True, error := None\<rparr>))\<lparr>loading := False\<rparr>, st1)"
  using assms by (simp add: fetchBoard_def fetchBoard_try_def Let_def)

lemma refused_first:
  assumes "faults st = Some m # fs"
  shows "truthy (boardId ev) \<longrightarrow>
       reported ''Failed to fetch board'' ''Error fetching board:'' (Thrown m) h
         (fst (fetchBoard ev (h, st))) \<and>
       fst (addColumn ev title (h, st)) = None \<and>
       reported ''Failed to add column'' ''Error adding column:'' (Thrown m) h
         (fst (snd (addColumn ev title (h, st))))"
    and "fst (updateColumn columnId title (h, st)) = False \<and>
       reported ''Failed to update column'' ''Error updating column:'' (Thrown m) h
         (fst (snd (updateColumn columnId title (h, st))))"
    and "fst (deleteColumn columnId (h, st)) = False \<and>
       reported ''Failed to delete column'' ''Error deleting column:'' (Thrown m) h
         (fst (snd (deleteColumn columnId (h, st))))"
    and "fst (reorderColumns columnId newPosition (h, st)) = False \<and>
       reported ''Failed to reorder column'' ''Error reordering column:'' (Thrown m) h
         (fst (snd (reorderColumns columnId newPosition (h, st))))"
    and "fst (addCard ev columnId title (h, st)) = None \<and>
       reported ''Failed to add card'' ''Error adding card:'' (Thrown m) h
         (fst (snd (addCard ev columnId title (h, st))))"
    and "fst (updateCard ev cardId updates (h, st)) = False \<and>
       reported ''Failed to update card'' ''Error updating card:'' (Thrown m) h
         (fst (snd (updateCard ev cardId updates (h, st))))"
    and "fst (deleteCard cardId (h, st)) = False \<and>
       reported ''Failed to delete card'' ''Error deleting card:'' (Thrown m) h
         (fst (snd (deleteCard cardId (h, st))))"
    and "fst (moveCard ev cardId columnId newPosition (h, st)) = False \<and>
       reported ''Failed to move card'' ''Error moving card:'' (Thrown m) h
         (fst (snd (moveCard ev cardId columnId newPosition (h, st))))"
    and "fst (assignCard ev cardId userId (h, st)) = False \<and>
       reported ''Failed to assign card'' ''Error assigning card:'' (Thrown m) h
         (fst (snd (assignCard ev cardId userId (h, st))))"
    and "fst (toggleSubtask ev subtaskId isCompleted (h, st)) = None \<and>
       reported ''Failed to toggle subtask'' ''Error toggling subtask:'' (Thrown m) h
         (fst (snd (toggleSubtask ev subtaskId isCompleted (h, st))))"
    and "fst (addComment ev cardId content (h, st)) = Some (Thrown m) \<and>
       reported ''Failed to add comment'' ''Error adding comment:'' (Thrown m) h
         (fst (snd (addComment ev cardId content (h, st))))"
    and "fst (deleteComment ev commentId (h, st)) = Some (Thrown m) \<and>
       reported ''Failed to delete comment'' ''Error deleting comment:'' (Thrown m) h
         (fst (snd (deleteComment ev commentId (h, st))))"
proof -
  note r = request_fault [OF assms]
  show "truthy (boardId ev) \<longrightarrow>
       reported ''Failed to fetch board'' ''Error fetching board:'' (Thrown m) h
         (fst (fetchBoard ev (h, st))) \<and>
       fst (addColumn ev title (h, st)) = None \<and>
       reported ''Failed to add column'' ''Error adding column:'' (Thrown m) h
         (fst (snd (addColumn ev title (h, st))))"
    by (simp add: fetchBoard_refused [OF r] addColumn_refused [OF r] reported_def catch_def
          err_message_def)
qed (simp_all add: refused_simple [OF request_fault [OF assms]]
       addCard_refused [OF request_fault [OF assms]]
       moveCard_refused [OF request_fault [OF assms]]
       toggleSubtask_refused [OF request_fault [OF assms]] reported_def catch_def
       err_message_def)

text \<open>
  The first request of the two attachment operations goes to the file storage, whose
  error is an instance of \<^verbatim>\<open>Error\<close>: its message is what the error state gets.
\<close>

lemma attachment_refused_first:
  assumes "faults st = Some m # fs"
  shows "fst (uploadAttachment ev random cardId f (h, st)) = False \<and>
         reported m ''Error uploading attachment:'' (Error m) h
           (fst (snd (uploadAttachment ev random cardId f (h, st))))"
    and "fst (deleteAttachment ev attachmentId storagePath (h, st)) = False \<and>
         reported m ''Error deleting attachment:'' (Error m) h
           (fst (snd (deleteAttachment ev attachmentId storagePath (h, st))))"
  using assms
  by (simp_all add: uploadAttachment_def deleteAttachment_def storage_request_def Let_def
        reported_def catch_def err_message_def)

lemma attachment_refused_second:
  assumes "faults st = None # Some m # fs"
  shows "fst (uploadAttachment ev random cardId f (h, st)) = False \<and>
         reported ''Failed to upload attachment'' ''Error uploading attachment:'' (Thrown m) h
           (fst (snd (uploadAttachment ev random cardId f (h, st))))"
    and "fst (deleteAttachment ev attachmentId storagePath (h, st)) = False \<and>
         reported ''Failed to delete attachment'' ''Error deleting attachment:'' (Thrown m) h
           (fst (snd (deleteAttachment ev attachmentId storagePath (h, st))))"
  using assms
  by (simp_all add: uploadAttachment_def deleteAttachment_def storage_request_def request_def
        Let_def reported_def catch_def err_message_def)

lemma fetchBoard_refused_second:
  assumes "faults st = None # Some m # fs" "boardId ev = Some b" "b \<noteq> []"
    and "q_board st b = Inr bd"
  shows "reported ''Failed to fetch board'' ''Error fetching board:'' (Thrown m) h
           (fst (fetchBoard ev (h, st)))"
  using assms
  by (simp add: fetchBoard_def fetchBoard_try_def request_def Let_def truthy_def q_faults
        reported_def catch_def err_message_def)

lemma fetchBoard_refused_third:
  assumes "faults st = None # None # Some m # fs" "boardId ev = Some b" "b \<noteq> []"
    and "q_board st b = Inr bd" "q_columns st b \<noteq> []"
  shows "reported ''Failed to fetch board'' ''Error fetching board:'' (Thrown m) h
           (fst (fetchBoard ev (h, st)))"
  using assms
  by (simp add: fetchBoard_def fetchBoard_try_def fetch_nested_def request_def Let_def
        truthy_def q_faults reported_def catch_def err_message_def)

lemma fetchBoard_not_single:
  assumes "faults st = [] \<or> faults st = None # fs" "boardId ev = Some b" "b \<noteq> []"
    and "length (filter (\<lambda>r. board_id r = b) (tbl_boards st)) \<noteq> 1"
  shows "reported ''Failed to fetch board'' ''Error fetching board:'' PGRST116 h
           (fst (fetchBoard ev (h, st)))"
proof -
  have "q_board st b = Inl PGRST116"
    unfolding q_board_def using assms(4) by (rule single_not_one)
  with assms(1,2,3) show ?thesis
    by (auto simp: fetchBoard_def fetchBoard_try_def request_def Let_def truthy_def q_faults
          reported_def catch_def err_message_def PGRST116_def)
qed

subsection \<open>The requests whose error is not read\<close>

lemma fetch_nested_unread:
  assumes "faults st = None # fs"
  shows "\<exists>v st'. fetch_nested b cols st = (Inr v, st')"
  using assms by (simp add: fetch_nested_def request_def Let_def split_beta)

lemma fetchBoard_unread:
  assumes "faults st = None # None # None # fs" "boardId ev = Some b" "b \<noteq> []"
    and "q_board st b = Inr bd"
  shows "error (fst (fetchBoard ev (h, st))) = None \<and>
         console (fst (fetchBoard ev (h, st))) = console h"
proof -
  let ?st2 = "st\<lparr>faults := None # fs\<rparr>"
  have "faults ?st2 = None # fs" by simp
  from fetch_nested_unread [OF this, of b "q_columns st b"]
  obtain v st' where n: "fetch_nested b (q_columns st b) ?st2 = (Inr v, st')"
    by blast
  from assms show ?thesis
    by (simp add: fetchBoard_def fetchBoard_try_def request_def Let_def truthy_def q_faults n)
qed

lemma log_unread:
  assumes "faults st = None # fs"
  shows "fst (addCard ev columnId title (h, st)) \<noteq> None \<and>
         fst (snd (addCard ev columnId title (h, st))) = h"
    and "fst (updateCard ev cardId updates (h, st)) = True \<and>
         fst (snd (updateCard ev cardId updates (h, st))) = h"
    and "fst (assignCard ev cardId userId (h, st)) = True \<and>
         fst (snd (assignCard ev cardId userId (h, st))) = h"
  using assms
  by (simp_all add: addCard_def updateCard_def assignCard_def request_def Let_def)

lemma deleteAttachment_unread:
  assumes "faults st = None # None # fs"
  shows "fst (deleteAttachment ev attachmentId storagePath (h, st)) = True \<and>
         fst (snd (deleteAttachment ev attachmentId storagePath (h, st))) = h"
  using assms
  by (simp add: deleteAttachment_def storage_request_def request_def Let_def)

subsection \<open>The operations that end with fetchBoard\<close>

lemma ends_with_fetchBoard:
  assumes "faults st = None # fs"
  shows "truthy (boardId ev) \<longrightarrow>
           fst (addColumn ev title (h, st)) \<noteq> None \<and>
           (\<exists>st2. snd (addColumn ev title (h, st)) = fetchBoard ev (h, st2))"
    and "\<exists>st2. moveCard ev cardId columnId newPosition (h, st) = (True, fetchBoard ev (h, st2))"
    and "\<exists>st2. addComment ev cardId content (h, st) = (None, fetchBoard ev (h, st2))"
    and "\<exists>st2. deleteComment ev commentId (h, st) = (None, fetchBoard ev (h, st2))"
  using assms
  by (simp_all add: addColumn_def moveCard_def addComment_def deleteComment_def request_def
        Let_def split_beta) blast+

lemma uploadAttachment_ends:
  assumes "faults st = None # None # fs"
  shows "\<exists>st2. uploadAttachment ev random cardId f (h, st) = (True, fetchBoard ev (h, st2))"
  using assms
  by (simp add: uploadAttachment_def storage_request_def request_def Let_def split_beta) blast

lemma toggleSubtask_ends:
  assumes "faults st = None # fs"
  shows "(\<exists>st2. toggleSubtask ev subtaskId isCompleted (h, st) = (None, fetchBoard ev (h, st2))) \<or>
         (\<exists>k (d::columnWithCards) st2. toggleSubtask ev subtaskId isCompleted (h, st) =
            (Some (automationMessage (column_title d)),
             snd (moveCard ev k (column_id d) 0 (h, st2))))"
proof -
  note p = toggleSubtask_performed [OF request_skip [OF assms], of ev subtaskId isCompleted h]
  show ?thesis
  proof (cases "if isCompleted then automation_target ev (columns h) subtaskId else None")
    case None
    with p show ?thesis by (auto simp: split_beta)
  next
    case (Some t)
    let ?st2 = "st\<lparr>faults := fs,
      tbl_subtasks := toggled subtaskId isCompleted (tbl_subtasks st)\<rparr>"
    from Some p have eq: "toggleSubtask ev subtaskId isCompleted (h, st) =
        (Some (automationMessage (column_title (snd t))),
         snd (moveCard ev (fst t) (column_id (snd t)) 0 (h, ?st2)))"
      by (cases t) (simp add: split_beta)
    show ?thesis
      by (rule disjI2, rule exI [of _ "fst t"], rule exI [of _ "snd t"], rule exI [of _ ?st2])
         (rule eq)
  qed
qed

subsection \<open>The example store when it refuses a request\<close>

lemma ex_answering:
  "faults (answering fs) = fs" "q_board (answering fs) ''b1'' = Inr ex_board"
  "q_columns (answering fs) ''b1'' \<noteq> []" "tbl_boards (answering fs) = [ex_board]"
  by (simp_all add: answering_def q_faults ex_q_board ex_queries) (simp add: ex_store_def)

lemma ex_unread_view:
  "map (\<lambda>k. (card_id k, map subtask_id (subtasks k)))
     (all_cards (columns (fst (fetchBoard ex_env
        (ex_hook, answering [None, None, None, Some ''permission denied'']))))) =
   [(''k1'', []), (''k3'', []), (''k2'', [])]"
  by (simp add: fetchBoard_def fetchBoard_try_def fetch_nested_def data_or_empty_def request_def
        answering_def Let_def truthy_def all_cards_def ex_defs query_defs view_defs
      del: set_map set_filter)

text \<open>
  C5 as stated says that every operation catches the errors of the service, stores a
  message, logs the error and returns a failure value, and that no operation throws
  again. addComment and deleteComment do throw again: their catch block ends with
  \<^verbatim>\<open>throw error; // Re-throw to allow caller to handle\<close>, and the error of the store reaches
  the caller. And the error of a request is lost when the code does not read it: when the
  store refuses the select of the subtasks, fetchBoard sets no error and logs nothing, and
  shows the cards without their subtasks.
\<close>

theorem errors_caught_counterexample:
  "fst (addComment ex_env ''k1'' ''hello'' (ex_hook, answering [Some ''permission denied''])) =
     Some (Thrown ''permission denied'') \<and>
   fst (deleteComment ex_env ''m1'' (ex_hook, answering [Some ''permission denied''])) =
     Some (Thrown ''permission denied'') \<and>
   map (\<lambda>k. (card_id k, map subtask_id (subtasks k))) (all_cards (columns ex_hook)) =
     [(''k1'', [''s1'', ''s2'']), (''k3'', [''s3'', ''s4'']), (''k2'', [])] \<and>
   error (fst (fetchBoard ex_env
     (ex_hook, answering [None, None, None, Some ''permission denied'']))) = None \<and>
   console (fst (fetchBoard ex_env
     (ex_hook, answering [None, None, None, Some ''permission denied'']))) = [] \<and>
   map (\<lambda>k. (card_id k, map subtask_id (subtasks k)))
     (all_cards (columns (fst (fetchBoard ex_env
        (ex_hook, answering [None, None, None, Some ''permission denied'']))))) =
     [(''k1'', []), (''k3'', []), (''k2'', [])]"
proof -
  have "fst (addComment ex_env ''k1'' ''hello'' (ex_hook, answering [Some ''permission denied''])) =
      Some (Thrown ''permission denied'')"
    and "fst (deleteComment ex_env ''m1'' (ex_hook, answering [Some ''permission denied''])) =
      Some (Thrown ''permission denied'')"
    by (simp_all add: refused_simple [OF request_fault [OF ex_answering(1)]])
  moreover have "map (\<lambda>k. (card_id k, map subtask_id (subtasks k))) (all_cards (columns ex_hook)) =
     [(''k1'', [''s1'', ''s2'']), (''k3'', [''s3'', ''s4'']), (''k2'', [])]"
    by (simp add: all_cards_def ex_columns ex_fields mk_subtask_def)
  moreover have "error (fst (fetchBoard ex_env
       (ex_hook, answering [None, None, None, Some ''permission denied'']))) = None \<and>
     console (fst (fetchBoard ex_env
       (ex_hook, answering [None, None, None, Some ''permission denied'']))) = console ex_hook"
    by (rule fetchBoard_unread [OF ex_answering(1) _ _ ex_answering(2)])
       (simp_all add: ex_env_def)
  ultimately show ?thesis
    by (simp add: ex_unread_view ex_hook_state)
qed

text \<open>
  C5, amended. \<open>faults st\<close> lists the answers of the store to the coming requests.

  When the store refuses a request whose error the operation reads, the operation sets
  the error state, logs the error on the console and returns null (addColumn, addCard),
  false (updateColumn, deleteColumn, reorderColumns, updateCard, deleteCard, moveCard,
  assignCard, uploadAttachment, deleteAttachment), an empty result (toggleSubtask) or
  nothing (fetchBoard); addComment and deleteComment throw the error again to their
  caller. These requests are: the single insert, update or delete of an operation; the
  call of the storage and then the request to the table in uploadAttachment and
  deleteAttachment; the selects of the board (also when it does not find exactly one
  row), of the columns and of the cards in fetchBoard. The error state gets the fallback
  text of the operation when a table refuses, and the message of the error when the
  storage does.

  The error of the other requests is not read. When the store has performed the three
  selects above, fetchBoard sets no error and logs nothing, whatever the answers to the
  selects of the subtasks, attachments, comments, activities, labels and card labels. When
  the store has performed the request of addCard, updateCard, assignCard or
  deleteAttachment, the operation returns its row or true and leaves the hook as it is,
  whatever the answer to the insert of logActivity.

  addColumn, moveCard, addComment, deleteComment, uploadAttachment and toggleSubtask end
  with fetchBoard (toggleSubtask with moveCard when the automation applies): once the
  store has performed their own request they return their row, true, nothing or the
  message, and the hook is the one that fetchBoard (or moveCard) leaves.
\<close>

theorem errors_caught:
  "(faults st = Some m # fs \<longrightarrow>
      (truthy (boardId ev) \<longrightarrow>
         reported ''Failed to fetch board'' ''Error fetching board:'' (Thrown m) h
           (fst (fetchBoard ev (h, st))) \<and>
         fst (addColumn ev title (h, st)) = None \<and>
         reported ''Failed to add column'' ''Error adding column:'' (Thrown m) h
           (fst (snd (addColumn ev title (h, st))))) \<and>
      fst (updateColumn columnId title (h, st)) = False \<and>
      reported ''Failed to update column'' ''Error updating column:'' (Thrown m) h
        (fst (snd (updateColumn columnId title (h, st)))) \<and>
      fst (deleteColumn columnId (h, st)) = False \<and>
      reported ''Failed to delete column'' ''Error deleting column:'' (Thrown m) h
        (fst (snd (deleteColumn columnId (h, st)))) \<and>
      fst (reorderColumns columnId newPosition (h, st)) = False \<and>
      reported ''Failed to reorder column'' ''Error reordering column:'' (Thrown m) h
        (fst (snd (reorderColumns columnId newPosition (h, st)))) \<and>
      fst (addCard ev columnId title (h, st)) = None \<and>
      reported ''Failed to add card'' ''Error adding card:'' (Thrown m) h
        (fst (snd (addCard ev columnId title (h, st)))) \<and>
      fst (updateCard ev cardId updates (h, st)) = False \<and>
      reported ''Failed to update card'' ''Error updating card:'' (Thrown m) h
        (fst (snd (updateCard ev cardId updates (h, st)))) \<and>
      fst (deleteCard cardId (h, st)) = False \<and>
      reported ''Failed to delete card'' ''Error deleting card:'' (Thrown m) h
        (fst (snd (deleteCard cardId (h, st)))) \<and>
      fst (moveCard ev cardId columnId newPosition (h, st)) = False \<and>
      reported ''Failed to move card'' ''Error moving card:'' (Thrown m) h
        (fst (snd (moveCard ev cardId columnId newPosition (h, st)))) \<and>
      fst (assignCard ev cardId userId (h, st)) = False \<and>
      reported ''Failed to assign card'' ''Error assigning card:'' (Thrown m) h
        (fst (snd (assignCard ev cardId userId (h, st)))) \<and>
      fst (toggleSubtask ev subtaskId isCompleted (h, st)) = None \<and>
      reported ''Failed to toggle subtask'' ''Error toggling subtask:'' (Thrown m) h
        (fst (snd (toggleSubtask ev subtaskId isCompleted (h, st)))) \<and>
      fst (uploadAttachment ev random cardId f (h, st)) = False \<and>
      reported m ''Error uploading attachment:'' (Error m) h
        (fst (snd (uploadAttachment ev random cardId f (h, st)))) \<and>
      fst (deleteAttachment ev attachmentId storagePath (h, st)) = False \<and>
      reported m ''Error deleting attachment:'' (Error m) h
        (fst (snd (deleteAttachment ev attachmentId storagePath (h, st)))) \<and>
      fst (addComment ev cardId content (h, st)) = Some (Thrown m) \<and>
      reported ''Failed to add comment'' ''Error adding comment:'' (Thrown m) h
        (fst (snd (addComment ev cardId content (h, st)))) \<and>
      fst (deleteComment ev commentId (h, st)) = Some (Thrown m) \<and>
      reported ''Failed to delete comment'' ''Error deleting comment:'' (Thrown m) h
        (fst (snd (deleteComment ev commentId (h, st))))) \<and>
   (faults st = None # Some m # fs \<longrightarrow>
      fst (uploadAttachment ev random cardId f (h, st)) = False \<and>
      reported ''Failed to upload attachment'' ''Error uploading attachment:'' (Thrown m) h
        (fst (snd (uploadAttachment ev random cardId f (h, st)))) \<and>
      fst (deleteAttachment ev attachmentId storagePath (h, st)) = False \<and>
      reported ''Failed to delete attachment'' ''Error deleting attachment:'' (Thrown m) h
        (fst (snd (deleteAttachment ev attachmentId storagePath (h, st)))) \<and>
      (boardId ev = Some b \<and> b \<noteq> [] \<and> q_board st b = Inr bd \<longrightarrow>
         reported ''Failed to fetch board'' ''Error fetching board:'' (Thrown m) h
           (fst (fetchBoard ev (h, st))))) \<and>
   (faults st = None # None # Some m # fs \<and> boardId ev = Some b \<and> b \<noteq> [] \<and>
    q_board st b = Inr bd \<and> q_columns st b \<noteq> [] \<longrightarrow>
      reported ''Failed to fetch board'' ''Error fetching board:'' (Thrown m) h
        (fst (fetchBoard ev (h, st)))) \<and>
   ((faults st = [] \<or> faults st = None # fs) \<and> boardId ev = Some b \<and> b \<noteq> [] \<and>
    length (filter (\<lambda>r. board_id r = b) (tbl_boards st)) \<noteq> 1 \<longrightarrow>
      reported ''Failed to fetch board'' ''Error fetching board:'' PGRST116 h
        (fst (fetchBoard ev (h, st)))) \<and>
   (faults st = None # None # None # fs \<and> boardId ev = Some b \<and> b \<noteq> [] \<and>
    q_board st b = Inr bd \<longrightarrow>
      error (fst (fetchBoard ev (h, st))) = None \<and>
      console (fst (fetchBoard ev (h, st))) = console h) \<and>
   (faults st = None # fs \<longrightarrow>
      fst (addCard ev columnId title (h, st)) \<noteq> None \<and>
      fst (snd (addCard ev columnId title (h, st))) = h \<and>
      fst (updateCard ev cardId updates (h, st)) = True \<and>
      fst (snd (updateCard ev cardId updates (h, st))) = h \<and>
      fst (assignCard ev cardId userId (h, st)) = True \<and>
      fst (snd (assignCard ev cardId userId (h, st))) = h \<and>
      (truthy (boardId ev) \<longrightarrow>
         fst (addColumn ev title (h, st)) \<noteq> None \<and>
         (\<exists>st2. snd (addColumn ev title (h, st)) = fetchBoard ev (h, st2))) \<and>
      (\<exists>st2. moveCard ev cardId columnId newPosition (h, st) = (True, fetchBoard ev (h, st2))) \<and>
      (\<exists>st2. addComment ev cardId content (h, st) = (None, fetchBoard ev (h, st2))) \<and>
      (\<exists>st2. deleteComment ev commentId (h, st) = (None, fetchBoard ev (h, st2))) \<and>
      ((\<exists>st2. toggleSubtask ev subtaskId isCompleted (h, st) = (None, fetchBoard ev (h, st2))) \<or>
       (\<exists>k (d::columnWithCards) st2. toggleSubtask ev subtaskId isCompleted (h, st) =
          (Some (automationMessage (column_title d)),
           snd (moveCard ev k (column_id d) 0 (h, st2)))))) \<and>
   (faults st = None # None # fs \<longrightarrow>
      fst (deleteAttachment ev attachmentId storagePath (h, st)) = True \<and>
      fst (snd (deleteAttachment ev attachmentId storagePath (h, st))) = h \<and>
      (\<exists>st2. uploadAttachment ev random cardId f (h, st) = (True, fetchBoard ev (h, st2))))"
proof (intro conjI)
  show "faults st = Some m # fs \<longrightarrow>
      (truthy (boardId ev) \<longrightarrow>
         reported ''Failed to fetch board'' ''Error fetching board:'' (Thrown m) h
           (fst (fetchBoard ev (h, st))) \<and>
         fst (addColumn ev title (h, st)) = None \<and>
         reported ''Failed to add column'' ''Error adding column:'' (Thrown m) h
           (fst (snd (addColumn ev title (h, st))))) \<and>
      fst (updateColumn columnId title (h, st)) = False \<and>
      reported ''Failed to update column'' ''Error updating column:'' (Thrown m) h
        (fst (snd (updateColumn columnId title (h, st)))) \<and>
      fst (deleteColumn columnId (h, st)) = False \<and>
      reported ''Failed to delete column'' ''Error deleting column:'' (Thrown m) h
        (fst (snd (deleteColumn columnId (h, st)))) \<and>
      fst (reorderColumns columnId newPosition (h, st)) = False \<and>
      reported ''Failed to reorder column'' ''Error reordering column:'' (Thrown m) h
        (fst (snd (reorderColumns columnId newPosition (h, st)))) \<and>
      fst (addCard ev columnId title (h, st)) = None \<and>
      reported ''Failed to add card'' ''Error adding card:'' (Thrown m) h
        (fst (snd (addCard ev columnId title (h, st)))) \<and>
      fst (updateCard ev cardId updates (h, st)) = False \<and>
      reported ''Failed to update card'' ''Error updating card:'' (Thrown m) h
        (fst (snd (updateCard ev cardId updates (h, st)))) \<and>
      fst (deleteCard cardId (h, st)) = False \<and>
      reported ''Failed to delete card'' ''Error deleting card:'' (Thrown m) h
        (fst (snd (deleteCard cardId (h, st)))) \<and>
      fst (moveCard ev cardId columnId newPosition (h, st)) = False \<and>
      reported ''Failed to move card'' ''Error moving card:'' (Thrown m) h
        (fst (snd (moveCard ev cardId columnId newPosition (h, st)))) \<and>
      fst (assignCard ev cardId userId (h, st)) = False \<and>
      reported ''Failed to assign card'' ''Error assigning card:'' (Thrown m) h
        (fst (snd (assignCard ev cardId userId (h, st)))) \<and>
      fst (toggleSubtask ev subtaskId isCompleted (h, st)) = None \<and>
      reported ''Failed to toggle subtask'' ''Error toggling subtask:'' (Thrown m) h
        (fst (snd (toggleSubtask ev subtaskId isCompleted (h, st)))) \<and>
      fst (uploadAttachment ev random cardId f (h, st)) = False \<and>
      reported m ''Error uploading attachment:'' (Error m) h
        (fst (snd (uploadAttachment ev random cardId f (h, st)))) \<and>
      fst (deleteAttachment ev attachmentId storagePath (h, st)) = False \<and>
      reported m ''Error deleting attachment:'' (Error m) h
        (fst (snd (deleteAttachment ev attachmentId storagePath (h, st)))) \<and>
      fst (addComment ev cardId content (h, st)) = Some (Thrown m) \<and>
      reported ''Failed to add comment'' ''Error adding comment:'' (Thrown m) h
        (fst (snd (addComment ev cardId content (h, st)))) \<and>
      fst (deleteComment ev commentId (h, st)) = Some (Thrown m) \<and>
      reported ''Failed to delete comment'' ''Error deleting comment:'' (Thrown m) h
        (fst (snd (deleteComment ev commentId (h, st))))"
  proof
    assume a: "faults st = Some m # fs"
    note r = refused_first [OF a] attachment_refused_first [OF a]
    show "(truthy (boardId ev) \<longrightarrow>
         reported ''Failed to fetch board'' ''Error fetching board:'' (Thrown m) h
           (fst (fetchBoard ev (h, st))) \<and>
         fst (addColumn ev title (h, st)) = None \<and>
         reported ''Failed to add column'' ''Error adding column:'' (Thrown m) h
           (fst (snd (addColumn ev title (h, st))))) \<and>
      fst (updateColumn columnId title (h, st)) = False \<and>
      reported ''Failed to update column'' ''Error updating column:'' (Thrown m) h
        (fst (snd (updateColumn columnId title (h, st)))) \<and>
      fst (deleteColumn columnId (h, st)) = False \<and>
      reported ''Failed to delete column'' ''Error deleting column:'' (Thrown m) h
        (fst (snd (deleteColumn columnId (h, st)))) \<and>
      fst (reorderColumns columnId newPosition (h, st)) = False \<and>
      reported ''Failed to reorder column'' ''Error reordering column:'' (Thrown m) h
        (fst (snd (reorderColumns columnId newPosition (h, st)))) \<and>
      fst (addCard ev columnId title (h, st)) = None \<and>
      reported ''Failed to add card'' ''Error adding card:'' (Thrown m) h
        (fst (snd (addCard ev columnId title (h, st)))) \<and>
      fst (updateCard ev cardId updates (h, st)) = False \<and>
      reported ''Failed to update card'' ''Error updating card:'' (Thrown m) h
        (fst (snd (updateCard ev cardId updates (h, st)))) \<and>
      fst (deleteCard cardId (h, st)) = False \<and>
      reported ''Failed to delete card'' ''Error deleting card:'' (Thrown m) h
        (fst (snd (deleteCard cardId (h, st)))) \<and>
      fst (moveCard ev cardId columnId newPosition (h, st)) = False \<and>
      reported ''Failed to move card'' ''Error moving card:'' (Thrown m) h
        (fst (snd (moveCard ev cardId columnId newPosition (h, st)))) \<and>
      fst (assignCard ev cardId userId (h, st)) = False \<and>
      reported ''Failed to assign card'' ''Error assigning card:'' (Thrown m) h
        (fst (snd (assignCard ev cardId userId (h, st)))) \<and>
      fst (toggleSubtask ev subtaskId isCompleted (h, st)) = None \<and>
      reported ''Failed to toggle subtask'' ''Error toggling subtask:'' (Thrown m) h
        (fst (snd (toggleSubtask ev subtaskId isCompleted (h, st)))) \<and>
      fst (uploadAttachment ev random cardId f (h, st)) = False \<and>
      reported m ''Error uploading attachment:'' (Error m) h
        (fst (snd (uploadAttachment ev random cardId f (h, st)))) \<and>
      fst (deleteAttachment ev attachmentId storagePath (h, st)) = False \<and>
      reported m ''Error deleting attachment:'' (Error m) h
        (fst (snd (deleteAttachment ev attachmentId storagePath (h, st)))) \<and>
      fst (addComment ev cardId content (h, st)) = Some (Thrown m) \<and>
      reported ''Failed to add comment'' ''Error adding comment:'' (Thrown m) h
        (fst (snd (addComment ev cardId content (h, st)))) \<and>
      fst (deleteComment ev commentId (h, st)) = Some (Thrown m) \<and>
      reported ''Failed to delete comment'' ''Error deleting comment:'' (Thrown m) h
        (fst (snd (deleteComment ev commentId (h, st))))"
      by (simp add: r)
  qed
next
  show "faults st = None # Some m # fs \<longrightarrow>
      fst (uploadAttachment ev random cardId f (h, st)) = False \<and>
      reported ''Failed to upload attachment'' ''Error uploading attachment:'' (Thrown m) h
        (fst (snd (uploadAttachment ev random cardId f (h, st)))) \<and>
      fst (deleteAttachment ev attachmentId storagePath (h, st)) = False \<and>
      reported ''Failed to delete attachment'' ''Error deleting attachment:'' (Thrown m) h
        (fst (snd (deleteAttachment ev attachmentId storagePath (h, st)))) \<and>
      (boardId ev = Some b \<and> b \<noteq> [] \<and> q_board st b = Inr bd \<longrightarrow>
         reported ''Failed to fetch board'' ''Error fetching board:'' (Thrown m) h
           (fst (fetchBoard ev (h, st))))"
  proof
    assume a: "faults st = None # Some m # fs"
    note r = attachment_refused_second [OF a]
    have "reported ''Failed to fetch board'' ''Error fetching board:'' (Thrown m) h
           (fst (fetchBoard ev (h, st)))"
      if "boardId ev = Some b \<and> b \<noteq> [] \<and> q_board st b = Inr bd"
      using that by (auto intro: fetchBoard_refused_second [OF a])
    then show "fst (uploadAttachment ev random cardId f (h, st)) = False \<and>
      reported ''Failed to upload attachment'' ''Error uploading attachment:'' (Thrown m) h
        (fst (snd (uploadAttachment ev random cardId f (h, st)))) \<and>
      fst (deleteAttachment ev attachmentId storagePath (h, st)) = False \<and>
      reported ''Failed to delete attachment'' ''Error deleting attachment:'' (Thrown m) h
        (fst (snd (deleteAttachment ev attachmentId storagePath (h, st)))) \<and>
      (boardId ev = Some b \<and> b \<noteq> [] \<and> q_board st b = Inr bd \<longrightarrow>
         reported ''Failed to fetch board'' ''Error fetching board:'' (Thrown m) h
           (fst (fetchBoard ev (h, st))))"
      using r by simp
  qed
next
  show "faults st = None # None # Some m # fs \<and> boardId ev = Some b \<and> b \<noteq> [] \<and>
    q_board st b = Inr bd \<and> q_columns st b \<noteq> [] \<longrightarrow>
      reported ''Failed to fetch board'' ''Error fetching board:'' (Thrown m) h
        (fst (fetchBoard ev (h, st)))"
    by (auto intro: fetchBoard_refused_third)
next
  show "(faults st = [] \<or> faults st = None # fs) \<and> boardId ev = Some b \<and> b \<noteq> [] \<and>
    length (filter (\<lambda>r. board_id r = b) (tbl_boards st)) \<noteq> 1 \<longrightarrow>
      reported ''Failed to fetch board'' ''Error fetching board:'' PGRST116 h
        (fst (fetchBoard ev (h, st)))"
    by (auto intro: fetchBoard_not_single)
next
  show "faults st = None # None # None # fs \<and> boardId ev = Some b \<and> b \<noteq> [] \<and>
    q_board st b = Inr bd \<longrightarrow>
      error (fst (fetchBoard ev (h, st))) = None \<and>
      console (fst (fetchBoard ev (h, st))) = console h"
    by (auto dest: fetchBoard_unread [where h = h])
next
  show "faults st = None # fs \<longrightarrow>
      fst (addCard ev columnId title (h, st)) \<noteq> None \<and>
      fst (snd (addCard ev columnId title (h, st))) = h \<and>
      fst (updateCard ev cardId updates (h, st)) = True \<and>
      fst (snd (updateCard ev cardId updates (h, st))) = h \<and>
      fst (assignCard ev cardId userId (h, st)) = True \<and>
      fst (snd (assignCard ev cardId userId (h, st))) = h \<and>
      (truthy (boardId ev) \<longrightarrow>
         fst (addColumn ev title (h, st)) \<noteq> None \<and>
         (\<exists>st2. snd (addColumn ev title (h, st)) = fetchBoard ev (h, st2))) \<and>
      (\<exists>st2. moveCard ev cardId columnId newPosition (h, st) = (True, fetchBoard ev (h, st2))) \<and>
      (\<exists>st2. addComment ev cardId content (h, st) = (None, fetchBoard ev (h, st2))) \<and>
      (\<exists>st2. deleteComment ev commentId (h, st) = (None, fetchBoard ev (h, st2))) \<and>
      ((\<exists>st2. toggleSubtask ev subtaskId isCompleted (h, st) = (None, fetchBoard ev (h, st2))) \<or>
       (\<exists>k (d::columnWithCards) st2. toggleSubtask ev subtaskId isCompleted (h, st) =
          (Some (automationMessage (column_title d)),
           snd (moveCard ev k (column_id d) 0 (h, st2)))))"
  proof
    assume a: "faults st = None # fs"
    note u = log_unread [OF a] ends_with_fetchBoard [OF a]
    show "fst (addCard ev columnId title (h, st)) \<noteq> None \<and>
      fst (snd (addCard ev columnId title (h, st))) = h \<and>
      fst (updateCard ev cardId updates (h, st)) = True \<and>
      fst (snd (updateCard ev cardId updates (h, st))) = h \<and>
      fst (assignCard ev cardId userId (h, st)) = True \<and>
      fst (snd (assignCard ev cardId userId (h, st))) = h \<and>
      (truthy (boardId ev) \<longrightarrow>
         fst (addColumn ev title (h, st)) \<noteq> None \<and>
         (\<exists>st2. snd (addColumn ev title (h, st)) = fetchBoard ev (h, st2))) \<and>
      (\<exists>st2. moveCard ev cardId columnId newPosition (h, st) = (True, fetchBoard ev (h, st2))) \<and>
      (\<exists>st2. addComment ev cardId content (h, st) = (None, fetchBoard ev (h, st2))) \<and>
      (\<exists>st2. deleteComment ev commentId (h, st) = (None, fetchBoard ev (h, st2))) \<and>
      ((\<exists>st2. toggleSubtask ev subtaskId isCompleted (h, st) = (None, fetchBoard ev (h, st2))) \<or>
       (\<exists>k (d::columnWithCards) st2. toggleSubtask ev subtaskId isCompleted (h, st) =
          (Some (automationMessage (column_title d)),
           snd (moveCard ev k (column_id d) 0 (h, st2)))))"
      by (simp add: u toggleSubtask_ends [OF a])
  qed
next
  show "faults st = None # None # fs \<longrightarrow>
      fst (deleteAttachment ev attachmentId storagePath (h, st)) = True \<and>
      fst (snd (deleteAttachment ev attachmentId storagePath (h, st))) = h \<and>
      (\<exists>st2. uploadAttachment ev random cardId f (h, st) = (True, fetchBoard ev (h, st2)))"
  proof
    assume a: "faults st = None # None # fs"
    from deleteAttachment_unread [OF a] uploadAttachment_ends [OF a]
    show "fst (deleteAttachment ev attachmentId storagePath (h, st)) = True \<and>
      fst (snd (deleteAttachment ev attachmentId storagePath (h, st))) = h \<and>
      (\<exists>st2. uploadAttachment ev random cardId f (h, st) = (True, fetchBoard ev (h, st2)))"
      by blast
  qed
qed

theorem errors_caught_witness:
  "fst (moveCard ex_env ''k1'' ''c1'' 0 (ex_hook, answering [Some ''permission denied''])) =
     False \<and>
   error (fst (snd (moveCard ex_env ''k1'' ''c1'' 0
     (ex_hook, answering [Some ''permission denied''])))) = Some ''Failed to move card'' \<and>
   console (fst (snd (moveCard ex_env ''k1'' ''c1'' 0
     (ex_hook, answering [Some ''permission denied''])))) =
     [(''Error moving card:'', Thrown ''permission denied'')] \<and>
   error (fst (snd (uploadAttachment ex_env ''x7'' ''k1''
     \<lparr>file_name = ''a.png'', file_type = ''image/png'', file_size = 10\<rparr>
     (ex_hook, answering [Some ''permission denied''])))) = Some ''permission denied'' \<and>
   error (fst (snd (uploadAttachment ex_env ''x7'' ''k1''
     \<lparr>file_name = ''a.png'', file_type = ''image/png'', file_size = 10\<rparr>
     (ex_hook, answering [None, Some ''permission denied''])))) =
     Some ''Failed to upload attachment'' \<and>
   error (fst (fetchBoard ex_env (ex_hook, answering [None, Some ''permission denied'']))) =
     Some ''Failed to fetch board'' \<and>
   console (fst (fetchBoard ex_env
     (ex_hook, answering [None, None, Some ''permission denied'']))) =
     [(''Error fetching board:'', Thrown ''permission denied'')] \<and>
   console (fst (fetchBoard (ex_env\<lparr>boardId := Some ''b2''\<rparr>) (ex_hook, answering []))) =
     [(''Error fetching board:'', PGRST116)] \<and>
   error (fst (fetchBoard ex_env
     (ex_hook, answering [None, None, None, Some ''permission denied'']))) = None \<and>
   fst (addCard ex_env ''c1'' ''Review'' (ex_hook, answering [None, Some ''permission denied''])) \<noteq>
     None \<and>
   fst (snd (addCard ex_env ''c1'' ''Review''
     (ex_hook, answering [None, Some ''permission denied'']))) = ex_hook \<and>
   fst (deleteAttachment ex_env ''a1'' ''k1/x7.png''
     (ex_hook, answering [None, None, Some ''permission denied''])) = True"
proof -
  note a = ex_answering reported_def truthy_def ex_hook_state
  have e: "boardId ex_env = Some ''b1''" by (simp add: ex_env_def)
  note t1 = errors_caught [where st = "answering [Some ''permission denied'']"
      and m = "''permission denied''"
      and fs = "[]" and ev = "ex_env" and h = ex_hook and b = "''b1''" and bd = ex_board
      and title = "''Review''" and columnId = "''c1''" and newPosition = 0 and cardId = "''k1''"
      and updates = "\<lparr>upd_title = Some ''Plan'', upd_description = None, upd_due_date = None,
        upd_priority = None\<rparr>"
      and userId = None and subtaskId = "''s1''" and isCompleted = True and random = "''x7''"
      and f = "\<lparr>file_name = ''a.png'', file_type = ''image/png'', file_size = 10\<rparr>"
      and attachmentId = "''a1''" and storagePath = "''k1/x7.png''" and content = "''hello''"
      and commentId = "''m1''"]
  note t2 = errors_caught [where st = "answering [None, Some ''permission denied'']"
      and m = "''permission denied''"
      and fs = "[]" and ev = "ex_env" and h = ex_hook and b = "''b1''" and bd = ex_board
      and title = "''Review''" and columnId = "''c1''" and newPosition = 0 and cardId = "''k1''"
      and updates = "\<lparr>upd_title = Some ''Plan'', upd_description = None, upd_due_date = None,
        upd_priority = None\<rparr>"
      and userId = None and subtaskId = "''s1''" and isCompleted = True and random = "''x7''"
      and f = "\<lparr>file_name = ''a.png'', file_type = ''image/png'', file_size = 10\<rparr>"
      and attachmentId = "''a1''" and storagePath = "''k1/x7.png''" and content = "''hello''"
      and commentId = "''m1''"]
  note t3 = errors_caught [where st = "answering [None, None, Some ''permission denied'']"
      and m = "''permission denied''"
      and fs = "[]" and ev = "ex_env" and h = ex_hook and b = "''b1''" and bd = ex_board
      and title = "''Review''" and columnId = "''c1''" and newPosition = 0 and cardId = "''k1''"
      and updates = "\<lparr>upd_title = Some ''Plan'', upd_description = None, upd_due_date = None,
        upd_priority = None\<rparr>"
      and userId = None and subtaskId = "''s1''" and isCompleted = True and random = "''x7''"
      and f = "\<lparr>file_name = ''a.png'', file_type = ''image/png'', file_size = 10\<rparr>"
      and attachmentId = "''a1''" and storagePath = "''k1/x7.png''" and content = "''hello''"
      and commentId = "''m1''"]
  note t2b = errors_caught [where st = "answering [None, Some ''permission denied'']"
      and m = "''permission denied''"
      and fs = "[Some ''permission denied'']" and ev = "ex_env" and h = ex_hook and b = "''b1''" and bd = ex_board
      and title = "''Review''" and columnId = "''c1''" and newPosition = 0 and cardId = "''k1''"
      and updates = "\<lparr>upd_title = Some ''Plan'', upd_description = None, upd_due_date = None,
        upd_priority = None\<rparr>"
      and userId = None and subtaskId = "''s1''" and isCompleted = True and random = "''x7''"
      and f = "\<lparr>file_name = ''a.png'', file_type = ''image/png'', file_size = 10\<rparr>"
      and attachmentId = "''a1''" and storagePath = "''k1/x7.png''" and content = "''hello''"
      and commentId = "''m1''"]
  note t3b = errors_caught [where st = "answering [None, None, Some ''permission denied'']"
      and m = "''permission denied''"
      and fs = "[Some ''permission denied'']" and ev = "ex_env" and h = ex_hook and b = "''b1''" and bd = ex_board
      and title = "''Review''" and columnId = "''c1''" and newPosition = 0 and cardId = "''k1''"
      and updates = "\<lparr>upd_title = Some ''Plan'', upd_description = None, upd_due_date = None,
        upd_priority = None\<rparr>"
      and userId = None and subtaskId = "''s1''" and isCompleted = True and random = "''x7''"
      and f = "\<lparr>file_name = ''a.png'', file_type = ''image/png'', file_size = 10\<rparr>"
      and attachmentId = "''a1''" and storagePath = "''k1/x7.png''" and content = "''hello''"
      and commentId = "''m1''"]
  note t4 = errors_caught [where st = "answering []"
      and m = "''permission denied''"
      and fs = "[]" and ev = "ex_env\<lparr>boardId := Some ''b2''\<rparr>" and h = ex_hook and b = "''b2''" and bd = ex_board
      and title = "''Review''" and columnId = "''c1''" and newPosition = 0 and cardId = "''k1''"
      and updates = "\<lparr>upd_title = Some ''Plan'', upd_description = None, upd_due_date = None,
        upd_priority = None\<rparr>"
      and userId = None and subtaskId = "''s1''" and isCompleted = True and random = "''x7''"
      and f = "\<lparr>file_name = ''a.png'', file_type = ''image/png'', file_size = 10\<rparr>"
      and attachmentId = "''a1''" and storagePath = "''k1/x7.png''" and content = "''hello''"
      and commentId = "''m1''"]
  note t5 = errors_caught [where st = "answering [None, None, None, Some ''permission denied'']"
      and m = "''permission denied''"
      and fs = "[Some ''permission denied'']" and ev = "ex_env" and h = ex_hook and b = "''b1''" and bd = ex_board
      and title = "''Review''" and columnId = "''c1''" and newPosition = 0 and cardId = "''k1''"
      and updates = "\<lparr>upd_title = Some ''Plan'', upd_description = None, upd_due_date = None,
        upd_priority = None\<rparr>"
      and userId = None and subtaskId = "''s1''" and isCompleted = True and random = "''x7''"
      and f = "\<lparr>file_name = ''a.png'', file_type = ''image/png'', file_size = 10\<rparr>"
      and attachmentId = "''a1''" and storagePath = "''k1/x7.png''" and content = "''hello''"
      and commentId = "''m1''"]
  from t1 have "fst (moveCard ex_env ''k1'' ''c1'' 0
      (ex_hook, answering [Some ''permission denied''])) = False"
    and "error (fst (snd (moveCard ex_env ''k1'' ''c1'' 0
      (ex_hook, answering [Some ''permission denied''])))) = Some ''Failed to move card''"
    and "console (fst (snd (moveCard ex_env ''k1'' ''c1'' 0
      (ex_hook, answering [Some ''permission denied''])))) =
      [(''Error moving card:'', Thrown ''permission denied'')]"
    and "error (fst (snd (uploadAttachment ex_env ''x7'' ''k1''
      \<lparr>file_name = ''a.png'', file_type = ''image/png'', file_size = 10\<rparr>
      (ex_hook, answering [Some ''permission denied''])))) = Some ''permission denied''"
    by (simp_all add: a)
  moreover from t2 have "error (fst (snd (uploadAttachment ex_env ''x7'' ''k1''
      \<lparr>file_name = ''a.png'', file_type = ''image/png'', file_size = 10\<rparr>
      (ex_hook, answering [None, Some ''permission denied''])))) =
      Some ''Failed to upload attachment''"
    and "error (fst (fetchBoard ex_env (ex_hook, answering [None, Some ''permission denied'']))) =
      Some ''Failed to fetch board''"
    by (simp_all add: a e)
  moreover from t2b have "fst (addCard ex_env ''c1'' ''Review''
      (ex_hook, answering [None, Some ''permission denied''])) \<noteq> None"
    and "fst (snd (addCard ex_env ''c1'' ''Review''
      (ex_hook, answering [None, Some ''permission denied'']))) = ex_hook"
    by (simp_all add: a e)
  moreover from t3 have "console (fst (fetchBoard ex_env
      (ex_hook, answering [None, None, Some ''permission denied'']))) =
      [(''Error fetching board:'', Thrown ''permission denied'')]"
    by (simp_all add: a e ex_queries)
  moreover from t3b have "fst (deleteAttachment ex_env ''a1'' ''k1/x7.png''
      (ex_hook, answering [None, None, Some ''permission denied''])) = True"
    by (simp add: a e)
  moreover from t4 have "console (fst (fetchBoard (ex_env\<lparr>boardId := Some ''b2''\<rparr>)
      (ex_hook, answering []))) = [(''Error fetching board:'', PGRST116)]"
    by (simp add: a ex_board_def)
  moreover from t5 have "error (fst (fetchBoard ex_env
      (ex_hook, answering [None, None, None, Some ''permission denied'']))) = None"
    by (simp add: a e)
  ultimately show ?thesis by simp
qed

section \<open>C3: which operations fetch the board again\<close>

lemma refetch:
  assumes "faults st = []" "boardId ev = Some b" "b \<noteq> []" "q_board st b = Inr bd"
    and "faults st2 = []" "tbl_boards st2 = tbl_boards st"
  shows "shows_store b (fetchBoard ev (h, st2))"
proof -
  have "q_board st2 b = Inr bd"
    using assms(4,6) by (simp add: q_board_def)
  from fetchBoard_ok [OF assms(5) assms(2,3) this] show ?thesis
    by (simp add: shows_store_def)
qed

lemma moveCard_refetches:
  assumes "faults st = []" "boardId ev = Some b" "b \<noteq> []" "q_board st b = Inr bd"
  shows "shows_store b (snd (moveCard ev cardId target pos (h, st)))"
  using assms(1)
  by (auto simp: moveCard_def request_ok Let_def split_beta logActivity_faults logActivity_rows
        split: option.splits intro!: refetch [OF assms])

lemma addColumn_refetches:
  assumes "faults st = []" "boardId ev = Some b" "b \<noteq> []" "q_board st b = Inr bd"
  shows "shows_store b (snd (addColumn ev title (h, st)))"
  using assms(1,2,3)
  by (auto simp: addColumn_def request_ok Let_def split_beta truthy_def
        intro!: refetch [OF assms])

lemma comment_refetches:
  assumes "faults st = []" "boardId ev = Some b" "b \<noteq> []" "q_board st b = Inr bd"
  shows "shows_store b (snd (addComment ev cardId content (h, st)))"
    and "shows_store b (snd (deleteComment ev commentId (h, st)))"
  using assms(1)
  by (auto simp: addComment_def deleteComment_def request_ok Let_def split_beta
        logActivity_faults logActivity_rows intro!: refetch [OF assms])

lemma uploadAttachment_refetches:
  assumes "faults st = []" "boardId ev = Some b" "b \<noteq> []" "q_board st b = Inr bd"
  shows "shows_store b (snd (uploadAttachment ev random cardId f (h, st)))"
  using assms(1)
  by (auto simp: uploadAttachment_def request_def storage_request_def Let_def split_beta
        logActivity_faults logActivity_rows intro!: refetch [OF assms])

lemma toggleSubtask_refetches:
  assumes "faults st = []" "boardId ev = Some b" "b \<noteq> []" "q_board st b = Inr bd"
  shows "shows_store b (snd (toggleSubtask ev subtaskId isCompleted (h, st)))"
proof -
  let ?st2 = "st\<lparr>tbl_subtasks := toggled subtaskId isCompleted (tbl_subtasks st)\<rparr>"
  have f: "faults ?st2 = []" and q: "q_board ?st2 b = Inr bd"
    using assms(1,4) by (simp_all add: q_board_def)
  note p = toggleSubtask_performed [OF request_ok [OF assms(1)], of ev subtaskId isCompleted h]
  show ?thesis
  proof (cases "if isCompleted then automation_target ev (columns h) subtaskId else None")
    case None
    with p have "snd (toggleSubtask ev subtaskId isCompleted (h, st)) = fetchBoard ev (h, ?st2)"
      by (simp add: split_beta)
    with refetch [OF assms f] show ?thesis by simp
  next
    case (Some t)
    with p have "snd (toggleSubtask ev subtaskId isCompleted (h, st)) =
        snd (moveCard ev (fst t) (column_id (snd t)) 0 (h, ?st2))"
      by (simp add: split_beta)
    with moveCard_refetches [OF f assms(2,3) q] show ?thesis by simp
  qed
qed

lemma no_refetch:
  "columns (fst (snd (updateColumn columnId title (h, st)))) = columns h"
  "columns (fst (snd (deleteColumn columnId (h, st)))) = columns h"
  "columns (fst (snd (reorderColumns columnId newPosition (h, st)))) = columns h"
  "columns (fst (snd (addCard ev columnId title (h, st)))) = columns h"
  "columns (fst (snd (updateCard ev cardId updates (h, st)))) = columns h"
  "columns (fst (snd (deleteCard cardId (h, st)))) = columns h"
  "columns (fst (snd (assignCard ev cardId userId (h, st)))) = columns h"
  "columns (fst (snd (deleteAttachment ev attachmentId storagePath (h, st)))) = columns h"
  by (simp_all add: updateColumn_def deleteColumn_def reorderColumns_def addCard_def
        updateCard_def deleteCard_def assignCard_def deleteAttachment_def Let_def catch_def
        split: prod.splits option.splits)

lemma boardView_titles: "map column_title (boardView st b) = map column_title (q_columns st b)"
  by (simp add: boardView_def columnsWithCards_def Let_def o_def column.extend_def)

lemma boardView_card_ids:
  "map (\<lambda>c. (column_id c, map card_id (cards c))) (boardView st b) =
   map (\<lambda>c. (column_id c,
               map card_id (filter (\<lambda>k. card_column_id k = column_id c)
                 (q_cards st (map column_id (q_columns st b))))))
     (q_columns st b)"
  by (simp add: boardView_def columnsWithCards_def Let_def o_def column.extend_def
        card.extend_def columnWithCards.fields_def)

text \<open>
  C3 as stated says that every mutating operation, on success, fetches the board again.
  updateColumn does not call fetchBoard: it renames the column in the store and returns
  true, and the hook still shows the old title.
\<close>

theorem refetch_after_mutation_counterexample:
  "fst (updateColumn ''c1'' ''Backlog'' (ex_hook, ex_store)) = True \<and>
   map column_title (columns (fst (snd (updateColumn ''c1'' ''Backlog'' (ex_hook, ex_store))))) =
     [''To Do'', ''In Progress'', ''Done''] \<and>
   map column_title (boardView (snd (snd (updateColumn ''c1'' ''Backlog'' (ex_hook, ex_store)))) ''b1'') =
     [''Backlog'', ''In Progress'', ''Done''] \<and>
   \<not> shows_store ''b1'' (snd (updateColumn ''c1'' ''Backlog'' (ex_hook, ex_store)))"
proof -
  have u: "updateColumn ''c1'' ''Backlog'' (ex_hook, ex_store) =
      (True, ex_hook,
       ex_store\<lparr>tbl_columns :=
         [mk_column ''c3'' ''Done'' 2 None, mk_column ''c1'' ''Backlog'' 0 None,
          mk_column ''c2'' ''In Progress'' 1 (Some 1)]\<rparr>)"
    by (simp add: updateColumn_def request_ok ex_store_rows mk_column_def)
  have h: "map column_title (columns ex_hook) = [''To Do'', ''In Progress'', ''Done'']"
    by (simp add: ex_columns ex_fields)
  have v: "map column_title (boardView (ex_store\<lparr>tbl_columns :=
         [mk_column ''c3'' ''Done'' 2 None, mk_column ''c1'' ''Backlog'' 0 None,
          mk_column ''c2'' ''In Progress'' 1 (Some 1)]\<rparr>) ''b1'') =
       [''Backlog'', ''In Progress'', ''Done'']"
    by (simp add: boardView_titles q_columns_def mk_column_def)
  have "columns ex_hook \<noteq> boardView (ex_store\<lparr>tbl_columns :=
         [mk_column ''c3'' ''Done'' 2 None, mk_column ''c1'' ''Backlog'' 0 None,
          mk_column ''c2'' ''In Progress'' 1 (Some 1)]\<rparr>) ''b1''"
  proof
    assume "columns ex_hook = boardView (ex_store\<lparr>tbl_columns :=
         [mk_column ''c3'' ''Done'' 2 None, mk_column ''c1'' ''Backlog'' 0 None,
          mk_column ''c2'' ''In Progress'' 1 (Some 1)]\<rparr>) ''b1''"
    then have "map column_title (columns ex_hook) = [''Backlog'', ''In Progress'', ''Done'']"
      by (simp only: v)
    with h show False by simp
  qed
  with h v show ?thesis
    by (simp add: u shows_store_def)
qed

text \<open>
  C3, amended. In a store that performs the requests and holds the board of the hook,
  addColumn, moveCard, addComment, deleteComment, uploadAttachment and toggleSubtask end
  with a fetch: afterwards the hook's columns are the view of the store. updateColumn,
  deleteColumn, reorderColumns, addCard, updateCard, deleteCard, assignCard and
  deleteAttachment do not fetch: they leave the hook's columns as they were, whatever the
  store answers (the view follows only when a change notification of the real-time
  channel calls fetchBoard).
\<close>

theorem refetch_after_mutation:
  assumes "faults st = []" "boardId ev = Some b" "b \<noteq> []" "q_board st b = Inr bd"
  shows
   "shows_store b (snd (addColumn ev title (h, st))) \<and>
    shows_store b (snd (moveCard ev cardId columnId newPosition (h, st))) \<and>
    shows_store b (snd (addComment ev cardId content (h, st))) \<and>
    shows_store b (snd (deleteComment ev commentId (h, st))) \<and>
    shows_store b (snd (uploadAttachment ev random cardId f (h, st))) \<and>
    shows_store b (snd (toggleSubtask ev subtaskId isCompleted (h, st))) \<and>
    columns (fst (snd (updateColumn columnId title (h, st)))) = columns h \<and>
    columns (fst (snd (deleteColumn columnId (h, st)))) = columns h \<and>
    columns (fst (snd (reorderColumns columnId newPosition (h, st)))) = columns h \<and>
    columns (fst (snd (addCard ev columnId title (h, st)))) = columns h \<and>
    columns (fst (snd (updateCard ev cardId updates (h, st)))) = columns h \<and>
    columns (fst (snd (deleteCard cardId (h, st)))) = columns h \<and>
    columns (fst (snd (assignCard ev cardId userId (h, st)))) = columns h \<and>
    columns (fst (snd (deleteAttachment ev attachmentId storagePath (h, st)))) = columns h"
  by (simp only: addColumn_refetches [OF assms] moveCard_refetches [OF assms]
        comment_refetches [OF assms] uploadAttachment_refetches [OF assms]
        toggleSubtask_refetches [OF assms] no_refetch simp_thms)

theorem refetch_after_mutation_witness:
  "shows_store ''b1'' (snd (moveCard ex_env ''k1'' ''c3'' 0 (ex_hook, ex_store))) \<and>
   map (\<lambda>c. (column_id c, map card_id (cards c)))
     (columns (fst (snd (moveCard ex_env ''k1'' ''c3'' 0 (ex_hook, ex_store))))) =
     [(''c1'', [''k3'']), (''c2'', [''k2'']), (''c3'', [''k1''])] \<and>
   columns (fst (snd (updateCard ex_env ''k1'' \<lparr>upd_title = Some ''Renamed'', upd_description = None,
       upd_due_date = None, upd_priority = None\<rparr> (ex_hook, ex_store)))) = [ex_c1, ex_c2, ex_c3]"
proof -
  note t = refetch_after_mutation [OF ex_store_rows(1) _ _ ex_q_board, where ev = ex_env
      and h = ex_hook and cardId = "''k1''" and columnId = "''c3''" and newPosition = 0]
  have b: "boardId ex_env = Some ''b1''" "''b1'' \<noteq> []"
    by (simp_all add: ex_env_def)
  note m = moveCard_ok [OF ex_store_rows(1), of ex_env "''k1''" "''c3''" 0 ex_hook]
  have "map (\<lambda>c. (column_id c, map card_id (cards c)))
     (boardView (snd (snd (moveCard ex_env ''k1'' ''c3'' 0 (ex_hook, ex_store)))) ''b1'') =
     [(''c1'', [''k3'']), (''c2'', [''k2'']), (''c3'', [''k1''])]"
    unfolding boardView_card_ids
    by (simp add: q_columns_def q_cards_def m ex_store_rows moved_def mk_card_def mk_column_def)
  with t [OF b] show ?thesis
    by (simp add: shows_store_def ex_columns)
qed

section \<open>C8 on the example board\<close>

text \<open>
  The filter on the label l1 and the priority medium keeps the card k1 alone; the default
  filter keeps the three columns as they are.
\<close>

theorem filteredColumns_conservative_witness:
  "filteredColumns ex_env (\<lambda>s. None) 0 DEFAULT_FILTER_STATE [ex_c1, ex_c2, ex_c3] = [ex_c1, ex_c2, ex_c3] \<and>
   map (\<lambda>c. (column_id c, map card_id (cards c)))
     (filteredColumns ex_env (\<lambda>s. None) 0
        \<lparr>searchQuery = [], filter_labels = [''l1''], priorities = [Medium], dateFilter = All\<rparr>
        [ex_c1, ex_c2, ex_c3]) =
     [(''c1'', [''k1'']), (''c2'', []), (''c3'', [])]"
proof -
  let ?fs = "\<lparr>searchQuery = [], filter_labels = [''l1''], priorities = [Medium],
     dateFilter = All\<rparr>"
  let ?v = "filteredColumns ex_env (\<lambda>s. None) 0 ?fs [ex_c1, ex_c2, ex_c3]"
  note t = filteredColumns_conservative [of ex_env "\<lambda>s. None" 0 "[ex_c1, ex_c2, ex_c3]" ?fs]
  from t have c: "map cards ?v = [[ex_k1], [], []]"
    by (simp add: ex_fields ex_passes)
  from t have "map column_id (map column.truncate ?v) = [''c1'', ''c2'', ''c3'']"
    by (simp add: ex_fields column.truncate_def)
  then have i: "map column_id ?v = [''c1'', ''c2'', ''c3'']"
    by (simp add: column.truncate_def o_def)
  have "map (\<lambda>c. (column_id c, map card_id (cards c))) ?v =
      zip (map column_id ?v) (map (map card_id) (map cards ?v))"
    by (simp add: zip_map_map o_def zip_same_conv_map)
  then have "map (\<lambda>c. (column_id c, map card_id (cards c))) ?v =
      [(''c1'', [''k1'']), (''c2'', []), (''c3'', [])]"
    by (simp only: c i) (simp add: ex_fields)
  with t show ?thesis by simp
qed

end
